theory Spec2Isabelle
  imports Complex_Main "HOL-Library.Char_ord" "HOL-Library.List_Lexorder" "HOL-Library.AList"
begin

section \<open>Python strings and os.path\<close>

text \<open>
  Strings are Python \<open>str\<close> restricted to ASCII; their order (\<open>sorted\<close>) is the
  lexicographic order on characters. Paths are POSIX paths and are compared as strings.
\<close>

type_synonym path = string

text \<open>\<open>str(n)\<close> for a natural number.\<close>

fun str_nat :: "nat \<Rightarrow> string" where
  "str_nat n =
     (if n < 10 then [''0123456789'' ! n]
      else str_nat (n div 10) @ [''0123456789'' ! (n mod 10)])"

declare str_nat.simps [simp del]

text \<open>
  The format specification \<open>{x:0wd}\<close> of an f-string: sign-aware zero padding to a
  minimum width \<open>w\<close>; a longer number is not truncated.
\<close>

definition format_d :: "nat \<Rightarrow> int \<Rightarrow> string" where
  "format_d w x =
     (let s = str_nat (nat \<bar>x\<bar>) in
      if x < 0 then ''-'' @ replicate (w - 1 - length s) (CHR ''0'') @ s
      else replicate (w - length s) (CHR ''0'') @ s)"

text \<open>\<open>os.path.join\<close> of two components.\<close>

definition join :: "path \<Rightarrow> path \<Rightarrow> path" where
  "join a b =
     (if b \<noteq> [] \<and> hd b = CHR ''/'' then b
      else if a = [] \<or> last a = CHR ''/'' then a @ b
      else a @ ''/'' @ b)"

text \<open>\<open>os.path.basename\<close> and \<open>os.path.dirname\<close>.\<close>

definition basename :: "path \<Rightarrow> string" where
  "basename p = rev (takeWhile (\<lambda>c. c \<noteq> CHR ''/'') (rev p))"

definition dirname :: "path \<Rightarrow> path" where
  "dirname p =
     (let h = rev (dropWhile (\<lambda>c. c \<noteq> CHR ''/'') (rev p)) in
      if h \<noteq> [] \<and> \<not> list_all (\<lambda>c. c = CHR ''/'') h
      then rev (dropWhile (\<lambda>c. c = CHR ''/'') (rev h)) else h)"

text \<open>
  The root part of \<open>os.path.splitext\<close>: the extension starts at the last dot of the
  last component, unless only dots precede it there.
\<close>

definition splitext_root :: "path \<Rightarrow> path" where
  "splitext_root p =
     (let b = basename p;
          ext = rev (takeWhile (\<lambda>c. c \<noteq> CHR ''.'') (rev b));
          stem = take (length b - length ext - 1) b
      in if CHR ''.'' \<in> set b \<and> \<not> list_all (\<lambda>c. c = CHR ''.'') stem
         then take (length p - length ext - 1) p else p)"

text \<open>\<open>s.split(c)\<close> for a one-character separator.\<close>

fun split_on :: "char \<Rightarrow> string \<Rightarrow> string list" where
  "split_on c [] = [[]]"
| "split_on c (x # xs) =
     (if x = c then [] # split_on c xs
      else (case split_on c xs of [] \<Rightarrow> [[x]] | h # t \<Rightarrow> (x # h) # t))"

text \<open>
  \<open>s.replace(old, new)\<close>: every non-overlapping occurrence, left to right. The scan
  below is for a non-empty \<open>old\<close>; \<open>replace\<close> adds Python's reading of the empty one.
\<close>

function replace_scan :: "string \<Rightarrow> string \<Rightarrow> string \<Rightarrow> string" where
  "replace_scan old new s =
     (if s = [] \<or> old = [] then s
      else if take (length old) s = old then new @ replace_scan old new (drop (length old) s)
      else hd s # replace_scan old new (tl s))"
  by pat_completeness auto
termination
  by (relation "measure (\<lambda>(old, new, s). length s)") auto

declare replace_scan.simps [simp del]

definition replace :: "string \<Rightarrow> string \<Rightarrow> string \<Rightarrow> string" where
  "replace s old new =
     (if old = [] then new @ concat (map (\<lambda>c. c # new) s) else replace_scan old new s)"

text \<open>
  \<open>fnmatch\<close> for the patterns this program builds: \<open>*\<close> matches any run of
  characters, \<open>?\<close> any one character, every other character itself. Bracket
  expressions are not interpreted.
\<close>

fun fnmatch :: "string \<Rightarrow> string \<Rightarrow> bool" where
  "fnmatch [] s = (s = [])"
| "fnmatch (p # ps) s =
     (if p = CHR ''*'' then list_ex (\<lambda>k. fnmatch ps (drop k s)) [0..<Suc (length s)]
      else (case s of [] \<Rightarrow> False
            | c # cs \<Rightarrow> (p = CHR ''?'' \<or> p = c) \<and> fnmatch ps cs))"

section \<open>Exceptions\<close>

text \<open>
  The exceptions this file raises itself, and the two ways a collaborator that is not
  part of this file can fail: with a member of the \<open>ECOSTRESSExitCodeException\<close>
  hierarchy (carrying its \<open>exit_code\<close>), or with any other exception.
\<close>

datatype failure = ExitCodeFailure int | OtherFailure string

datatype exn =
    IOError string
  | ValueError string
  | KeyError string
  | IndexError string
  | TypeError string
  | MissingRunConfigValue string
  | UnableToParseRunConfig string
  | LandFilter string
  | CollaboratorExitCode int
  | CollaboratorError string

fun exn_of :: "failure \<Rightarrow> exn" where
  "exn_of (ExitCodeFailure c) = CollaboratorExitCode c"
| "exn_of (OtherFailure s) = CollaboratorError s"

text \<open>
  Modelled from the spec: \<open>ECOSTRESS.exit_codes\<close> is imported, not defined, by this
  file. The spec calls its classes the known domain-exception hierarchy:
  \<open>MissingRunConfigValue\<close>, \<open>UnableToParseRunConfig\<close> and \<open>LandFilter\<close> are
  subclasses of \<open>ECOSTRESSExitCodeException\<close>, each with an \<open>exit_code\<close>. The
  numeric codes are a parameter.
\<close>

record exit_codes =
  SUCCESS_EXIT_CODE :: int
  MISSING_RUNCONFIG_VALUE :: int
  UNABLE_TO_PARSE_RUNCONFIG :: int
  LAND_FILTER :: int

fun isinstance_MissingRunConfigValue :: "exn \<Rightarrow> bool" where
  "isinstance_MissingRunConfigValue (MissingRunConfigValue m) = True"
| "isinstance_MissingRunConfigValue e = False"

fun isinstance_ECOSTRESSExitCodeException :: "exn \<Rightarrow> bool" where
  "isinstance_ECOSTRESSExitCodeException (MissingRunConfigValue m) = True"
| "isinstance_ECOSTRESSExitCodeException (UnableToParseRunConfig m) = True"
| "isinstance_ECOSTRESSExitCodeException (LandFilter m) = True"
| "isinstance_ECOSTRESSExitCodeException (CollaboratorExitCode c) = True"
| "isinstance_ECOSTRESSExitCodeException e = False"

text \<open>The attribute \<open>exit_code\<close>; only the members of the hierarchy have it.\<close>

fun exit_code :: "exit_codes \<Rightarrow> exn \<Rightarrow> int option" where
  "exit_code codes (MissingRunConfigValue m) = Some (MISSING_RUNCONFIG_VALUE codes)"
| "exit_code codes (UnableToParseRunConfig m) = Some (UNABLE_TO_PARSE_RUNCONFIG codes)"
| "exit_code codes (LandFilter m) = Some (LAND_FILTER codes)"
| "exit_code codes (CollaboratorExitCode c) = Some c"
| "exit_code codes e = None"

section \<open>Geometries, spatial indices and products\<close>

text \<open>
  The geometry and index objects come from collaborators (\<open>rasters\<close>,
  \<open>ECOSTRESS.scan_resampling\<close>). Their values are kept symbolic: a term records
  the call that produced the object. Floats are only passed through, except for the
  comparison of the land fraction with zero; they are reals here.
\<close>

datatype swath_geometry =
    Swath nat nat
  | clip_tails swath_geometry

datatype raster_grid =
    UTM swath_geometry real
  | geographic swath_geometry real
  | RasterGrid string

datatype kdtree =
    KDTree swath_geometry raster_grid real
  | ScanKDTree swath_geometry real nat
  | SuppliedKDTree string

text \<open>
  Modelled from the spec: \<open>generate_scan_kd_trees\<close> is imported from
  \<open>ECOSTRESS.scan_resampling\<close> and is not part of this file. The spec gives a swath
  geometry the shape scan-lines by cross-track pixels, and the scan-by-scan strategy
  one index per scan-line, ordered by scan-line number. \<open>Swath n m\<close> is a swath of
  \<open>n\<close> scan-lines by \<open>m\<close> pixels; clipping the tails removes pixels of every
  scan-line and no scan-line.
\<close>

fun scan_lines :: "swath_geometry \<Rightarrow> nat" where
  "scan_lines (Swath n m) = n"
| "scan_lines (clip_tails s) = scan_lines s"

definition generate_scan_kd_trees :: "swath_geometry \<Rightarrow> real \<Rightarrow> kdtree list" where
  "generate_scan_kd_trees s c = map (ScanKDTree s c) [0..<scan_lines s]"

datatype product = L1CG_RAD | L2G_LSTE | L2G_CLOUD

datatype swath_granule =
    L1BRAD path path path path
  | L2LSTE path path path
  | L2CLOUD path path

datatype gridded_granule =
    ExistingGranule product path
  | GriddedFromSwath product path

record from_swath_metadata =
  meta_variables :: "string list option"
  meta_PGE_name :: string
  meta_PGE_version :: string
  meta_build :: string
  meta_input_filenames :: "path list"
  meta_cell_size_degrees :: real
  meta_cell_size_meters :: real
  meta_projection_system :: string

section \<open>The file system and the trace of calls\<close>

datatype content =
    Directory
  | KDTreeFile kdtree
  | ProductFile product
  | BrowseImage product
  | TileFile product
  | File string

text \<open>
  The file system is an association list from paths to contents; its order is the
  order in which the operating system enumerates entries.
\<close>

type_synonym filesystem = "(path \<times> content) list"

text \<open>
  Every call that touches the file system or a collaborator is recorded, in program
  order. \<open>LogException\<close> is \<open>logger.exception\<close>; the informational log lines are
  not recorded.
\<close>

datatype event =
    ReadRunconfig path
  | NewL2LSTE path path path
  | ConfigureLog path
  | NewL1BRAD path path path path
  | OpenL2LSTE path path path
  | OpenL2CLOUD path path
  | Exists path
  | Glob string
  | KDTreeLoad path
  | KDTreeBuild swath_geometry raster_grid real
  | GenerateScanKDTrees swath_geometry real
  | Makedirs path
  | KDTreeSave kdtree path
  | OpenProduct product path
  | FromSwath product swath_granule path raster_grid
      "kdtree option" "kdtree list option" "path option" from_swath_metadata
  | WriteBrowseImage product path
  | ToTiles product path "string list option" "string list option"
  | ReadTemplate path
  | WriteRunconfig path
  | LogException exn

text \<open>
  A computation takes the file system and returns its result (a value, or the
  exception it raised), the file system it leaves and the calls it made.
\<close>

type_synonym 'a io = "filesystem \<Rightarrow> (exn + 'a) \<times> filesystem \<times> event list"

definition ret :: "'a \<Rightarrow> 'a io" where
  "ret x fs = (Inr x, fs, [])"

definition raise :: "exn \<Rightarrow> 'a io" where
  "raise e fs = (Inl e, fs, [])"

definition and_then :: "'a io \<Rightarrow> ('a \<Rightarrow> 'b io) \<Rightarrow> 'b io" where
  "and_then m f fs =
     (case m fs of
        (Inl e, fs1, t1) \<Rightarrow> (Inl e, fs1, t1)
      | (Inr x, fs1, t1) \<Rightarrow> (case f x fs1 of (r, fs2, t2) \<Rightarrow> (r, fs2, t1 @ t2)))"

definition try_except :: "'a io \<Rightarrow> (exn \<Rightarrow> 'a io) \<Rightarrow> 'a io" where
  "try_except m h fs =
     (case m fs of
        (Inl e, fs1, t1) \<Rightarrow> (case h e fs1 of (r, fs2, t2) \<Rightarrow> (r, fs2, t1 @ t2))
      | (Inr x, fs1, t1) \<Rightarrow> (Inr x, fs1, t1))"

definition emit :: "event \<Rightarrow> unit io" where
  "emit ev fs = (Inr (), fs, [ev])"

definition may_fail :: "failure option \<Rightarrow> unit io" where
  "may_fail f = (case f of None \<Rightarrow> ret () | Some x \<Rightarrow> raise (exn_of x))"

definition write_file :: "path \<Rightarrow> content \<Rightarrow> unit io" where
  "write_file p c fs = (Inr (), AList.update p c fs, [])"

definition result :: "(exn + 'a) \<times> filesystem \<times> event list \<Rightarrow> exn + 'a" where
  "result r = fst r"

definition files :: "(exn + 'a) \<times> filesystem \<times> event list \<Rightarrow> filesystem" where
  "files r = fst (snd r)"

definition calls :: "(exn + 'a) \<times> filesystem \<times> event list \<Rightarrow> event list" where
  "calls r = snd (snd r)"

text \<open>\<open>os.path.exists\<close>.\<close>

definition exists :: "path \<Rightarrow> bool io" where
  "exists p fs = (Inr (map_of fs p \<noteq> None), fs, [Exists p])"

text \<open>
  \<open>glob.has_magic\<close>: the pattern has one of the characters \<open>*\<close>, \<open>?\<close> and \<open>[\<close>.
\<close>

definition has_magic :: "string \<Rightarrow> bool" where
  "has_magic s = list_ex (\<lambda>c. c = CHR ''*'' \<or> c = CHR ''?'' \<or> c = CHR ''['') s"

text \<open>
  An entry of the directory part of the pattern whose name matches the last component
  of the pattern. A name starting with a dot is matched only by a pattern that starts
  with a dot.
\<close>

definition glob_match :: "string \<Rightarrow> path \<Rightarrow> bool" where
  "glob_match pattern p =
     (dirname p = dirname pattern \<and> basename p \<noteq> [] \<and>
      (hd (basename p) = CHR ''.'' \<longrightarrow> hd (basename pattern) = CHR ''.'') \<and>
      fnmatch (basename pattern) (basename p))"

text \<open>
  The patterns for which \<open>glob\<close> is written out below: the directory part has no
  wildcard, so that it names one directory, and the last component has the wildcards
  \<open>*\<close> and \<open>?\<close> and no bracket expression.
\<close>

definition glob_plain :: "string \<Rightarrow> bool" where
  "glob_plain pattern =
     (\<not> has_magic (dirname pattern) \<and> has_magic (basename pattern) \<and>
      CHR ''['' \<notin> set (basename pattern))"

text \<open>
  \<open>os.makedirs(p, exist_ok=True)\<close>. Only the directory itself is entered in the file
  system; an existing entry that is not a directory is \<open>FileExistsError\<close>, an
  \<open>OSError\<close>.
\<close>

definition makedirs :: "path \<Rightarrow> unit io" where
  "makedirs p fs =
     (case map_of fs p of
        None \<Rightarrow> (Inr (), AList.update p Directory fs, [Makedirs p])
      | Some Directory \<Rightarrow> (Inr (), fs, [Makedirs p])
      | Some c \<Rightarrow> (Inl (IOError p), fs, [Makedirs p]))"

section \<open>The collaborators\<close>

text \<open>
  What the code outside this file does in one run. A granule read from disk gives
  its time stamp (already formatted as \<open>%Y%m%dT%H%M%S\<close>), its land fraction
  and its swath geometry. A field ending in \<open>raises\<close> says whether the call
  fails, and how.
\<close>

record granule_info =
  time_UTC :: string
  land_percent :: real
  geometry :: swath_geometry

type_synonym runconfig_dict = "string \<rightharpoonup> (string \<rightharpoonup> string)"

record env =
  codes :: exit_codes
  PGEVersion :: string
  abspath :: "path \<Rightarrow> path"
  expanduser :: "path \<Rightarrow> path"
  py_int :: "string \<Rightarrow> int option"
  str_float :: "real \<Rightarrow> string"
  dateutil_parse :: "string \<Rightarrow> string option"
  read_runconfig :: "path \<Rightarrow> failure + runconfig_dict"
  new_L2LSTE :: "path \<Rightarrow> path \<Rightarrow> path \<Rightarrow> failure + granule_info"
  open_L2LSTE :: "path \<Rightarrow> path \<Rightarrow> path \<Rightarrow> failure + granule_info"
  new_L1BRAD_raises :: "failure option"
  open_L2CLOUD_raises :: "failure option"
  KDTree_raises :: "failure option"
  KDTree_save_raises :: "path \<Rightarrow> failure option"
  generate_scan_kd_trees_raises :: "failure option"
  open_product_raises :: "product \<Rightarrow> failure option"
  from_swath_raises :: "product \<Rightarrow> failure option"
  write_browse_image_raises :: "product \<Rightarrow> failure option"
  to_tiles_raises :: "product \<Rightarrow> failure option"
  tile_filenames :: "product \<Rightarrow> path list"
  glob_other :: "string \<Rightarrow> filesystem \<Rightarrow> path list"

definition collaborator :: "failure + 'a \<Rightarrow> 'a io" where
  "collaborator r = (case r of Inl f \<Rightarrow> raise (exn_of f) | Inr x \<Rightarrow> ret x)"

text \<open>
  \<open>glob\<close>. For a pattern as above it lists the directory, keeps the names that match
  the last component and returns each as \<open>os.path.join(directory, name)\<close>, in the
  order of the enumeration. What it returns for any other pattern (it expands the
  wildcards of the directory part, reads bracket expressions, and only tests the
  existence of a pattern without wildcard) is the parameter \<open>glob_other\<close>.
\<close>

definition glob :: "env \<Rightarrow> string \<Rightarrow> path list io" where
  "glob E pattern fs =
     (Inr (if glob_plain pattern
           then map (\<lambda>p. join (dirname pattern) (basename p))
                  (filter (glob_match pattern) (map fst fs))
           else glob_other E pattern fs),
      fs, [Glob pattern])"

text \<open>\<open>d[k]\<close> on a dictionary.\<close>

definition getitem :: "(string \<rightharpoonup> 'v) \<Rightarrow> string \<Rightarrow> 'v io" where
  "getitem d k = (case d k of None \<Rightarrow> raise (KeyError k) | Some v \<Rightarrow> ret v)"

text \<open>\<open>int(s)\<close>.\<close>

definition int_of :: "env \<Rightarrow> string \<Rightarrow> int io" where
  "int_of E s = (case py_int E s of None \<Rightarrow> raise (ValueError s) | Some i \<Rightarrow> ret i)"

text \<open>\<open>raise exn\<close> when the condition holds.\<close>

definition raise_if :: "bool \<Rightarrow> exn \<Rightarrow> unit io" where
  "raise_if b e = (if b then raise e else ret ())"

section \<open>The run-config: class L2GL2TRADLSTEConfig\<close>

record L2GL2TRADLSTEConfig =
  working_directory :: path
  log_filename :: path
  output_directory :: path
  L2_LSTE_filename :: path
  L2_CLOUD_filename :: path
  L1B_GEO_filename :: path
  L1B_RAD_filename :: path
  orbit :: int
  scene :: int
  production_datetime :: string
  build :: string
  product_counter :: int
  granule_ID :: string
  L2G_granule_ID :: string
  L1CG_RAD_filename :: path
  L2G_LSTE_filename :: path
  L2G_CLOUD_filename :: path
  PGE_name :: string
  PGE_version :: string

definition PGE_NAME :: string where
  "PGE_NAME = ''L1_L2_RAD_LSTE''"

text \<open>The granule identifier of a product, \<open>ECOv002_<product>_<orbit>_<scene>_...\<close>.\<close>

definition granule_name :: "string \<Rightarrow> int \<Rightarrow> int \<Rightarrow> string \<Rightarrow> string \<Rightarrow> int \<Rightarrow> string" where
  "granule_name name orb scn timestamp bld counter =
     ''ECOv002_'' @ name @ ''_'' @ format_d 5 orb @ ''_'' @ format_d 3 scn @ ''_'' @
     timestamp @ ''_'' @ bld @ ''_'' @ format_d 2 counter"

text \<open>The membership test \<open>k in runconfig[g]\<close>, and \<open>runconfig[g][k]\<close>.\<close>

definition contains2 :: "runconfig_dict \<Rightarrow> string \<Rightarrow> string \<Rightarrow> bool io" where
  "contains2 rc g k = and_then (getitem rc g) (\<lambda>d. ret (d k \<noteq> None))"

definition getitem2 :: "runconfig_dict \<Rightarrow> string \<Rightarrow> string \<Rightarrow> string io" where
  "getitem2 rc g k = and_then (getitem rc g) (\<lambda>d. getitem d k)"

definition missing :: "string \<Rightarrow> path \<Rightarrow> exn" where
  "missing what filename =
     MissingRunConfigValue (''missing '' @ what @ '' in L1_L2_RAD_LSTE run-config: '' @ filename)"

text \<open>
  The four messages near the end of the constructor have no colon after
  \<open>run-config\<close>.
\<close>

definition missing' :: "string \<Rightarrow> path \<Rightarrow> exn" where
  "missing' what filename =
     MissingRunConfigValue (''missing '' @ what @ '' in L1_L2_RAD_LSTE run-config '' @ filename)"

text \<open>
  The values that the \<open>try\<close> block of \<open>__init__\<close> reads from the run-config
  before it opens the granule (lines 293 to 374).
\<close>

record runconfig_values =
  rc_working_directory :: path
  rc_output_directory :: path
  rc_L2_LSTE_filename :: path
  rc_L2_CLOUD_filename :: path
  rc_L1B_GEO_filename :: path
  rc_L1B_RAD_filename :: path
  rc_orbit :: int
  rc_scene :: int
  rc_production_datetime :: string
  rc_build :: string
  rc_product_counter :: int

definition config_values :: "env \<Rightarrow> path \<Rightarrow> runconfig_dict \<Rightarrow> runconfig_values io" where
  "config_values E filename rc =
     and_then (raise_if (rc ''StaticAncillaryFileGroup'' = None)
                 (missing ''StaticAncillaryFileGroup'' filename)) (\<lambda>_.
     and_then (contains2 rc ''StaticAncillaryFileGroup'' ''L2G_L2T_WORKING'') (\<lambda>has.
     and_then (raise_if (\<not> has)
                 (missing ''StaticAncillaryFileGroup/L2G_L2T_WORKING'' filename)) (\<lambda>_.
     and_then (getitem2 rc ''StaticAncillaryFileGroup'' ''L2G_L2T_WORKING'') (\<lambda>wd.
     and_then (raise_if (rc ''ProductPathGroup'' = None)
                 (missing ''ProductPathGroup'' filename)) (\<lambda>_.
     and_then (contains2 rc ''ProductPathGroup'' ''ProductPath'') (\<lambda>has.
     and_then (raise_if (\<not> has) (missing ''ProductPathGroup/ProductPath'' filename)) (\<lambda>_.
     and_then (getitem2 rc ''ProductPathGroup'' ''ProductPath'') (\<lambda>outdir.
     and_then (raise_if (rc ''InputFileGroup'' = None)
                 (missing ''InputFileGroup'' filename)) (\<lambda>_.
     and_then (contains2 rc ''InputFileGroup'' ''L2_LSTE'') (\<lambda>has.
     and_then (raise_if (\<not> has) (missing ''InputFileGroup/L2_LSTE'' filename)) (\<lambda>_.
     and_then (getitem2 rc ''InputFileGroup'' ''L2_LSTE'') (\<lambda>lste.
     and_then (contains2 rc ''InputFileGroup'' ''L2_CLOUD'') (\<lambda>has.
     and_then (raise_if (\<not> has) (missing ''InputFileGroup/L2_CLOUD'' filename)) (\<lambda>_.
     and_then (getitem2 rc ''InputFileGroup'' ''L2_CLOUD'') (\<lambda>cloud.
     and_then (contains2 rc ''InputFileGroup'' ''L1B_GEO'') (\<lambda>has.
     and_then (raise_if (\<not> has) (missing ''InputFileGroup/L1B_GEO'' filename)) (\<lambda>_.
     and_then (getitem2 rc ''InputFileGroup'' ''L1B_GEO'') (\<lambda>geo.
     and_then (contains2 rc ''InputFileGroup'' ''L1B_RAD'') (\<lambda>has.
     and_then (raise_if (\<not> has) (missing ''InputFileGroup/L1B_RAD'' filename)) (\<lambda>_.
     and_then (getitem2 rc ''InputFileGroup'' ''L1B_RAD'') (\<lambda>rad.
     and_then (getitem2 rc ''Geometry'' ''OrbitNumber'') (\<lambda>orbit_text.
     and_then (int_of E orbit_text) (\<lambda>orb.
     and_then (contains2 rc ''Geometry'' ''SceneId'') (\<lambda>has.
     and_then (raise_if (\<not> has) (missing ''Geometry/SceneId'' filename)) (\<lambda>_.
     and_then (getitem2 rc ''Geometry'' ''SceneId'') (\<lambda>scene_text.
     and_then (int_of E scene_text) (\<lambda>scn.
     and_then (contains2 rc ''JobIdentification'' ''ProductionDateTime'') (\<lambda>has.
     and_then (raise_if (\<not> has)
                 (missing' ''JobIdentification/ProductionDateTime'' filename)) (\<lambda>_.
     and_then (getitem2 rc ''JobIdentification'' ''ProductionDateTime'') (\<lambda>date_text.
     and_then (case dateutil_parse E date_text of
                 None \<Rightarrow> raise (ValueError date_text) | Some d \<Rightarrow> ret d) (\<lambda>prod_dt.
     and_then (contains2 rc ''PrimaryExecutable'' ''BuildID'') (\<lambda>has.
     and_then (raise_if (\<not> has) (missing' ''PrimaryExecutable/BuildID'' filename)) (\<lambda>_.
     and_then (getitem2 rc ''PrimaryExecutable'' ''BuildID'') (\<lambda>bld.
     and_then (contains2 rc ''ProductPathGroup'' ''ProductCounter'') (\<lambda>has.
     and_then (raise_if (\<not> has) (missing' ''ProductPathGroup/ProductCounter'' filename)) (\<lambda>_.
     and_then (getitem2 rc ''ProductPathGroup'' ''ProductCounter'') (\<lambda>counter_text.
     and_then (int_of E counter_text) (\<lambda>counter.
     ret \<lparr> rc_working_directory = abspath E wd,
           rc_output_directory = abspath E outdir,
           rc_L2_LSTE_filename = abspath E lste,
           rc_L2_CLOUD_filename = abspath E cloud,
           rc_L1B_GEO_filename = abspath E geo,
           rc_L1B_RAD_filename = abspath E rad,
           rc_orbit = orb,
           rc_scene = scn,
           rc_production_datetime = prod_dt,
           rc_build = bld,
           rc_product_counter = counter \<rparr>))))))))))))))))))))))))))))))))))))))"

text \<open>
  The rest of the \<open>try\<close> block (lines 376 to 419): the granule is opened, an ocean
  scene raises \<open>LandFilter\<close>, and the names of the run are put together.
\<close>

definition config_fields :: "env \<Rightarrow> runconfig_values \<Rightarrow> granule_info \<Rightarrow> L2GL2TRADLSTEConfig" where
  "config_fields E v granule =
     (let timestamp = time_UTC granule;
          orb = rc_orbit v; scn = rc_scene v; bld = rc_build v; counter = rc_product_counter v;
          gid = granule_name ''L1_L2_RAD_LSTE'' orb scn timestamp bld counter;
          rad_gid = granule_name ''L1CG_RAD'' orb scn timestamp bld counter;
          lste_gid = granule_name ''L2G_LSTE'' orb scn timestamp bld counter;
          cloud_gid = granule_name ''L2G_CLOUD'' orb scn timestamp bld counter
      in \<lparr>
          working_directory = rc_working_directory v,
          log_filename =
            abspath E (expanduser E (join (join (rc_working_directory v) ''log'') (gid @ ''.log''))),
          output_directory = rc_output_directory v,
          L2_LSTE_filename = rc_L2_LSTE_filename v,
          L2_CLOUD_filename = rc_L2_CLOUD_filename v,
          L1B_GEO_filename = rc_L1B_GEO_filename v,
          L1B_RAD_filename = rc_L1B_RAD_filename v,
          orbit = orb,
          scene = scn,
          production_datetime = rc_production_datetime v,
          build = bld,
          product_counter = counter,
          granule_ID = gid,
          L2G_granule_ID = rad_gid,
          L1CG_RAD_filename = join (rc_output_directory v) (rad_gid @ ''.h5''),
          L2G_LSTE_filename = join (rc_output_directory v) (lste_gid @ ''.h5''),
          L2G_CLOUD_filename = join (rc_output_directory v) (cloud_gid @ ''.h5''),
          PGE_name = PGE_NAME,
          PGE_version = PGEVersion E
        \<rparr>)"

definition land_filter :: "env \<Rightarrow> granule_info \<Rightarrow> exn" where
  "land_filter E granule =
     LandFilter (''skipping ocean scene with OverAllLandFraction value of '' @
                 str_float E (land_percent granule))"

definition config_body :: "env \<Rightarrow> path \<Rightarrow> runconfig_dict \<Rightarrow> L2GL2TRADLSTEConfig io" where
  "config_body E filename rc =
     and_then (config_values E filename rc) (\<lambda>v.
     and_then (emit (NewL2LSTE (rc_L2_LSTE_filename v) (rc_L2_CLOUD_filename v)
                       (rc_L1B_GEO_filename v))) (\<lambda>_.
     and_then (collaborator (new_L2LSTE E (rc_L2_LSTE_filename v) (rc_L2_CLOUD_filename v)
                               (rc_L1B_GEO_filename v))) (\<lambda>granule.
     and_then (raise_if (land_percent granule = 0) (land_filter E granule)) (\<lambda>_.
     ret (config_fields E v granule)))))"

text \<open>
  The \<open>except\<close> clauses of \<open>__init__\<close>: a \<open>MissingRunConfigValue\<close> and any other
  \<open>ECOSTRESSExitCodeException\<close> are raised again as they are; every other exception
  is logged and replaced by \<open>UnableToParseRunConfig\<close>.
\<close>

definition config_except :: "path \<Rightarrow> exn \<Rightarrow> L2GL2TRADLSTEConfig io" where
  "config_except filename e =
     (if isinstance_MissingRunConfigValue e then raise e
      else if isinstance_ECOSTRESSExitCodeException e then raise e
      else and_then (emit (LogException e)) (\<lambda>_.
             raise (UnableToParseRunConfig (''unable to parse run-config file: '' @ filename))))"

text \<open>The constructor; \<open>read_runconfig\<close> is called before the \<open>try\<close> block.\<close>

definition new_L2GL2TRADLSTEConfig :: "env \<Rightarrow> path \<Rightarrow> L2GL2TRADLSTEConfig io" where
  "new_L2GL2TRADLSTEConfig E filename =
     and_then (emit (ReadRunconfig filename)) (\<lambda>_.
     and_then (collaborator (read_runconfig E filename)) (\<lambda>rc.
     try_except (config_body E filename rc) (config_except filename)))"

section \<open>The orchestrator: function L1_L2_RAD_LSTE\<close>

text \<open>The parameters of the function, with the names they have in the source.\<close>

record params =
  runconfig_filename :: path
  tiles :: "string list option"
  variables :: "string list option"
  process_tiles :: bool
  cell_size_degrees :: real
  cell_size_meters :: real
  gridded_geometry :: "raster_grid option"
  kd_tree :: "kdtree option"
  scan_kd_trees :: "kdtree list option"
  kd_tree_path :: "path option"
  search_radius_meters :: real
  overlap_strategy :: string
  projection_system :: string
  strip_console :: bool

text \<open>
  The local variables that the later parts of the function read. The five after
  \<open>v_runconfig\<close> are assigned more than once in the source; a field holds the
  current value of the variable of the same name.
\<close>

record locals =
  v_runconfig :: L2GL2TRADLSTEConfig
  v_swath_geometry :: swath_geometry
  v_gridded_geometry :: raster_grid
  v_kd_tree :: "kdtree option"
  v_scan_kd_trees :: "kdtree list option"
  v_kd_tree_path :: "path option"

subsection \<open>From the run-config to the grid (lines 453 to 552)\<close>

definition choose_grid :: "params \<Rightarrow> swath_geometry \<Rightarrow> raster_grid io" where
  "choose_grid P swath =
     (case gridded_geometry P of
        Some g \<Rightarrow> ret g
      | None \<Rightarrow>
          if projection_system P = ''local_UTM'' then ret (UTM swath (cell_size_meters P))
          else if projection_system P = ''global_geographic''
          then ret (geographic swath (cell_size_degrees P))
          else raise (ValueError (''unrecognized projection system: '' @ projection_system P)))"

text \<open>
  \<open>p is not None and exists(p)\<close>: the file system is asked only for a path that is
  not \<open>None\<close>.
\<close>

definition not_None_and_exists :: "path option \<Rightarrow> bool io" where
  "not_None_and_exists p = (case p of None \<Rightarrow> ret False | Some q \<Rightarrow> exists q)"

text \<open>
  Lines 453 to 501: the run-config is read and the three input granules are opened.
  The result is the run-config and the swath geometry of the \<open>L2_LSTE\<close> granule.
\<close>

definition open_inputs :: "env \<Rightarrow> params \<Rightarrow> (L2GL2TRADLSTEConfig \<times> swath_geometry) io" where
  "open_inputs E P =
     and_then (new_L2GL2TRADLSTEConfig E (runconfig_filename P)) (\<lambda>runconfig.
     let wd = working_directory runconfig;
         gid = granule_ID runconfig;
         lste = L2_LSTE_filename runconfig;
         cloud = L2_CLOUD_filename runconfig;
         geo = L1B_GEO_filename runconfig;
         rad = L1B_RAD_filename runconfig
     in
     and_then (emit (ConfigureLog (join (join wd ''log'') (gid @ ''.log'')))) (\<lambda>_.
     and_then (emit (NewL1BRAD rad cloud lste geo)) (\<lambda>_.
     and_then (may_fail (new_L1BRAD_raises E)) (\<lambda>_.
     and_then (emit (OpenL2LSTE lste cloud geo)) (\<lambda>_.
     and_then (collaborator (open_L2LSTE E lste cloud geo)) (\<lambda>L2_LSTE_granule.
     and_then (emit (OpenL2CLOUD cloud geo)) (\<lambda>_.
     and_then (may_fail (open_L2CLOUD_raises E)) (\<lambda>_.
     ret (runconfig, geometry L2_LSTE_granule)))))))))"

text \<open>
  Lines 513 and 514: a path that the caller left \<open>None\<close> becomes
  \<open><working directory>/<granule ID>.kdtree\<close>.
\<close>

definition default_kd_tree_path :: "L2GL2TRADLSTEConfig \<Rightarrow> path option \<Rightarrow> path option" where
  "default_kd_tree_path runconfig p =
     (case p of
        None \<Rightarrow> Some (join (working_directory runconfig) (granule_ID runconfig @ ''.kdtree''))
      | Some q \<Rightarrow> Some q)"

text \<open>
  Lines 513 to 552: the path of the index, the grid, and the warning when the path
  does not exist (only the call of \<open>exists\<close> is kept of the warning).
\<close>

definition prepare :: "env \<Rightarrow> params \<Rightarrow> locals io" where
  "prepare E P =
     and_then (open_inputs E P) (\<lambda>inputs.
     let runconfig = fst inputs;
         swath = snd inputs;
         path = default_kd_tree_path runconfig (kd_tree_path P)
     in
     and_then (choose_grid P swath) (\<lambda>grid.
     and_then (not_None_and_exists path) (\<lambda>_.
     ret \<lparr> v_runconfig = runconfig,
           v_swath_geometry = swath,
           v_gridded_geometry = grid,
           v_kd_tree = kd_tree P,
           v_scan_kd_trees = scan_kd_trees P,
           v_kd_tree_path = path \<rparr>)))"

subsection \<open>The spatial index (lines 556 to 651)\<close>

text \<open>
  \<open>KDTree.load\<close> returns the index that the file holds, whatever geometry it was
  built for; a path that holds no index makes it fail.
\<close>

definition KDTree_load :: "path \<Rightarrow> kdtree io" where
  "KDTree_load p fs =
     (case map_of fs p of
        Some (KDTreeFile t) \<Rightarrow> (Inr t, fs, [KDTreeLoad p])
      | _ \<Rightarrow> (Inl (CollaboratorError ''KDTree.load''), fs, [KDTreeLoad p]))"

definition KDTree_new :: "env \<Rightarrow> swath_geometry \<Rightarrow> raster_grid \<Rightarrow> real \<Rightarrow> kdtree io" where
  "KDTree_new E source target radius =
     and_then (emit (KDTreeBuild source target radius)) (\<lambda>_.
     and_then (may_fail (KDTree_raises E)) (\<lambda>_.
     ret (KDTree source target radius)))"

definition KDTree_save :: "env \<Rightarrow> kdtree \<Rightarrow> path \<Rightarrow> unit io" where
  "KDTree_save E t p =
     and_then (emit (KDTreeSave t p)) (\<lambda>_.
     and_then (may_fail (KDTree_save_raises E p)) (\<lambda>_.
     write_file p (KDTreeFile t)))"

text \<open>
  The whole-swath index of the \<open>checkerboard\<close> and \<open>remove_105_128\<close> branches: loaded
  when the path is not \<open>None\<close> and exists, built otherwise, and saved after the build
  when the path is not \<open>None\<close>.
\<close>

definition whole_swath_index :: "env \<Rightarrow> params \<Rightarrow> locals \<Rightarrow> locals io" where
  "whole_swath_index E P L =
     and_then (not_None_and_exists (v_kd_tree_path L)) (\<lambda>found.
     case v_kd_tree_path L of
       Some p \<Rightarrow>
         if found then and_then (KDTree_load p) (\<lambda>t. ret (L\<lparr>v_kd_tree := Some t\<rparr>))
         else
           and_then (KDTree_new E (v_swath_geometry L) (v_gridded_geometry L)
                       (search_radius_meters P)) (\<lambda>t.
           and_then (KDTree_save E t p) (\<lambda>_. ret (L\<lparr>v_kd_tree := Some t\<rparr>)))
     | None \<Rightarrow>
         and_then (KDTree_new E (v_swath_geometry L) (v_gridded_geometry L)
                     (search_radius_meters P)) (\<lambda>t.
         ret (L\<lparr>v_kd_tree := Some t\<rparr>)))"

text \<open>The list comprehension \<open>[KDTree.load(filename) for filename in ...]\<close>.\<close>

fun load_scan_kd_trees :: "path list \<Rightarrow> kdtree list io" where
  "load_scan_kd_trees [] = ret []"
| "load_scan_kd_trees (filename # rest) =
     and_then (KDTree_load filename) (\<lambda>t.
     and_then (load_scan_kd_trees rest) (\<lambda>ts. ret (t # ts)))"

text \<open>
  The loop \<open>for i, kd_tree in enumerate(scan_kd_trees)\<close>, from index \<open>i\<close> on: it
  assigns the variables \<open>kd_tree\<close> and \<open>kd_tree_path\<close> of the function.
\<close>

definition scan_filename :: "path \<Rightarrow> nat \<Rightarrow> path" where
  "scan_filename directory i = join directory (format_d 2 (int i) @ ''.kdtree'')"

fun save_scan_kd_trees :: "env \<Rightarrow> path \<Rightarrow> nat \<Rightarrow> kdtree list \<Rightarrow> locals \<Rightarrow> locals io" where
  "save_scan_kd_trees E directory i [] L = ret L"
| "save_scan_kd_trees E directory i (t # ts) L =
     and_then (KDTree_save E t (scan_filename directory i)) (\<lambda>_.
     save_scan_kd_trees E directory (Suc i) ts
       (L\<lparr>v_kd_tree := Some t, v_kd_tree_path := Some (scan_filename directory i)\<rparr>))"

definition build_scan_kd_trees :: "env \<Rightarrow> params \<Rightarrow> locals \<Rightarrow> kdtree list io" where
  "build_scan_kd_trees E P L =
     and_then (emit (GenerateScanKDTrees (v_swath_geometry L) (cell_size_degrees P))) (\<lambda>_.
     and_then (may_fail (generate_scan_kd_trees_raises E)) (\<lambda>_.
     ret (generate_scan_kd_trees (v_swath_geometry L) (cell_size_degrees P))))"

definition scan_by_scan_index :: "env \<Rightarrow> params \<Rightarrow> locals \<Rightarrow> locals io" where
  "scan_by_scan_index E P L =
     (case v_scan_kd_trees L of
        Some supplied \<Rightarrow> ret L
      | None \<Rightarrow>
          and_then (not_None_and_exists (v_kd_tree_path L)) (\<lambda>found.
          case v_kd_tree_path L of
            Some directory \<Rightarrow>
              if found then
                and_then (glob E (join directory ''*.kdtree'')) (\<lambda>filenames.
                and_then (load_scan_kd_trees (sort filenames)) (\<lambda>ts.
                ret (L\<lparr>v_scan_kd_trees := Some ts\<rparr>)))
              else
                and_then (build_scan_kd_trees E P L) (\<lambda>ts.
                and_then (makedirs directory) (\<lambda>_.
                save_scan_kd_trees E directory 0 ts (L\<lparr>v_scan_kd_trees := Some ts\<rparr>)))
          | None \<Rightarrow>
              and_then (build_scan_kd_trees E P L) (\<lambda>ts.
              ret (L\<lparr>v_scan_kd_trees := Some ts\<rparr>))))"

definition resolve_index :: "env \<Rightarrow> params \<Rightarrow> locals \<Rightarrow> locals io" where
  "resolve_index E P L =
     (if overlap_strategy P = ''checkerboard'' then whole_swath_index E P L
      else if overlap_strategy P = ''scan_by_scan'' then scan_by_scan_index E P L
      else if overlap_strategy P = ''remove_105_128''
      then whole_swath_index E P (L\<lparr>v_swath_geometry := clip_tails (v_swath_geometry L)\<rparr>)
      else raise (ValueError (''unrecognized overlap strategy: '' @ overlap_strategy P)))"

subsection \<open>The three products (lines 653 to 756)\<close>

fun product_filename :: "L2GL2TRADLSTEConfig \<Rightarrow> product \<Rightarrow> path" where
  "product_filename c L1CG_RAD = L1CG_RAD_filename c"
| "product_filename c L2G_LSTE = L2G_LSTE_filename c"
| "product_filename c L2G_CLOUD = L2G_CLOUD_filename c"

definition browse_filename :: "L2GL2TRADLSTEConfig \<Rightarrow> product \<Rightarrow> path" where
  "browse_filename c p = replace (product_filename c p) ''.h5'' ''.png''"

fun input_filenames :: "L2GL2TRADLSTEConfig \<Rightarrow> product \<Rightarrow> path list" where
  "input_filenames c L1CG_RAD = [L2_CLOUD_filename c, L1B_GEO_filename c, L1B_RAD_filename c]"
| "input_filenames c L2G_LSTE =
     [L2_LSTE_filename c, L2_CLOUD_filename c, L1B_GEO_filename c, L1B_RAD_filename c]"
| "input_filenames c L2G_CLOUD = [L2_CLOUD_filename c, L1B_GEO_filename c]"

fun swath_granule_of :: "L2GL2TRADLSTEConfig \<Rightarrow> product \<Rightarrow> swath_granule" where
  "swath_granule_of c L1CG_RAD =
     L1BRAD (L1B_RAD_filename c) (L2_CLOUD_filename c) (L2_LSTE_filename c) (L1B_GEO_filename c)"
| "swath_granule_of c L2G_LSTE =
     L2LSTE (L2_LSTE_filename c) (L2_CLOUD_filename c) (L1B_GEO_filename c)"
| "swath_granule_of c L2G_CLOUD = L2CLOUD (L2_CLOUD_filename c) (L1B_GEO_filename c)"

definition metadata :: "env \<Rightarrow> params \<Rightarrow> L2GL2TRADLSTEConfig \<Rightarrow> product \<Rightarrow> from_swath_metadata" where
  "metadata E P c p =
     \<lparr> meta_variables = variables P,
       meta_PGE_name = ''L1_L2_RAD_LSTE'',
       meta_PGE_version = PGEVersion E,
       meta_build = build c,
       meta_input_filenames = input_filenames c p,
       meta_cell_size_degrees = cell_size_degrees P,
       meta_cell_size_meters = cell_size_meters P,
       meta_projection_system = projection_system P \<rparr>"

text \<open>
  The constructor of a gridded granule on an existing file, and the collaborators
  that write: \<open>from_swath\<close> writes the primary file, \<open>write_browse_image\<close> the
  image, \<open>to_tiles\<close> the tile files. A call that fails writes nothing.
\<close>

definition open_product :: "env \<Rightarrow> product \<Rightarrow> path \<Rightarrow> gridded_granule io" where
  "open_product E p filename =
     and_then (emit (OpenProduct p filename)) (\<lambda>_.
     and_then (may_fail (open_product_raises E p)) (\<lambda>_.
     ret (ExistingGranule p filename)))"

definition from_swath :: "env \<Rightarrow> params \<Rightarrow> locals \<Rightarrow> product \<Rightarrow> gridded_granule io" where
  "from_swath E P L p =
     (let c = v_runconfig L; filename = product_filename c p in
      and_then (emit (FromSwath p (swath_granule_of c p) filename (v_gridded_geometry L)
                        (v_kd_tree L) (v_scan_kd_trees L) (v_kd_tree_path L)
                        (metadata E P c p))) (\<lambda>_.
      and_then (may_fail (from_swath_raises E p)) (\<lambda>_.
      and_then (write_file filename (ProductFile p)) (\<lambda>_.
      ret (GriddedFromSwath p filename)))))"

definition write_browse_image :: "env \<Rightarrow> product \<Rightarrow> path \<Rightarrow> unit io" where
  "write_browse_image E p PNG_filename =
     and_then (emit (WriteBrowseImage p PNG_filename)) (\<lambda>_.
     and_then (may_fail (write_browse_image_raises E p)) (\<lambda>_.
     write_file PNG_filename (BrowseImage p)))"

fun write_files :: "path list \<Rightarrow> content \<Rightarrow> unit io" where
  "write_files [] c = ret ()"
| "write_files (f # rest) c = and_then (write_file f c) (\<lambda>_. write_files rest c)"

definition to_tiles :: "env \<Rightarrow> params \<Rightarrow> locals \<Rightarrow> product \<Rightarrow> unit io" where
  "to_tiles E P L p =
     and_then (emit (ToTiles p (output_directory (v_runconfig L)) (tiles P) (variables P))) (\<lambda>_.
     and_then (may_fail (to_tiles_raises E p)) (\<lambda>_.
     write_files (tile_filenames E p) (TileFile p)))"

text \<open>
  \<open>exists(primary) and exists(browse)\<close>: the second call is made only when the first
  returned \<open>True\<close>.
\<close>

definition both_exist :: "path \<Rightarrow> path \<Rightarrow> bool io" where
  "both_exist a b = and_then (exists a) (\<lambda>found. if found then exists b else ret False)"

text \<open>
  The blocks of \<open>L1CG_RAD\<close> (lines 681 to 687) and \<open>L2G_LSTE\<close> (lines 721 to 727)
  end with the tiling of the granule when \<open>process_tiles\<close> holds; the block of
  \<open>L2G_CLOUD\<close> (lines 729 to 756) has no tiling.
\<close>

fun tiled :: "product \<Rightarrow> bool" where
  "tiled L1CG_RAD = True"
| "tiled L2G_LSTE = True"
| "tiled L2G_CLOUD = False"

text \<open>
  One product: the source has this block three times, for \<open>L1CG_RAD\<close>, \<open>L2G_LSTE\<close>
  and \<open>L2G_CLOUD\<close>, differing in the granule class, the swath granule, the file names,
  the list of input files and the tiling.
\<close>

definition product_stage :: "env \<Rightarrow> params \<Rightarrow> locals \<Rightarrow> product \<Rightarrow> gridded_granule io" where
  "product_stage E P L p =
     (let c = v_runconfig L in
      and_then (both_exist (product_filename c p) (browse_filename c p)) (\<lambda>found.
      and_then
        (if found then open_product E p (product_filename c p)
         else and_then (from_swath E P L p) (\<lambda>g.
              and_then (write_browse_image E p (browse_filename c p)) (\<lambda>_. ret g))) (\<lambda>g.
      and_then (if process_tiles P \<and> tiled p then to_tiles E P L p else ret ()) (\<lambda>_.
      ret g))))"

definition products :: "env \<Rightarrow> params \<Rightarrow> locals \<Rightarrow> unit io" where
  "products E P L0 =
     (let L = L0\<lparr>v_gridded_geometry := geographic (v_swath_geometry L0) (cell_size_degrees P)\<rparr>
      in
      and_then (product_stage E P L L1CG_RAD) (\<lambda>_.
      and_then (not_None_and_exists (v_kd_tree_path L)) (\<lambda>_.
      and_then (product_stage E P L L2G_LSTE) (\<lambda>_.
      and_then (product_stage E P L L2G_CLOUD) (\<lambda>_.
      ret ())))))"

subsection \<open>The function\<close>

definition try_body :: "env \<Rightarrow> params \<Rightarrow> unit io" where
  "try_body E P =
     and_then (prepare E P) (\<lambda>L.
     and_then (resolve_index E P L) (\<lambda>L'.
     products E P L'))"

text \<open>
  The only \<open>except\<close> clause of the function: an \<open>ECOSTRESSExitCodeException\<close> is
  logged and its \<open>exit_code\<close> returned. Any other exception leaves the function.
\<close>

definition except_exit_code :: "env \<Rightarrow> exn \<Rightarrow> int io" where
  "except_exit_code E e =
     (if isinstance_ECOSTRESSExitCodeException e then
        and_then (emit (LogException e)) (\<lambda>_.
        case exit_code (codes E) e of Some c \<Rightarrow> ret c | None \<Rightarrow> raise e)
      else raise e)"

definition L1_L2_RAD_LSTE :: "env \<Rightarrow> params \<Rightarrow> int io" where
  "L1_L2_RAD_LSTE E P =
     try_except
       (and_then (try_body E P) (\<lambda>_. ret (SUCCESS_EXIT_CODE (codes E))))
       (except_exit_code E)"

section \<open>Writing a run-config: function generate_L1_L2_RAD_LSTE_runconfig\<close>

text \<open>
  The arguments of the function, each with the prefix \<open>arg\<close>; all but the first
  default to \<open>None\<close>. A \<open>datetime\<close> is kept as the string that \<open>str\<close> gives for it,
  so that lines 168 and 169 change nothing here.
\<close>

record generate_args =
  arg_L2_LSTE_filename :: path
  arg_L2_CLOUD_filename :: "path option"
  arg_L1B_GEO_filename :: "path option"
  arg_L1B_RAD_filename :: "path option"
  arg_orbit :: "int option"
  arg_scene :: "int option"
  arg_working_directory :: "path option"
  arg_executable_filename :: "path option"
  arg_output_directory :: "path option"
  arg_runconfig_filename :: "path option"
  arg_log_filename :: "path option"
  arg_build :: "string option"
  arg_processing_node :: "string option"
  arg_production_datetime :: "string option"
  arg_job_ID :: "string option"
  arg_instance_ID :: "string option"
  arg_product_counter :: "int option"
  arg_template_filename :: "path option"

text \<open>
  What the function asks of the machine it runs on: \<open>shutil.which\<close>,
  \<open>socket.gethostname()\<close>, \<open>str(datetime.utcnow())\<close>, \<open>str(uuid4())\<close>, and the
  path of the template beside the module (line 34).
\<close>

record host =
  which :: "string \<Rightarrow> path option"
  gethostname :: string
  utcnow :: string
  uuid4 :: string
  L1_L2_RAD_LSTE_TEMPLATE :: path

definition DEFAULT_OUTPUT_DIRECTORY :: string where
  "DEFAULT_OUTPUT_DIRECTORY = ''L1_L2_RAD_LSTE_output''"

text \<open>
  \<open>os.path.join(a, b)\<close> with a first component that may be \<open>None\<close>:
  \<open>os.fspath(None)\<close> raises \<open>TypeError\<close>.
\<close>

definition join_None :: exn where
  "join_None = TypeError ''expected str, bytes or os.PathLike object, not NoneType''"

definition join_opt :: "path option \<Rightarrow> path \<Rightarrow> path io" where
  "join_opt a b = (case a of None \<Rightarrow> raise join_None | Some d \<Rightarrow> ret (join d b))"

text \<open>\<open>xs[-k]\<close> for \<open>k\<close> from 1 on.\<close>

definition from_end :: "'a list \<Rightarrow> nat \<Rightarrow> 'a io" where
  "from_end xs k =
     (if k \<le> length xs then ret (xs ! (length xs - k))
      else raise (IndexError ''list index out of range''))"

text \<open>
  The search for an input granule beside the \<open>L2_LSTE\<close> file (lines 89 to 103, and the
  same for \<open>L1B_GEO\<close> and \<open>L1B_RAD\<close>): first with the build in the pattern, then
  without it; the last candidate in lexical order is taken.
\<close>

definition find_granule ::
  "env \<Rightarrow> string \<Rightarrow> string \<Rightarrow> path \<Rightarrow> int \<Rightarrow> int \<Rightarrow> string \<Rightarrow> path io" where
  "find_granule E name label directory orb scn bld =
     and_then (glob E (join directory
                 (''*_'' @ name @ ''_'' @ format_d 5 orb @ ''_'' @ format_d 3 scn @
                  ''_*_'' @ bld @ ''_*.h5''))) (\<lambda>found.
     and_then (if sort found = []
               then and_then (glob E (join directory
                               (''*_'' @ name @ ''_'' @ format_d 5 orb @ ''_'' @
                                format_d 3 scn @ ''_*.h5''))) (\<lambda>again. ret (sort again))
               else ret (sort found)) (\<lambda>candidates.
     if candidates = []
     then raise (ValueError (''no '' @ label @ '' filename given or found''))
     else ret (last candidates)))"

text \<open>
  Lines 67 to 152: the \<open>L2_LSTE\<close> file must exist; orbit, scene and build are read from
  its name when they are not given; the other inputs are searched for when they are
  not given; the template and the executable get their defaults.
\<close>

record found_inputs =
  found_L2_LSTE_filename :: path
  found_orbit :: int
  found_scene :: int
  found_build :: string
  found_L2_CLOUD_filename :: path
  found_L1B_GEO_filename :: path
  found_L1B_RAD_filename :: path
  found_template_filename :: path
  found_executable_filename :: path

definition find_inputs :: "env \<Rightarrow> host \<Rightarrow> generate_args \<Rightarrow> found_inputs io" where
  "find_inputs E H A =
     (let lste = abspath E (expanduser E (arg_L2_LSTE_filename A)) in
      and_then (exists lste) (\<lambda>found.
      and_then (raise_if (\<not> found) (IOError (''L2 LSTE file not found: '' @ lste))) (\<lambda>_.
      let source_granule_ID = splitext_root (basename lste);
          parts = split_on (CHR ''_'') source_granule_ID;
          directory = abspath E (expanduser E (dirname lste))
      in
      and_then (case arg_orbit A of
                  None \<Rightarrow> and_then (from_end parts 5) (int_of E)
                | Some n \<Rightarrow> ret n) (\<lambda>orb.
      and_then (case arg_scene A of
                  None \<Rightarrow> and_then (from_end parts 4) (int_of E)
                | Some n \<Rightarrow> ret n) (\<lambda>scn.
      and_then (case arg_build A of
                  None \<Rightarrow> from_end parts 2
                | Some b \<Rightarrow> ret b) (\<lambda>bld.
      and_then (case arg_L2_CLOUD_filename A of
                  None \<Rightarrow> find_granule E ''L2_CLOUD'' ''L2 CLOUD'' directory orb scn bld
                | Some f \<Rightarrow> ret f) (\<lambda>cloud.
      and_then (case arg_L1B_GEO_filename A of
                  None \<Rightarrow> find_granule E ''L1B_GEO'' ''L1B GEO'' directory orb scn bld
                | Some f \<Rightarrow> ret f) (\<lambda>geo.
      and_then (case arg_L1B_RAD_filename A of
                  None \<Rightarrow> find_granule E ''L1B_RAD'' ''L1B RAD'' directory orb scn bld
                | Some f \<Rightarrow> ret f) (\<lambda>rad.
      ret \<lparr> found_L2_LSTE_filename = lste,
            found_orbit = orb,
            found_scene = scn,
            found_build = bld,
            found_L2_CLOUD_filename = cloud,
            found_L1B_GEO_filename = geo,
            found_L1B_RAD_filename = rad,
            found_template_filename =
              abspath E (expanduser E
                (case arg_template_filename A of
                   None \<Rightarrow> L1_L2_RAD_LSTE_TEMPLATE H | Some f \<Rightarrow> f)),
            found_executable_filename =
              (case arg_executable_filename A of
                 Some f \<Rightarrow> f
               | None \<Rightarrow>
                   (case which H ''L1_L2_RAD_LSTE'' of
                      Some f \<Rightarrow> f | None \<Rightarrow> ''L1_L2_RAD_LSTE'')) \<rparr>)))))))))"

text \<open>
  \<open>open(p, "r").read()\<close> and \<open>open(p, "w").write(s)\<close>. A path that does not exist or
  is a directory cannot be read, and a directory cannot be written to: \<open>OSError\<close>.
  A file that holds no text cannot be decoded: \<open>UnicodeDecodeError\<close>, a
  \<open>ValueError\<close>.
\<close>

definition read_text :: "path \<Rightarrow> string io" where
  "read_text p fs =
     (case map_of fs p of
        Some (File s) \<Rightarrow> (Inr s, fs, [ReadTemplate p])
      | Some Directory \<Rightarrow> (Inl (IOError p), fs, [ReadTemplate p])
      | None \<Rightarrow> (Inl (IOError p), fs, [ReadTemplate p])
      | Some c \<Rightarrow> (Inl (ValueError p), fs, [ReadTemplate p]))"

definition write_text :: "path \<Rightarrow> string \<Rightarrow> unit io" where
  "write_text p s fs =
     (case map_of fs p of
        Some Directory \<Rightarrow> (Inl (IOError p), fs, [WriteRunconfig p])
      | _ \<Rightarrow> (Inr (), AList.update p (File s) fs, [WriteRunconfig p]))"

text \<open>The values that lines 220 to 252 put into the template, in this order.\<close>

record template_values =
  t_orbit :: int
  t_scene :: int
  t_L2_LSTE_filename :: path
  t_L2_CLOUD_filename :: path
  t_L1B_GEO_filename :: path
  t_L1B_RAD_filename :: path
  t_working_directory :: path
  t_executable_filename :: path
  t_output_directory :: path
  t_runconfig_filename :: path
  t_log_filename :: path
  t_build :: string
  t_processing_node :: string
  t_production_datetime :: string
  t_job_ID :: string
  t_instance_ID :: string
  t_product_counter :: int

definition fill_template :: "string \<Rightarrow> template_values \<Rightarrow> string" where
  "fill_template template v =
     fold (\<lambda>(old, new) text. replace text old new)
       [(''orbit_number'', format_d 5 (t_orbit v)),
        (''scene_ID'', format_d 3 (t_scene v)),
        (''L2_LSTE_filename'', t_L2_LSTE_filename v),
        (''L2_CLOUD_filename'', t_L2_CLOUD_filename v),
        (''L1B_GEO_filename'', t_L1B_GEO_filename v),
        (''L1B_RAD_filename'', t_L1B_RAD_filename v),
        (''working_directory'', t_working_directory v),
        (''executable_filename'', t_executable_filename v),
        (''output_directory'', t_output_directory v),
        (''runconfig_filename'', t_runconfig_filename v),
        (''log_filename'', t_log_filename v),
        (''build_ID'', t_build v),
        (''processing_node'', t_processing_node v),
        (''production_datetime'', t_production_datetime v),
        (''job_ID'', t_job_ID v),
        (''instance_ID'', t_instance_ID v),
        (''product_counter'', format_d 2 (t_product_counter v))]
       template"

text \<open>
  Lines 154 to 260. \<open>working_directory\<close> gets its default only at lines 208 and 209,
  after it has been joined with the default names of the output directory (line 155),
  of the run-config (line 196) and of the log (line 204). The test of \<open>build\<close> at
  line 159 cannot hold after line 87.
\<close>

definition write_runconfig ::
  "env \<Rightarrow> host \<Rightarrow> generate_args \<Rightarrow> found_inputs \<Rightarrow> path io" where
  "write_runconfig E H A I =
     and_then (case arg_output_directory A of
                 None \<Rightarrow> join_opt (arg_working_directory A) DEFAULT_OUTPUT_DIRECTORY
               | Some d \<Rightarrow> ret d) (\<lambda>outdir.
     let output_directory = abspath E (expanduser E outdir);
         processing_node =
           (case arg_processing_node A of None \<Rightarrow> gethostname H | Some n \<Rightarrow> n);
         production_datetime =
           (case arg_production_datetime A of None \<Rightarrow> utcnow H | Some t \<Rightarrow> t);
         job_ID = (case arg_job_ID A of None \<Rightarrow> production_datetime | Some j \<Rightarrow> j);
         instance_ID = (case arg_instance_ID A of None \<Rightarrow> uuid4 H | Some i \<Rightarrow> i);
         product_counter = (case arg_product_counter A of None \<Rightarrow> 1 | Some c \<Rightarrow> c);
         lste = abspath E (expanduser E (found_L2_LSTE_filename I));
         cloud = abspath E (expanduser E (found_L2_CLOUD_filename I));
         geo = abspath E (expanduser E (found_L1B_GEO_filename I))
     in
     and_then (emit (NewL2LSTE lste cloud geo)) (\<lambda>_.
     and_then (collaborator (new_L2LSTE E lste cloud geo)) (\<lambda>L2_LSTE_granule.
     let gid = granule_name ''L1_L2_RAD_LSTE'' (found_orbit I) (found_scene I)
                 (time_UTC L2_LSTE_granule) (found_build I) product_counter
     in
     and_then (case arg_runconfig_filename A of
                 None \<Rightarrow>
                   and_then (join_opt (arg_working_directory A) ''runconfig'') (\<lambda>d.
                   ret (join d (gid @ ''.xml'')))
               | Some f \<Rightarrow> ret f) (\<lambda>named.
     let runconfig_filename = abspath E (expanduser E named) in
     and_then (exists runconfig_filename) (\<lambda>found.
     if found then ret runconfig_filename
     else
       and_then (case arg_log_filename A of
                   None \<Rightarrow>
                     and_then (join_opt (arg_working_directory A) ''log'') (\<lambda>d.
                     ret (join d (gid @ ''.log'')))
                 | Some f \<Rightarrow> ret f) (\<lambda>logged.
       let log_filename = abspath E (expanduser E logged);
           working_directory =
             abspath E (expanduser E
               (case arg_working_directory A of None \<Rightarrow> gid | Some w \<Rightarrow> w))
       in
       and_then (read_text (found_template_filename I)) (\<lambda>template.
       and_then (makedirs (dirname (abspath E runconfig_filename))) (\<lambda>_.
       and_then (write_text runconfig_filename
                   (fill_template template
                      \<lparr> t_orbit = found_orbit I,
                        t_scene = found_scene I,
                        t_L2_LSTE_filename = lste,
                        t_L2_CLOUD_filename = cloud,
                        t_L1B_GEO_filename = geo,
                        t_L1B_RAD_filename = found_L1B_RAD_filename I,
                        t_working_directory = working_directory,
                        t_executable_filename = found_executable_filename I,
                        t_output_directory = output_directory,
                        t_runconfig_filename = runconfig_filename,
                        t_log_filename = log_filename,
                        t_build = found_build I,
                        t_processing_node = processing_node,
                        t_production_datetime = production_datetime,
                        t_job_ID = job_ID,
                        t_instance_ID = instance_ID,
                        t_product_counter = product_counter \<rparr>)) (\<lambda>_.
       ret runconfig_filename)))))))))"

definition generate_L1_L2_RAD_LSTE_runconfig :: "env \<Rightarrow> host \<Rightarrow> generate_args \<Rightarrow> path io" where
  "generate_L1_L2_RAD_LSTE_runconfig E H A =
     and_then (find_inputs E H A) (write_runconfig E H A)"

section \<open>An example run\<close>

text \<open>
  A scene of three scan lines by four pixels over land, a complete run-config, and
  collaborators that never fail. The exit codes are example numbers.
\<close>

definition example_codes :: exit_codes where
  "example_codes =
     \<lparr> SUCCESS_EXIT_CODE = 0, MISSING_RUNCONFIG_VALUE = 2,
       UNABLE_TO_PARSE_RUNCONFIG = 3, LAND_FILTER = 4 \<rparr>"

definition example_runconfig :: runconfig_dict where
  "example_runconfig =
     [''StaticAncillaryFileGroup'' \<mapsto> [''L2G_L2T_WORKING'' \<mapsto> ''/w''],
      ''ProductPathGroup'' \<mapsto> [''ProductPath'' \<mapsto> ''/o'', ''ProductCounter'' \<mapsto> ''1''],
      ''InputFileGroup'' \<mapsto>
        [''L2_LSTE'' \<mapsto> ''/i/lste.h5'', ''L2_CLOUD'' \<mapsto> ''/i/cloud.h5'',
         ''L1B_GEO'' \<mapsto> ''/i/geo.h5'', ''L1B_RAD'' \<mapsto> ''/i/rad.h5''],
      ''Geometry'' \<mapsto> [''OrbitNumber'' \<mapsto> ''7'', ''SceneId'' \<mapsto> ''5''],
      ''JobIdentification'' \<mapsto> [''ProductionDateTime'' \<mapsto> ''2020-01-01''],
      ''PrimaryExecutable'' \<mapsto> [''BuildID'' \<mapsto> ''0700'']]"

definition example_values :: runconfig_values where
  "example_values =
     \<lparr> rc_working_directory = ''/w'',
       rc_output_directory = ''/o'',
       rc_L2_LSTE_filename = ''/i/lste.h5'',
       rc_L2_CLOUD_filename = ''/i/cloud.h5'',
       rc_L1B_GEO_filename = ''/i/geo.h5'',
       rc_L1B_RAD_filename = ''/i/rad.h5'',
       rc_orbit = 7,
       rc_scene = 5,
       rc_production_datetime = ''2020-01-01'',
       rc_build = ''0700'',
       rc_product_counter = 1 \<rparr>"

definition example_granule :: granule_info where
  "example_granule =
     \<lparr> time_UTC = ''20200101T000000'', land_percent = 50, geometry = Swath 3 4 \<rparr>"

definition example_env :: env where
  "example_env =
     \<lparr> codes = example_codes,
       PGEVersion = ''v2'',
       abspath = (\<lambda>p. p),
       expanduser = (\<lambda>p. p),
       py_int = map_of [(''7'', 7), (''5'', 5), (''1'', 1)],
       str_float = (\<lambda>x. if x = 0 then ''0.0'' else ''50.0''),
       dateutil_parse = Some,
       read_runconfig = (\<lambda>f. Inr example_runconfig),
       new_L2LSTE = (\<lambda>a b c. Inr example_granule),
       open_L2LSTE = (\<lambda>a b c. Inr example_granule),
       new_L1BRAD_raises = None,
       open_L2CLOUD_raises = None,
       KDTree_raises = None,
       KDTree_save_raises = (\<lambda>p. None),
       generate_scan_kd_trees_raises = None,
       open_product_raises = (\<lambda>p. None),
       from_swath_raises = (\<lambda>p. None),
       write_browse_image_raises = (\<lambda>p. None),
       to_tiles_raises = (\<lambda>p. None),
       tile_filenames = (\<lambda>p. []),
       glob_other = (\<lambda>pattern fs. []) \<rparr>"

definition example_params :: params where
  "example_params =
     \<lparr> runconfig_filename = ''/rc.xml'',
       tiles = None,
       variables = None,
       process_tiles = True,
       cell_size_degrees = 7 / 10000,
       cell_size_meters = 70,
       gridded_geometry = None,
       kd_tree = None,
       scan_kd_trees = None,
       kd_tree_path = None,
       search_radius_meters = 100,
       overlap_strategy = ''checkerboard'',
       projection_system = ''global_geographic'',
       strip_console = False \<rparr>"

text \<open>The same scene, all ocean.\<close>

definition ocean_granule :: granule_info where
  "ocean_granule = example_granule\<lparr>land_percent := 0\<rparr>"

definition ocean_env :: env where
  "ocean_env = example_env\<lparr>new_L2LSTE := (\<lambda>a b c. Inr ocean_granule)\<rparr>"

section \<open>Predicates on computations\<close>

text \<open>A computation that makes no call and leaves the file system as it is.\<close>

definition silent :: "'a io \<Rightarrow> bool" where
  "silent m = (\<forall>fs. files (m fs) = fs \<and> calls (m fs) = [])"

text \<open>Every call of the computation satisfies \<open>Q\<close>, on every file system.\<close>

definition all_calls :: "(event \<Rightarrow> bool) \<Rightarrow> 'a io \<Rightarrow> bool" where
  "all_calls Q m = (\<forall>fs. list_all Q (calls (m fs)))"

text \<open>Every exception that the computation raises satisfies \<open>A\<close>.\<close>

definition raises_only :: "(exn \<Rightarrow> bool) \<Rightarrow> 'a io \<Rightarrow> bool" where
  "raises_only A m = (\<forall>fs e. result (m fs) = Inl e \<longrightarrow> A e)"

fun isinstance_ValueError :: "exn \<Rightarrow> bool" where
  "isinstance_ValueError (ValueError m) = True"
| "isinstance_ValueError e = False"

text \<open>
  The part of the function a call belongs to: 0 for reading the run-config and
  opening the input granules, 1 for the work on the spatial index, 2, 3 and 4 for the
  products \<open>L1CG_RAD\<close>, \<open>L2G_LSTE\<close> and \<open>L2G_CLOUD\<close>. The calls of
  \<open>exists\<close> and of the logger occur in several parts and have no number.
\<close>

fun product_phase :: "product \<Rightarrow> nat" where
  "product_phase L1CG_RAD = 2"
| "product_phase L2G_LSTE = 3"
| "product_phase L2G_CLOUD = 4"

fun phase :: "event \<Rightarrow> nat option" where
  "phase (ReadRunconfig f) = Some 0"
| "phase (NewL2LSTE a b c) = Some 0"
| "phase (ConfigureLog f) = Some 0"
| "phase (NewL1BRAD a b c d) = Some 0"
| "phase (OpenL2LSTE a b c) = Some 0"
| "phase (OpenL2CLOUD a b) = Some 0"
| "phase (Glob s) = Some 1"
| "phase (KDTreeLoad f) = Some 1"
| "phase (KDTreeBuild s g r) = Some 1"
| "phase (GenerateScanKDTrees s c) = Some 1"
| "phase (Makedirs f) = Some 1"
| "phase (KDTreeSave t f) = Some 1"
| "phase (OpenProduct p f) = Some (product_phase p)"
| "phase (FromSwath p g f grid kt skt kp m) = Some (product_phase p)"
| "phase (WriteBrowseImage p f) = Some (product_phase p)"
| "phase (ToTiles p f a b) = Some (product_phase p)"
| "phase (Exists f) = None"
| "phase (ReadTemplate f) = None"
| "phase (WriteRunconfig f) = None"
| "phase (LogException e) = None"

definition in_phase :: "nat \<Rightarrow> event \<Rightarrow> bool" where
  "in_phase k e = (phase e = None \<or> phase e = Some k)"

text \<open>The example run with a strategy name that the function does not know.\<close>

definition edge_params :: params where
  "edge_params = example_params\<lparr>overlap_strategy := ''remove_edge_overlap''\<rparr>"

text \<open>What \<open>prepare\<close> returns in the example run.\<close>

definition example_locals :: locals where
  "example_locals =
     \<lparr> v_runconfig = config_fields example_env example_values example_granule,
       v_swath_geometry = Swath 3 4,
       v_gridded_geometry = geographic (Swath 3 4) (7 / 10000),
       v_kd_tree = None,
       v_scan_kd_trees = None,
       v_kd_tree_path =
         Some ''/w/ECOv002_L1_L2_RAD_LSTE_00007_005_20200101T000000_0700_01.kdtree'' \<rparr>"


definition incomplete_env :: env where
  "incomplete_env =
     example_env\<lparr>read_runconfig := (\<lambda>f. Inr (example_runconfig(''Geometry'' := None)))\<rparr>"


text \<open>Every value that the computation returns satisfies \<open>Q\<close>.\<close>

definition returns_only :: "('a \<Rightarrow> bool) \<Rightarrow> 'a io \<Rightarrow> bool" where
  "returns_only Q m = (\<forall>fs x. result (m fs) = Inr x \<longrightarrow> Q x)"

text \<open>The grid that a call of \<open>from_swath\<close> is given.\<close>

fun grid_arg :: "event \<Rightarrow> raster_grid option" where
  "grid_arg (FromSwath p g f grid kt skt kp m) = Some grid"
| "grid_arg e = None"

text \<open>
  The example run with a projection name that the function does not know, and with the
  strategy that clips the tails.
\<close>

definition projected_params :: params where
  "projected_params = example_params\<lparr>projection_system := ''local_projected''\<rparr>"

definition clip_params :: params where
  "clip_params = example_params\<lparr>overlap_strategy := ''remove_105_128''\<rparr>"

definition clipped_kdtree :: kdtree where
  "clipped_kdtree = KDTree (clip_tails (Swath 3 4)) (geographic (Swath 3 4) (7 / 10000)) 100"

text \<open>The index of the example run and the path where it is kept.\<close>

definition example_index_path :: path where
  "example_index_path = ''/w/ECOv002_L1_L2_RAD_LSTE_00007_005_20200101T000000_0700_01.kdtree''"

definition example_kdtree :: kdtree where
  "example_kdtree = KDTree (Swath 3 4) (geographic (Swath 3 4) (7 / 10000)) 100"

text \<open>The calls that build a product: \<open>from_swath\<close> and \<open>write_browse_image\<close>.\<close>

fun builder_call :: "event \<Rightarrow> bool" where
  "builder_call (FromSwath p g f grid kt skt kp m) = True"
| "builder_call (WriteBrowseImage p f) = True"
| "builder_call e = False"

text \<open>
  A file system that holds the two outputs of the \<open>L2G_LSTE\<close> product of the
  example run, written by an earlier run.
\<close>

definition produced_fs :: filesystem where
  "produced_fs =
     [(''/o/ECOv002_L2G_LSTE_00007_005_20200101T000000_0700_01.h5'', File ''earlier run''),
      (''/o/ECOv002_L2G_LSTE_00007_005_20200101T000000_0700_01.png'', File ''earlier image'')]"

text \<open>
  The example run with a collaborator \<open>to_tiles\<close> that writes one tile file for each
  granule it is called on.
\<close>

definition tiling_env :: env where
  "tiling_env = example_env\<lparr>tile_filenames := (\<lambda>p. [''/o/tiles/11SPS.h5''])\<rparr>"

definition example_LSTE_filename :: path where
  "example_LSTE_filename = ''/o/ECOv002_L2G_LSTE_00007_005_20200101T000000_0700_01.h5''"

definition example_LSTE_browse_filename :: path where
  "example_LSTE_browse_filename = ''/o/ECOv002_L2G_LSTE_00007_005_20200101T000000_0700_01.png''"

text \<open>The calls that build a spatial index.\<close>

fun is_build :: "event \<Rightarrow> bool" where
  "is_build (KDTreeBuild s g r) = True"
| "is_build (GenerateScanKDTrees s c) = True"
| "is_build e = False"

text \<open>
  The three index arguments of a call of \<open>from_swath\<close>: \<open>kd_tree\<close>,
  \<open>scan_kd_trees\<close> and \<open>kd_tree_path\<close>.
\<close>

fun index_args :: "event \<Rightarrow> (kdtree option \<times> kdtree list option \<times> path option) option" where
  "index_args (FromSwath p g f grid kt skt kp m) = Some (kt, skt, kp)"
| "index_args e = None"

text \<open>The product that a call starts: the opening of its file, or its builder.\<close>

fun started_product :: "event \<Rightarrow> product option" where
  "started_product (OpenProduct p f) = Some p"
| "started_product (FromSwath p g f grid kt skt kp m) = Some p"
| "started_product e = None"

text \<open>The file system that the example run leaves: the index and the six outputs.\<close>

definition complete_fs :: filesystem where
  "complete_fs =
     [(example_index_path, KDTreeFile example_kdtree),
      (''/o/ECOv002_L1CG_RAD_00007_005_20200101T000000_0700_01.h5'', ProductFile L1CG_RAD),
      (''/o/ECOv002_L1CG_RAD_00007_005_20200101T000000_0700_01.png'', BrowseImage L1CG_RAD),
      (''/o/ECOv002_L2G_LSTE_00007_005_20200101T000000_0700_01.h5'', ProductFile L2G_LSTE),
      (''/o/ECOv002_L2G_LSTE_00007_005_20200101T000000_0700_01.png'', BrowseImage L2G_LSTE),
      (''/o/ECOv002_L2G_CLOUD_00007_005_20200101T000000_0700_01.h5'', ProductFile L2G_CLOUD),
      (''/o/ECOv002_L2G_CLOUD_00007_005_20200101T000000_0700_01.png'', BrowseImage L2G_CLOUD)]"

text \<open>The opening of an existing product file.\<close>

fun is_open :: "event \<Rightarrow> bool" where
  "is_open (OpenProduct p f) = True"
| "is_open e = False"

text \<open>A computation that builds at most \<open>n\<close> spatial indices.\<close>

definition at_most_builds :: "nat \<Rightarrow> 'a io \<Rightarrow> bool" where
  "at_most_builds n m = (\<forall>fs. length (filter is_build (calls (m fs))) \<le> n)"

text \<open>The products in the order of the source.\<close>

definition all_products :: "product list" where
  "all_products = [L1CG_RAD, L2G_LSTE, L2G_CLOUD]"

text \<open>
  The values of \<open>kd_tree\<close>, \<open>scan_kd_trees\<close> and \<open>kd_tree_path\<close> when the work on
  the index has returned; \<open>None\<close> when the run has ended before.
\<close>

definition resolved_index ::
  "env \<Rightarrow> params \<Rightarrow> filesystem \<Rightarrow> (kdtree option \<times> kdtree list option \<times> path option) option"
  where
  "resolved_index E P fs =
     (case result (prepare E P fs) of
        Inl e \<Rightarrow> None
      | Inr L \<Rightarrow>
          (case result (resolve_index E P L (files (prepare E P fs))) of
             Inl e \<Rightarrow> None
           | Inr L' \<Rightarrow> Some (v_kd_tree L', v_scan_kd_trees L', v_kd_tree_path L')))"

text \<open>The example run under the scan-by-scan strategy.\<close>

definition scan_params :: params where
  "scan_params = example_params\<lparr>overlap_strategy := ''scan_by_scan''\<rparr>"

text \<open>
  The numbered calls of a list are in ascending order of their parts and lie between
  \<open>lo\<close> and \<open>hi\<close>; a computation whose calls are so on every file system.
\<close>

definition spans :: "nat \<Rightarrow> nat \<Rightarrow> event list \<Rightarrow> bool" where
  "spans lo hi t =
     (sorted (List.map_filter phase t) \<and>
      list_all (\<lambda>k. lo \<le> k \<and> k \<le> hi) (List.map_filter phase t))"

definition confined :: "nat \<Rightarrow> nat \<Rightarrow> 'a io \<Rightarrow> bool" where
  "confined lo hi m = (\<forall>fs. spans lo hi (calls (m fs)))"

text \<open>
  The decimal digits, the number that a string of digits denotes, and a directory
  name with the separator that \<open>join\<close> puts after it.
\<close>

definition dg :: "nat \<Rightarrow> char" where
  "dg n = ''0123456789'' ! n"

definition digit_value :: "char \<Rightarrow> nat" where
  "digit_value c = of_char c - 48"

definition decimal :: "string \<Rightarrow> nat" where
  "decimal s = foldl (\<lambda>a c. 10 * a + digit_value c) 0 s"

definition dir_prefix :: "path \<Rightarrow> path" where
  "dir_prefix d = (if d = [] \<or> last d = CHR ''/'' then d else d @ ''/'')"

text \<open>
  A directory name that \<open>glob\<close> takes as it is: it has no wildcard character, and
  it is the directory part of the patterns made from it (so it has no trailing
  separator, unless it is a root). The paths that \<open>glob\<close> returns for the pattern
  \<open>*.kdtree\<close> in such a directory.
\<close>

definition plain_directory :: "path \<Rightarrow> bool" where
  "plain_directory d = (\<not> has_magic d \<and> dirname (join d ''*.kdtree'') = d)"

definition kdtree_files :: "path \<Rightarrow> filesystem \<Rightarrow> path list" where
  "kdtree_files d fs =
     map (\<lambda>p. join d (basename p)) (filter (glob_match (join d ''*.kdtree'')) (map fst fs))"

text \<open>
  The index that the file at a path holds; the names of \<open>n\<close> per-scan files from
  ordinal \<open>i\<close>; the loop variables \<open>kd_tree\<close> and \<open>kd_tree_path\<close> after the saving
  loop (lines 613 to 616); the path of a \<open>save\<close> call; the list of scan indices that a
  computation leaves.
\<close>

definition held_index :: "filesystem \<Rightarrow> path \<Rightarrow> kdtree option" where
  "held_index fs p = (case map_of fs p of Some (KDTreeFile t) \<Rightarrow> Some t | _ \<Rightarrow> None)"

definition scan_filenames :: "path \<Rightarrow> nat \<Rightarrow> nat \<Rightarrow> path list" where
  "scan_filenames d i n = map (scan_filename d) [i..<i + n]"

definition after_saving :: "path \<Rightarrow> nat \<Rightarrow> kdtree list \<Rightarrow> locals \<Rightarrow> locals" where
  "after_saving d i ts L =
     (if ts = [] then L
      else L\<lparr>v_kd_tree := Some (last ts),
             v_kd_tree_path := Some (scan_filename d (i + length ts - 1))\<rparr>)"

fun saved_path :: "event \<Rightarrow> path option" where
  "saved_path (KDTreeSave t p) = Some p"
| "saved_path e = None"

definition loaded_scan_kd_trees :: "(exn + locals) \<times> filesystem \<times> event list \<Rightarrow> kdtree list" where
  "loaded_scan_kd_trees r =
     (case result r of
        Inl e \<Rightarrow> []
      | Inr L \<Rightarrow> (case v_scan_kd_trees L of None \<Rightarrow> [] | Some ts \<Rightarrow> ts))"

text \<open>
  The example with the directory \<open>/k\<close> for the per-scan files: three scans, the
  directory after they are saved, and a swath of 101 scan-lines.
\<close>

definition short_locals :: locals where
  "short_locals = example_locals\<lparr>v_kd_tree_path := Some ''/k''\<rparr>"

definition example_scan_kd_trees :: "kdtree list" where
  "example_scan_kd_trees = map (ScanKDTree (Swath 3 4) (7 / 10000)) [0, 1, 2]"

definition example_scan_fs :: filesystem where
  "example_scan_fs =
     [(''/k'', Directory),
      (''/k/00.kdtree'', KDTreeFile (ScanKDTree (Swath 3 4) (7 / 10000) 0)),
      (''/k/01.kdtree'', KDTreeFile (ScanKDTree (Swath 3 4) (7 / 10000) 1)),
      (''/k/02.kdtree'', KDTreeFile (ScanKDTree (Swath 3 4) (7 / 10000) 2))]"

definition many_scans_locals :: locals where
  "many_scans_locals = short_locals\<lparr>v_swath_geometry := Swath 101 4\<rparr>"

text \<open>
  Modelled from the spec: the numbers of \<open>ECOSTRESS.exit_codes\<close> are not in this file.
  The spec asks that the outcome of an ocean scene can be told from success and from
  generic failure: the code of \<open>LandFilter\<close> differs from the success code and from
  the codes of the other two exceptions that this file raises.
\<close>

definition land_filter_code_distinct :: "exit_codes \<Rightarrow> bool" where
  "land_filter_code_distinct c =
     (LAND_FILTER c \<noteq> SUCCESS_EXIT_CODE c \<and>
      LAND_FILTER c \<noteq> MISSING_RUNCONFIG_VALUE c \<and>
      LAND_FILTER c \<noteq> UNABLE_TO_PARSE_RUNCONFIG c)"

text \<open>
  An exception that is not \<open>LandFilter\<close> and does not come from a collaborator with an
  exit code of its own.
\<close>

fun other_failure :: "exn \<Rightarrow> bool" where
  "other_failure (LandFilter m) = False"
| "other_failure (CollaboratorExitCode c) = False"
| "other_failure e = True"

text \<open>
  Calls of \<open>generate_L1_L2_RAD_LSTE_runconfig\<close>: a machine with no installed
  executable, an environment whose \<open>int\<close> reads the orbit and scene of the example
  granule name, and the four input granules of orbit 7, scene 5 in one directory.
\<close>

definition example_host :: host where
  "example_host =
     \<lparr> which = (\<lambda>name. None),
       gethostname = ''node'',
       utcnow = ''2020-01-02 00:00:00'',
       uuid4 = ''1b4e28ba'',
       L1_L2_RAD_LSTE_TEMPLATE = ''/pge/L1_L2_RAD_LSTE.xml'' \<rparr>"

definition granule_env :: env where
  "granule_env = example_env\<lparr>py_int := map_of [(''00007'', 7), (''005'', 5)]\<rparr>"

definition bare_args :: generate_args where
  "bare_args =
     \<lparr> arg_L2_LSTE_filename = ''/i/ECOv002_L2_LSTE_00007_005_20200101T000000_0700_01.h5'',
       arg_L2_CLOUD_filename = None,
       arg_L1B_GEO_filename = None,
       arg_L1B_RAD_filename = None,
       arg_orbit = None,
       arg_scene = None,
       arg_working_directory = None,
       arg_executable_filename = None,
       arg_output_directory = None,
       arg_runconfig_filename = None,
       arg_log_filename = None,
       arg_build = None,
       arg_processing_node = None,
       arg_production_datetime = None,
       arg_job_ID = None,
       arg_instance_ID = None,
       arg_product_counter = None,
       arg_template_filename = None \<rparr>"

definition lone_fs :: filesystem where
  "lone_fs =
     [(''/i/ECOv002_L2_LSTE_00007_005_20200101T000000_0700_01.h5'', File ''lste'')]"

definition granules_fs :: filesystem where
  "granules_fs =
     [(''/i/ECOv002_L2_LSTE_00007_005_20200101T000000_0700_01.h5'', File ''lste''),
      (''/i/ECOv002_L2_CLOUD_00007_005_20200101T000000_0700_01.h5'', File ''cloud''),
      (''/i/ECOv002_L1B_GEO_00007_005_20200101T000000_0700_01.h5'', File ''geo''),
      (''/i/ECOv002_L1B_RAD_00007_005_20200101T000000_0700_01.h5'', File ''rad''),
      (''/pge/L1_L2_RAD_LSTE.xml'', File ''<orbit_number/><working_directory/>'')]"

definition example_found_inputs :: found_inputs where
  "example_found_inputs =
     \<lparr> found_L2_LSTE_filename = ''/i/ECOv002_L2_LSTE_00007_005_20200101T000000_0700_01.h5'',
       found_orbit = 7,
       found_scene = 5,
       found_build = ''0700'',
       found_L2_CLOUD_filename = ''/i/ECOv002_L2_CLOUD_00007_005_20200101T000000_0700_01.h5'',
       found_L1B_GEO_filename = ''/i/ECOv002_L1B_GEO_00007_005_20200101T000000_0700_01.h5'',
       found_L1B_RAD_filename = ''/i/ECOv002_L1B_RAD_00007_005_20200101T000000_0700_01.h5'',
       found_template_filename = ''/pge/L1_L2_RAD_LSTE.xml'',
       found_executable_filename = ''L1_L2_RAD_LSTE'' \<rparr>"

definition found_calls :: "event list" where
  "found_calls =
     [Exists ''/i/ECOv002_L2_LSTE_00007_005_20200101T000000_0700_01.h5'',
      Glob ''/i/*_L2_CLOUD_00007_005_*_0700_*.h5'',
      Glob ''/i/*_L1B_GEO_00007_005_*_0700_*.h5'',
      Glob ''/i/*_L1B_RAD_00007_005_*_0700_*.h5'']"

text \<open>The computation leaves the file system as it found it.\<close>

definition read_only :: "'a io \<Rightarrow> bool" where
  "read_only m = (\<forall>fs. files (m fs) = fs)"

section \<open>Properties\<close>

subsection \<open>Sequencing\<close>

lemma and_then_ret [simp]: "and_then (ret x) f = f x"
  by (rule ext) (simp add: and_then_def ret_def split: prod.splits)

lemma and_then_raise [simp]: "and_then (raise e) f = raise e"
  by (rule ext) (simp add: and_then_def raise_def)

lemma triple_eq: "r = (result r, files r, calls r)"
  by (simp add: result_def files_def calls_def)

lemma result_triple [simp]: "result (a, b, c) = a"
  by (simp add: result_def)

lemma files_triple [simp]: "files (a, b, c) = b"
  by (simp add: files_def)

lemma calls_triple [simp]: "calls (a, b, c) = c"
  by (simp add: calls_def)

lemma silent_ret [simp]: "silent (ret x)"
  by (simp add: silent_def ret_def)

lemma silent_raise [simp]: "silent (raise e)"
  by (simp add: silent_def raise_def)

lemma silent_and_then: "silent m \<Longrightarrow> (\<And>x. silent (f x)) \<Longrightarrow> silent (and_then m f)"
  unfolding silent_def
proof (intro allI)
  fix fs
  assume m: "\<forall>fs. files (m fs) = fs \<and> calls (m fs) = []"
    and f: "\<And>x. \<forall>fs. files (f x fs) = fs \<and> calls (f x fs) = []"
  obtain r where mfs: "m fs = (r, fs, [])"
    using m triple_eq [of "m fs"] by metis
  show "files (and_then m f fs) = fs \<and> calls (and_then m f fs) = []"
  proof (cases r)
    case (Inl e)
    with mfs show ?thesis by (simp add: and_then_def)
  next
    case (Inr x)
    obtain r' where "f x fs = (r', fs, [])"
      using f [of x] triple_eq [of "f x fs"] by metis
    with mfs Inr show ?thesis by (simp add: and_then_def)
  qed
qed

lemma silent_raise_if [simp]: "silent (raise_if b e)"
  by (simp add: raise_if_def)

lemma silent_getitem [simp]: "silent (getitem d k)"
  by (simp add: getitem_def split: option.splits)

lemma silent_int_of [simp]: "silent (int_of E s)"
  by (simp add: int_of_def split: option.splits)

lemma silent_contains2 [simp]: "silent (contains2 rc g k)"
  by (simp add: contains2_def silent_and_then)

lemma silent_getitem2 [simp]: "silent (getitem2 rc g k)"
  by (simp add: getitem2_def silent_and_then)

lemma silent_collaborator [simp]: "silent (collaborator r)"
  by (simp add: collaborator_def split: sum.splits)

lemma silent_may_fail [simp]: "silent (may_fail r)"
  by (simp add: may_fail_def split: option.splits)

subsection \<open>The run-config\<close>

lemma silent_config_values: "silent (config_values E filename rc)"
  unfolding config_values_def
  by (intro silent_and_then silent_raise_if silent_contains2 silent_getitem2 silent_int_of
      silent_ret) (simp_all split: option.splits)

lemma config_values_Inr:
  assumes "result (config_values E filename rc fs) = Inr v"
  shows "config_values E filename rc fs = (Inr v, fs, [])"
proof -
  have "files (config_values E filename rc fs) = fs"
    and "calls (config_values E filename rc fs) = []"
    using silent_config_values [of E filename rc] by (simp_all add: silent_def)
  with assms show ?thesis
    by (metis triple_eq)
qed

subsection \<open>The exit code\<close>

lemma exit_code_None:
  "exit_code c e = None \<longleftrightarrow> \<not> isinstance_ECOSTRESSExitCodeException e"
  by (cases e) simp_all

lemma exit_code_Some:
  "exit_code c e = Some k \<Longrightarrow> isinstance_ECOSTRESSExitCodeException e"
  by (cases e) simp_all

lemma L1_L2_RAD_LSTE_outcome:
  assumes "try_body E P fs = (r, fs', t)"
  shows "L1_L2_RAD_LSTE E P fs =
     (case r of
        Inr u \<Rightarrow> (Inr (SUCCESS_EXIT_CODE (codes E)), fs', t)
      | Inl e \<Rightarrow>
          (case exit_code (codes E) e of
             Some c \<Rightarrow> (Inr c, fs', t @ [LogException e])
           | None \<Rightarrow> (Inl e, fs', t)))"
proof (cases r)
  case (Inr u)
  with assms show ?thesis
    by (simp add: L1_L2_RAD_LSTE_def try_except_def and_then_def ret_def)
next
  case (Inl e)
  show ?thesis
  proof (cases "exit_code (codes E) e")
    case None
    then have "\<not> isinstance_ECOSTRESSExitCodeException e"
      by (simp add: exit_code_None)
    with assms Inl None show ?thesis
      by (simp add: L1_L2_RAD_LSTE_def try_except_def and_then_def except_exit_code_def
          raise_def)
  next
    case (Some c)
    then have "isinstance_ECOSTRESSExitCodeException e"
      by (rule exit_code_Some)
    with assms Inl Some show ?thesis
      by (simp add: L1_L2_RAD_LSTE_def try_except_def and_then_def except_exit_code_def
          emit_def ret_def)
  qed
qed

subsection \<open>The ocean scene\<close>

lemma L1_L2_RAD_LSTE_result:
  "result (L1_L2_RAD_LSTE E P fs) =
     (case result (try_body E P fs) of
        Inr u \<Rightarrow> Inr (SUCCESS_EXIT_CODE (codes E))
      | Inl e \<Rightarrow> (case exit_code (codes E) e of Some c \<Rightarrow> Inr c | None \<Rightarrow> Inl e))"
  using L1_L2_RAD_LSTE_outcome [OF triple_eq [of "try_body E P fs"]]
  by (simp split: sum.splits option.splits)

lemma land_filter_told_apart:
  assumes "land_filter_code_distinct (codes E)"
  shows "result (try_body E P fs) = Inr u \<Longrightarrow>
           result (L1_L2_RAD_LSTE E P fs) \<noteq> Inr (LAND_FILTER (codes E))"
    and "result (try_body E P fs) = Inl e \<Longrightarrow> other_failure e \<Longrightarrow>
           result (L1_L2_RAD_LSTE E P fs) \<noteq> Inr (LAND_FILTER (codes E))"
proof -
  assume "result (try_body E P fs) = Inr u"
  with assms show "result (L1_L2_RAD_LSTE E P fs) \<noteq> Inr (LAND_FILTER (codes E))"
    by (simp add: L1_L2_RAD_LSTE_result land_filter_code_distinct_def)
next
  assume "result (try_body E P fs) = Inl e" and "other_failure e"
  with assms show "result (L1_L2_RAD_LSTE E P fs) \<noteq> Inr (LAND_FILTER (codes E))"
    by (cases e) (simp_all add: L1_L2_RAD_LSTE_result land_filter_code_distinct_def)
qed

text \<open>
  Claim C7. When the run-config can be read up to the granule, the granule opens and
  its land fraction is exactly zero, the function returns the exit code of
  \<open>LandFilter\<close>: it neither raises nor returns the success code by default. The only
  calls of the run are the reading of the run-config, the opening of the granule and
  the logging of the exception: no spatial index is loaded, built or saved, no product
  is opened or written, and the file system is left as it was. With exit codes as the
  spec asks for them, this outcome is told apart from every run with the same codes
  that completes its \<open>try\<close> block, which returns the success code, and from every
  run that fails with another exception, which returns another code or raises.
\<close>

theorem land_filter_early_exit:
  assumes "read_runconfig E (runconfig_filename P) = Inr rc"
    and "result (config_values E (runconfig_filename P) rc fs) = Inr v"
    and "new_L2LSTE E (rc_L2_LSTE_filename v) (rc_L2_CLOUD_filename v) (rc_L1B_GEO_filename v)
           = Inr g"
    and "land_percent g = 0"
    and "land_filter_code_distinct (codes E)"
  shows "L1_L2_RAD_LSTE E P fs =
           (Inr (LAND_FILTER (codes E)), fs,
            [ReadRunconfig (runconfig_filename P),
             NewL2LSTE (rc_L2_LSTE_filename v) (rc_L2_CLOUD_filename v) (rc_L1B_GEO_filename v),
             LogException (land_filter E g)]) \<and>
         LAND_FILTER (codes E) \<noteq> SUCCESS_EXIT_CODE (codes E) \<and>
         (\<forall>E' P' fs' u. codes E' = codes E \<longrightarrow> result (try_body E' P' fs') = Inr u \<longrightarrow>
            result (L1_L2_RAD_LSTE E' P' fs') = Inr (SUCCESS_EXIT_CODE (codes E)) \<and>
            result (L1_L2_RAD_LSTE E' P' fs') \<noteq> result (L1_L2_RAD_LSTE E P fs)) \<and>
         (\<forall>E' P' fs' e. codes E' = codes E \<longrightarrow> result (try_body E' P' fs') = Inl e \<longrightarrow>
            other_failure e \<longrightarrow>
            result (L1_L2_RAD_LSTE E' P' fs') \<noteq> result (L1_L2_RAD_LSTE E P fs))"
proof -
  let ?f = "runconfig_filename P"
  have body: "config_body E ?f rc fs =
      (Inl (land_filter E g), fs,
       [NewL2LSTE (rc_L2_LSTE_filename v) (rc_L2_CLOUD_filename v) (rc_L1B_GEO_filename v)])"
    using assms(3,4)
    by (simp add: config_body_def config_values_Inr [OF assms(2)]
        and_then_def emit_def collaborator_def ret_def raise_if_def raise_def)
  have new: "new_L2GL2TRADLSTEConfig E ?f fs =
      (Inl (land_filter E g), fs,
       [ReadRunconfig ?f,
        NewL2LSTE (rc_L2_LSTE_filename v) (rc_L2_CLOUD_filename v) (rc_L1B_GEO_filename v)])"
    using assms(1) body
    by (simp add: new_L2GL2TRADLSTEConfig_def and_then_def emit_def collaborator_def ret_def
        try_except_def config_except_def land_filter_def raise_def)
  have "try_body E P fs =
      (Inl (land_filter E g), fs,
       [ReadRunconfig ?f,
        NewL2LSTE (rc_L2_LSTE_filename v) (rc_L2_CLOUD_filename v) (rc_L1B_GEO_filename v)])"
    by (simp add: try_body_def prepare_def open_inputs_def and_then_def new)
  from L1_L2_RAD_LSTE_outcome [OF this]
  have run: "L1_L2_RAD_LSTE E P fs =
      (Inr (LAND_FILTER (codes E)), fs,
       [ReadRunconfig ?f,
        NewL2LSTE (rc_L2_LSTE_filename v) (rc_L2_CLOUD_filename v) (rc_L1B_GEO_filename v),
        LogException (land_filter E g)])"
    by (simp add: land_filter_def)
  have code: "LAND_FILTER (codes E) \<noteq> SUCCESS_EXIT_CODE (codes E)"
    using assms(5) by (simp add: land_filter_code_distinct_def)
  have completed: "result (L1_L2_RAD_LSTE E' P' fs') = Inr (SUCCESS_EXIT_CODE (codes E)) \<and>
      result (L1_L2_RAD_LSTE E' P' fs') \<noteq> result (L1_L2_RAD_LSTE E P fs)"
    if "codes E' = codes E" and "result (try_body E' P' fs') = Inr u" for E' P' fs' u
    using that code by (simp add: run L1_L2_RAD_LSTE_result)
  have failed: "result (L1_L2_RAD_LSTE E' P' fs') \<noteq> result (L1_L2_RAD_LSTE E P fs)"
    if "codes E' = codes E" and "result (try_body E' P' fs') = Inl e" and "other_failure e"
    for E' P' fs' e
    using land_filter_told_apart(2) [of E' P' fs' e] that assms(5) by (simp add: run)
  from run code completed failed show ?thesis
    by blast
qed

theorem land_filter_early_exit_witness:
  "read_runconfig ocean_env (runconfig_filename example_params) = Inr example_runconfig \<and>
   result (config_values ocean_env (runconfig_filename example_params) example_runconfig [])
     = Inr example_values \<and>
   new_L2LSTE ocean_env ''/i/lste.h5'' ''/i/cloud.h5'' ''/i/geo.h5'' = Inr ocean_granule \<and>
   land_percent ocean_granule = 0 \<and>
   land_filter_code_distinct (codes ocean_env) \<and>
   L1_L2_RAD_LSTE ocean_env example_params [] =
     (Inr 4, [],
      [ReadRunconfig ''/rc.xml'',
       NewL2LSTE ''/i/lste.h5'' ''/i/cloud.h5'' ''/i/geo.h5'',
       LogException
         (LandFilter ''skipping ocean scene with OverAllLandFraction value of 0.0'')]) \<and>
   codes example_env = codes ocean_env \<and>
   result (try_body example_env example_params []) = Inr () \<and>
   result (L1_L2_RAD_LSTE example_env example_params []) = Inr 0 \<and>
   result (L1_L2_RAD_LSTE example_env example_params []) \<noteq>
     result (L1_L2_RAD_LSTE ocean_env example_params []) \<and>
   codes incomplete_env = codes ocean_env \<and>
   result (try_body incomplete_env example_params []) =
     Inl (UnableToParseRunConfig ''unable to parse run-config file: /rc.xml'') \<and>
   result (L1_L2_RAD_LSTE incomplete_env example_params []) \<noteq>
     result (L1_L2_RAD_LSTE ocean_env example_params [])"
proof -
  have h1: "read_runconfig ocean_env (runconfig_filename example_params) = Inr example_runconfig"
    by (simp add: ocean_env_def example_env_def)
  have h2: "result (config_values ocean_env (runconfig_filename example_params)
                      example_runconfig []) = Inr example_values"
    by code_simp
  have h3: "new_L2LSTE ocean_env (rc_L2_LSTE_filename example_values)
              (rc_L2_CLOUD_filename example_values) (rc_L1B_GEO_filename example_values)
            = Inr ocean_granule"
    by (simp add: ocean_env_def example_env_def)
  have h4: "land_percent ocean_granule = 0"
    by (simp add: ocean_granule_def)
  have h5: "land_filter_code_distinct (codes ocean_env)"
    by (simp add: land_filter_code_distinct_def ocean_env_def example_env_def example_codes_def)
  have c1: "codes example_env = codes ocean_env"
    and c2: "codes incomplete_env = codes ocean_env"
    by (simp_all add: ocean_env_def incomplete_env_def)
  have r1: "result (try_body example_env example_params []) = Inr ()"
    by code_simp
  have r2: "result (try_body incomplete_env example_params []) =
      Inl (UnableToParseRunConfig ''unable to parse run-config file: /rc.xml'')"
    by code_simp
  have o2: "other_failure (UnableToParseRunConfig ''unable to parse run-config file: /rc.xml'')"
    by simp
  note ocean = land_filter_early_exit [OF h1 h2 h3 h4 h5]
  note run = ocean [THEN conjunct1]
  note completed = ocean [THEN conjunct2, THEN conjunct2, THEN conjunct1, rule_format, OF c1 r1]
  note failed = ocean [THEN conjunct2, THEN conjunct2, THEN conjunct2, rule_format, OF c2 r2 o2]
  have "L1_L2_RAD_LSTE ocean_env example_params [] =
     (Inr 4, [],
      [ReadRunconfig ''/rc.xml'',
       NewL2LSTE ''/i/lste.h5'' ''/i/cloud.h5'' ''/i/geo.h5'',
       LogException
         (LandFilter ''skipping ocean scene with OverAllLandFraction value of 0.0'')])"
    using run
    by (simp add: ocean_env_def example_env_def example_codes_def example_values_def
        example_params_def land_filter_def ocean_granule_def)
  moreover have "result (L1_L2_RAD_LSTE example_env example_params []) = Inr 0"
    using completed [THEN conjunct1]
    by (simp add: ocean_env_def example_env_def example_codes_def)
  ultimately show ?thesis
    using h1 h2 h3 h4 h5 c1 c2 r1 r2 completed [THEN conjunct2] failed
    by (simp add: example_values_def)
qed

subsection \<open>Calls and exceptions of the parts of the function\<close>

lemma calls_and_then:
  "calls (and_then m f fs) =
     calls (m fs) @ (case result (m fs) of Inl e \<Rightarrow> [] | Inr x \<Rightarrow> calls (f x (files (m fs))))"
  by (cases "m fs" rule: prod_cases3)
     (auto simp: and_then_def split: sum.splits prod.splits)

lemma result_and_then:
  "result (and_then m f fs) =
     (case result (m fs) of Inl e \<Rightarrow> Inl e | Inr x \<Rightarrow> result (f x (files (m fs))))"
  by (cases "m fs" rule: prod_cases3)
     (auto simp: and_then_def split: sum.splits prod.splits)

lemma files_and_then:
  "files (and_then m f fs) =
     (case result (m fs) of Inl e \<Rightarrow> files (m fs) | Inr x \<Rightarrow> files (f x (files (m fs))))"
  by (cases "m fs" rule: prod_cases3)
     (auto simp: and_then_def split: sum.splits prod.splits)

lemma all_calls_and_then:
  "all_calls Q m \<Longrightarrow> (\<And>x. all_calls Q (f x)) \<Longrightarrow> all_calls Q (and_then m f)"
  by (auto simp: all_calls_def calls_and_then split: sum.splits)

lemma calls_try_except:
  "calls (try_except m h fs) =
     calls (m fs) @ (case result (m fs) of Inl e \<Rightarrow> calls (h e (files (m fs))) | Inr x \<Rightarrow> [])"
  by (cases "m fs" rule: prod_cases3)
     (auto simp: try_except_def split: sum.splits prod.splits)

lemma all_calls_try_except:
  "all_calls Q m \<Longrightarrow> (\<And>e. all_calls Q (h e)) \<Longrightarrow> all_calls Q (try_except m h)"
  by (auto simp: all_calls_def calls_try_except split: sum.splits)

lemma all_calls_silent: "silent m \<Longrightarrow> all_calls Q m"
  by (simp add: all_calls_def silent_def)

lemma all_calls_ret: "all_calls Q (ret x)"
  by (simp add: all_calls_silent)

lemma all_calls_raise: "all_calls Q (raise e)"
  by (simp add: all_calls_silent)

lemma all_calls_emit: "Q ev \<Longrightarrow> all_calls Q (emit ev)"
  by (simp add: all_calls_def emit_def)

lemma all_calls_exists: "Q (Exists p) \<Longrightarrow> all_calls Q (exists p)"
  by (simp add: all_calls_def exists_def)

lemma all_calls_glob: "Q (Glob p) \<Longrightarrow> all_calls Q (glob E p)"
  by (simp add: all_calls_def glob_def)

lemma all_calls_makedirs: "Q (Makedirs p) \<Longrightarrow> all_calls Q (makedirs p)"
  by (simp add: all_calls_def makedirs_def split: option.splits content.splits)

lemma all_calls_KDTree_load: "Q (KDTreeLoad p) \<Longrightarrow> all_calls Q (KDTree_load p)"
  by (simp add: all_calls_def KDTree_load_def split: option.splits content.splits)

lemma all_calls_write_file: "all_calls Q (write_file p c)"
  by (simp add: all_calls_def write_file_def)

lemma all_calls_may_fail: "all_calls Q (may_fail f)"
  by (simp add: all_calls_silent)

lemma all_calls_collaborator: "all_calls Q (collaborator r)"
  by (simp add: all_calls_silent)

lemma all_calls_raise_if: "all_calls Q (raise_if b e)"
  by (simp add: all_calls_silent)

lemma all_calls_not_None_and_exists:
  "(\<And>q. p = Some q \<Longrightarrow> Q (Exists q)) \<Longrightarrow> all_calls Q (not_None_and_exists p)"
  by (cases p) (simp_all add: not_None_and_exists_def all_calls_ret all_calls_exists)

lemmas all_calls_intros =
  all_calls_and_then all_calls_try_except all_calls_ret all_calls_raise all_calls_emit
  all_calls_exists all_calls_glob all_calls_makedirs all_calls_KDTree_load all_calls_write_file
  all_calls_may_fail all_calls_collaborator all_calls_raise_if all_calls_not_None_and_exists

lemma all_calls_config:
  assumes "\<And>f. Q (ReadRunconfig f)" "\<And>a b c. Q (NewL2LSTE a b c)" "\<And>e. Q (LogException e)"
  shows "all_calls Q (new_L2GL2TRADLSTEConfig E filename)"
  unfolding new_L2GL2TRADLSTEConfig_def config_body_def config_except_def
  by (intro all_calls_intros all_calls_silent [OF silent_config_values] assms)
     (auto intro!: all_calls_intros assms)

lemma all_calls_choose_grid: "all_calls Q (choose_grid P s)"
  unfolding choose_grid_def
  by (auto intro!: all_calls_intros split: option.splits)

lemma all_calls_open_inputs:
  assumes "\<And>f. Q (ReadRunconfig f)" "\<And>a b c. Q (NewL2LSTE a b c)" "\<And>e. Q (LogException e)"
    "\<And>f. Q (ConfigureLog f)" "\<And>a b c d. Q (NewL1BRAD a b c d)" "\<And>a b c. Q (OpenL2LSTE a b c)"
    "\<And>a b. Q (OpenL2CLOUD a b)"
  shows "all_calls Q (open_inputs E P)"
  unfolding open_inputs_def Let_def
  by (intro all_calls_intros all_calls_config assms)

lemma all_calls_prepare:
  assumes "\<And>f. Q (ReadRunconfig f)" "\<And>a b c. Q (NewL2LSTE a b c)" "\<And>e. Q (LogException e)"
    "\<And>f. Q (ConfigureLog f)" "\<And>a b c d. Q (NewL1BRAD a b c d)" "\<And>a b c. Q (OpenL2LSTE a b c)"
    "\<And>a b. Q (OpenL2CLOUD a b)" "\<And>f. Q (Exists f)"
  shows "all_calls Q (prepare E P)"
  unfolding prepare_def Let_def
  by (intro all_calls_intros all_calls_open_inputs all_calls_choose_grid assms)

lemma all_calls_KDTree_new:
  "(\<And>s g r. Q (KDTreeBuild s g r)) \<Longrightarrow> all_calls Q (KDTree_new E s g r)"
  unfolding KDTree_new_def by (intro all_calls_intros)

lemma all_calls_KDTree_save:
  "(\<And>t p. Q (KDTreeSave t p)) \<Longrightarrow> all_calls Q (KDTree_save E t p)"
  unfolding KDTree_save_def by (intro all_calls_intros)

lemma all_calls_load_scan_kd_trees:
  "(\<And>p. Q (KDTreeLoad p)) \<Longrightarrow> all_calls Q (load_scan_kd_trees ps)"
  by (induction ps) (auto intro!: all_calls_intros)

lemma all_calls_save_scan_kd_trees:
  "(\<And>t p. Q (KDTreeSave t p)) \<Longrightarrow> all_calls Q (save_scan_kd_trees E d i ts L)"
  by (induction ts arbitrary: i L) (auto intro!: all_calls_intros all_calls_KDTree_save)

lemma all_calls_whole_swath_index:
  assumes "\<And>f. Q (Exists f)" "\<And>f. Q (KDTreeLoad f)" "\<And>s g r. Q (KDTreeBuild s g r)"
    "\<And>t p. Q (KDTreeSave t p)"
  shows "all_calls Q (whole_swath_index E P L)"
  unfolding whole_swath_index_def
  by (auto intro!: all_calls_intros all_calls_KDTree_new all_calls_KDTree_save assms
      split: option.splits)

lemma all_calls_scan_by_scan_index:
  assumes "\<And>f. Q (Exists f)" "\<And>f. Q (KDTreeLoad f)" "\<And>s c. Q (GenerateScanKDTrees s c)"
    "\<And>t p. Q (KDTreeSave t p)" "\<And>f. Q (Glob f)" "\<And>f. Q (Makedirs f)"
  shows "all_calls Q (scan_by_scan_index E P L)"
  unfolding scan_by_scan_index_def build_scan_kd_trees_def
  by (auto intro!: all_calls_intros all_calls_load_scan_kd_trees all_calls_save_scan_kd_trees
      assms split: option.splits)

lemma all_calls_resolve_index:
  assumes "\<And>f. Q (Exists f)" "\<And>f. Q (KDTreeLoad f)" "\<And>s g r. Q (KDTreeBuild s g r)"
    "\<And>s c. Q (GenerateScanKDTrees s c)"
    "\<And>t p. Q (KDTreeSave t p)" "\<And>f. Q (Glob f)" "\<And>f. Q (Makedirs f)"
  shows "all_calls Q (resolve_index E P L)"
  unfolding resolve_index_def
  by (auto intro!: all_calls_intros all_calls_whole_swath_index all_calls_scan_by_scan_index
      assms)

lemma all_calls_write_files: "all_calls Q (write_files ps c)"
  by (induction ps) (auto intro!: all_calls_intros)

lemma all_calls_product_stage:
  assumes "\<And>f. Q (Exists f)" "\<And>f. Q (OpenProduct p f)"
    "Q (FromSwath p (swath_granule_of (v_runconfig L) p) (product_filename (v_runconfig L) p)
         (v_gridded_geometry L) (v_kd_tree L) (v_scan_kd_trees L) (v_kd_tree_path L)
         (metadata E P (v_runconfig L) p))"
    "\<And>f. Q (WriteBrowseImage p f)" "\<And>f a b. Q (ToTiles p f a b)"
  shows "all_calls Q (product_stage E P L p)"
  unfolding product_stage_def both_exist_def open_product_def from_swath_def
    write_browse_image_def to_tiles_def Let_def
  by (auto intro!: all_calls_intros all_calls_write_files assms)

lemma raises_only_and_then:
  "raises_only A m \<Longrightarrow> (\<And>x. raises_only A (f x)) \<Longrightarrow> raises_only A (and_then m f)"
  by (auto simp: raises_only_def result_and_then split: sum.splits)

lemma raises_only_ret: "raises_only A (ret x)"
  by (simp add: raises_only_def ret_def)

lemma raises_only_raise: "A e \<Longrightarrow> raises_only A (raise e)"
  by (simp add: raises_only_def raise_def)

lemma raises_only_emit: "raises_only A (emit ev)"
  by (simp add: raises_only_def emit_def)

lemma raises_only_exists: "raises_only A (exists p)"
  by (simp add: raises_only_def exists_def)

lemma raises_only_glob: "raises_only A (glob E p)"
  by (simp add: raises_only_def glob_def)

lemma raises_only_write_file: "raises_only A (write_file p c)"
  by (simp add: raises_only_def write_file_def)

lemma raises_only_makedirs: "(\<And>s. A (IOError s)) \<Longrightarrow> raises_only A (makedirs p)"
  by (auto simp: raises_only_def makedirs_def split: option.splits content.splits)

lemma raises_only_KDTree_load: "(\<And>s. A (CollaboratorError s)) \<Longrightarrow> raises_only A (KDTree_load p)"
  by (auto simp: raises_only_def KDTree_load_def split: option.splits content.splits)

lemma raises_only_may_fail: "(\<And>x. A (exn_of x)) \<Longrightarrow> raises_only A (may_fail f)"
  by (cases f) (simp_all add: may_fail_def raises_only_ret raises_only_raise)

lemma raises_only_collaborator: "(\<And>x. A (exn_of x)) \<Longrightarrow> raises_only A (collaborator r)"
  by (cases r) (simp_all add: collaborator_def raises_only_ret raises_only_raise)

lemma raises_only_not_None_and_exists: "raises_only A (not_None_and_exists p)"
  by (cases p) (simp_all add: not_None_and_exists_def raises_only_ret raises_only_exists)

lemmas raises_only_intros =
  raises_only_and_then raises_only_ret raises_only_emit raises_only_exists raises_only_glob
  raises_only_write_file raises_only_makedirs raises_only_KDTree_load raises_only_may_fail
  raises_only_collaborator raises_only_not_None_and_exists

lemma not_ValueError_exn_of [simp]: "\<not> isinstance_ValueError (exn_of x)"
  by (cases x) simp_all

lemma raises_only_load_scan_kd_trees:
  "raises_only (\<lambda>e. \<not> isinstance_ValueError e) (load_scan_kd_trees ps)"
  by (induction ps) (auto intro!: raises_only_intros)

lemma raises_only_KDTree_save:
  "raises_only (\<lambda>e. \<not> isinstance_ValueError e) (KDTree_save E t p)"
  unfolding KDTree_save_def by (auto intro!: raises_only_intros)

lemma raises_only_save_scan_kd_trees:
  "raises_only (\<lambda>e. \<not> isinstance_ValueError e) (save_scan_kd_trees E d i ts L)"
  by (induction ts arbitrary: i L) (auto intro!: raises_only_intros raises_only_KDTree_save)

lemma raises_only_whole_swath_index:
  "raises_only (\<lambda>e. \<not> isinstance_ValueError e) (whole_swath_index E P L)"
  unfolding whole_swath_index_def KDTree_new_def
  by (auto intro!: raises_only_intros raises_only_KDTree_save split: option.splits)

lemma raises_only_scan_by_scan_index:
  "raises_only (\<lambda>e. \<not> isinstance_ValueError e) (scan_by_scan_index E P L)"
  unfolding scan_by_scan_index_def build_scan_kd_trees_def
  by (auto intro!: raises_only_intros raises_only_load_scan_kd_trees
      raises_only_save_scan_kd_trees split: option.splits)

subsection \<open>The overlap strategy\<close>

text \<open>
  Claim C1, as amended. The strategies that the function accepts are exactly
  \<open>checkerboard\<close>, \<open>scan_by_scan\<close> and \<open>remove_105_128\<close>: with one of them the
  work on the index never ends in a \<open>ValueError\<close>. With any other value it raises
  \<open>ValueError\<close> without a call and without a change of the file system, and the
  exception leaves the function uncaught. By then the run-config has been read, the
  input granules opened and the path of the index looked up, but no index has been
  loaded, built or saved and no product opened or written.
\<close>

theorem overlap_strategy_dispatch:
  "(overlap_strategy P \<in> {''checkerboard'', ''scan_by_scan'', ''remove_105_128''} \<longrightarrow>
      (\<forall>m. result (resolve_index E P L fs) \<noteq> Inl (ValueError m))) \<and>
   (overlap_strategy P \<notin> {''checkerboard'', ''scan_by_scan'', ''remove_105_128''} \<longrightarrow>
      resolve_index E P L fs =
        (Inl (ValueError (''unrecognized overlap strategy: '' @ overlap_strategy P)), fs, []) \<and>
      (\<forall>L0 fs0 fs1 t1. prepare E P fs0 = (Inr L0, fs1, t1) \<longrightarrow>
         L1_L2_RAD_LSTE E P fs0 =
           (Inl (ValueError (''unrecognized overlap strategy: '' @ overlap_strategy P)), fs1, t1) \<and>
         list_all (in_phase 0) t1))"
proof (intro conjI impI allI)
  fix m
  assume "overlap_strategy P \<in> {''checkerboard'', ''scan_by_scan'', ''remove_105_128''}"
  then have "raises_only (\<lambda>e. \<not> isinstance_ValueError e) (resolve_index E P L)"
    by (auto simp: resolve_index_def
        intro: raises_only_whole_swath_index raises_only_scan_by_scan_index)
  then show "result (resolve_index E P L fs) \<noteq> Inl (ValueError m)"
    unfolding raises_only_def by (metis isinstance_ValueError.simps(1))
next
  assume bad: "overlap_strategy P \<notin> {''checkerboard'', ''scan_by_scan'', ''remove_105_128''}"
  then show r: "resolve_index E P L fs =
        (Inl (ValueError (''unrecognized overlap strategy: '' @ overlap_strategy P)), fs, [])"
    by (simp add: resolve_index_def raise_def)
  fix L0 fs0 fs1 t1
  assume prep: "prepare E P fs0 = (Inr L0, fs1, t1)"
  from bad have "resolve_index E P L0 fs1 =
        (Inl (ValueError (''unrecognized overlap strategy: '' @ overlap_strategy P)), fs1, [])"
    by (simp add: resolve_index_def raise_def)
  with prep have "try_body E P fs0 =
      (Inl (ValueError (''unrecognized overlap strategy: '' @ overlap_strategy P)), fs1, t1)"
    by (simp add: try_body_def and_then_def)
  from L1_L2_RAD_LSTE_outcome [OF this]
  show "L1_L2_RAD_LSTE E P fs0 =
      (Inl (ValueError (''unrecognized overlap strategy: '' @ overlap_strategy P)), fs1, t1)"
    by simp
  have "all_calls (in_phase 0) (prepare E P)"
    by (rule all_calls_prepare) (simp_all add: in_phase_def)
  then have "list_all (in_phase 0) (calls (prepare E P fs0))"
    by (simp add: all_calls_def)
  with prep show "list_all (in_phase 0) t1"
    by simp
qed

theorem overlap_strategy_dispatch_witness:
  "overlap_strategy example_params \<in> {''checkerboard'', ''scan_by_scan'', ''remove_105_128''} \<and>
   (\<forall>m. result (resolve_index example_env example_params example_locals [])
          \<noteq> Inl (ValueError m)) \<and>
   overlap_strategy edge_params \<notin> {''checkerboard'', ''scan_by_scan'', ''remove_105_128''} \<and>
   prepare example_env edge_params [] =
     (Inr example_locals, [], calls (prepare example_env edge_params [])) \<and>
   L1_L2_RAD_LSTE example_env edge_params [] =
     (Inl (ValueError ''unrecognized overlap strategy: remove_edge_overlap''), [],
      calls (prepare example_env edge_params [])) \<and>
   list_all (in_phase 0) (calls (prepare example_env edge_params []))"
proof -
  have ok: "overlap_strategy example_params
              \<in> {''checkerboard'', ''scan_by_scan'', ''remove_105_128''}"
    by (simp add: example_params_def)
  have bad: "overlap_strategy edge_params
               \<notin> {''checkerboard'', ''scan_by_scan'', ''remove_105_128''}"
    by (simp add: edge_params_def)
  have "result (prepare example_env edge_params []) = Inr example_locals"
    and "files (prepare example_env edge_params []) = []"
    by code_simp+
  then have prep: "prepare example_env edge_params [] =
      (Inr example_locals, [], calls (prepare example_env edge_params []))"
    using triple_eq [of "prepare example_env edge_params []"] by simp
  from overlap_strategy_dispatch [of example_params example_env example_locals "[]"] ok
  have "\<forall>m. result (resolve_index example_env example_params example_locals [])
          \<noteq> Inl (ValueError m)"
    by blast
  moreover
  from overlap_strategy_dispatch [of edge_params example_env example_locals "[]"] bad prep
  have "L1_L2_RAD_LSTE example_env edge_params [] =
     (Inl (ValueError (''unrecognized overlap strategy: '' @ overlap_strategy edge_params)), [],
      calls (prepare example_env edge_params [])) \<and>
     list_all (in_phase 0) (calls (prepare example_env edge_params []))"
    by blast
  ultimately show ?thesis
    using ok bad prep by (simp add: edge_params_def)
qed

theorem remove_edge_overlap_counterexample:
  "L1_L2_RAD_LSTE example_env edge_params [] =
     (Inl (ValueError ''unrecognized overlap strategy: remove_edge_overlap''), [],
      [ReadRunconfig ''/rc.xml'',
       NewL2LSTE ''/i/lste.h5'' ''/i/cloud.h5'' ''/i/geo.h5'',
       ConfigureLog ''/w/log/ECOv002_L1_L2_RAD_LSTE_00007_005_20200101T000000_0700_01.log'',
       NewL1BRAD ''/i/rad.h5'' ''/i/cloud.h5'' ''/i/lste.h5'' ''/i/geo.h5'',
       OpenL2LSTE ''/i/lste.h5'' ''/i/cloud.h5'' ''/i/geo.h5'',
       OpenL2CLOUD ''/i/cloud.h5'' ''/i/geo.h5'',
       Exists ''/w/ECOv002_L1_L2_RAD_LSTE_00007_005_20200101T000000_0700_01.kdtree''])"
  by code_simp

subsection \<open>Exceptions at the boundary of the function\<close>




subsection \<open>The grid\<close>

lemma returns_only_and_then:
  "(\<And>x. returns_only Q (f x)) \<Longrightarrow> returns_only Q (and_then m f)"
  by (auto simp: returns_only_def result_and_then split: sum.splits)

lemma returns_only_ret: "Q x \<Longrightarrow> returns_only Q (ret x)"
  by (simp add: returns_only_def ret_def)

lemma returns_only_raise: "returns_only Q (raise e)"
  by (simp add: returns_only_def raise_def)

lemma returns_only_save_scan_kd_trees:
  "v_swath_geometry L = s \<Longrightarrow>
   returns_only (\<lambda>L'. v_swath_geometry L' = s) (save_scan_kd_trees E d i ts L)"
  by (induction ts arbitrary: i L) (auto intro!: returns_only_and_then returns_only_ret)

lemma returns_only_whole_swath_index:
  "returns_only (\<lambda>L'. v_swath_geometry L' = v_swath_geometry L) (whole_swath_index E P L)"
  unfolding whole_swath_index_def
  by (auto intro!: returns_only_and_then returns_only_ret split: option.splits)

lemma returns_only_scan_by_scan_index:
  "returns_only (\<lambda>L'. v_swath_geometry L' = v_swath_geometry L) (scan_by_scan_index E P L)"
  unfolding scan_by_scan_index_def
  by (auto intro!: returns_only_and_then returns_only_ret returns_only_save_scan_kd_trees
      split: option.splits)

lemma resolve_index_swath_geometry:
  assumes "result (resolve_index E P L fs) = Inr L'"
  shows "v_swath_geometry L' =
     (if overlap_strategy P = ''remove_105_128'' then clip_tails (v_swath_geometry L)
      else v_swath_geometry L)"
proof -
  have "returns_only (\<lambda>L'. v_swath_geometry L' =
     (if overlap_strategy P = ''remove_105_128'' then clip_tails (v_swath_geometry L)
      else v_swath_geometry L)) (resolve_index E P L)"
    using returns_only_whole_swath_index [of L E P]
      returns_only_whole_swath_index [of "L\<lparr>v_swath_geometry := clip_tails (v_swath_geometry L)\<rparr>" E P]
      returns_only_scan_by_scan_index [of L E P]
    by (auto simp: resolve_index_def returns_only_raise)
  with assms show ?thesis
    by (simp add: returns_only_def)
qed

lemma products_grid:
  "all_calls (\<lambda>e. grid_arg e = None \<or>
       grid_arg e = Some (geographic (v_swath_geometry L) (cell_size_degrees P)))
     (products E P L)"
  unfolding products_def Let_def
  by (intro all_calls_intros all_calls_product_stage) simp_all

text \<open>
  Claim C2, as amended. When the caller supplies no grid, the projection systems that
  the function knows are exactly \<open>local_UTM\<close> (a grid in metres, from
  \<open>cell_size_meters\<close>) and \<open>global_geographic\<close> (a grid in degrees, from
  \<open>cell_size_degrees\<close>); any other value raises \<open>ValueError\<close>, which leaves the
  function uncaught before any work on the index. When the caller supplies a grid, the
  projection system is not looked at. The grid that every call of \<open>from_swath\<close> is
  given is the geographic grid of the swath geometry in force after the overlap
  strategy (clipped under \<open>remove_105_128\<close>, unchanged otherwise) and of
  \<open>cell_size_degrees\<close>.
\<close>

theorem grid_geometry_of_the_products:
  "(gridded_geometry P = None \<and> projection_system P = ''local_UTM'' \<longrightarrow>
      choose_grid P s fs = (Inr (UTM s (cell_size_meters P)), fs, [])) \<and>
   (gridded_geometry P = None \<and> projection_system P = ''global_geographic'' \<longrightarrow>
      choose_grid P s fs = (Inr (geographic s (cell_size_degrees P)), fs, [])) \<and>
   (gridded_geometry P = None \<and>
    projection_system P \<notin> {''local_UTM'', ''global_geographic''} \<longrightarrow>
      choose_grid P s fs =
        (Inl (ValueError (''unrecognized projection system: '' @ projection_system P)), fs, []) \<and>
      (\<forall>c fs0 fs1 t1. open_inputs E P fs0 = (Inr (c, s), fs1, t1) \<longrightarrow>
         L1_L2_RAD_LSTE E P fs0 =
           (Inl (ValueError (''unrecognized projection system: '' @ projection_system P)),
            fs1, t1) \<and>
         list_all (in_phase 0) t1)) \<and>
   (\<forall>g. gridded_geometry P = Some g \<longrightarrow> choose_grid P s fs = (Inr g, fs, [])) \<and>
   (\<forall>L'. result (resolve_index E P L fs) = Inr L' \<longrightarrow>
      v_swath_geometry L' =
        (if overlap_strategy P = ''remove_105_128'' then clip_tails (v_swath_geometry L)
         else v_swath_geometry L)) \<and>
   list_all (\<lambda>e. grid_arg e = None \<or>
                grid_arg e = Some (geographic (v_swath_geometry L) (cell_size_degrees P)))
     (calls (products E P L fs))"
proof (intro conjI impI allI)
  fix c fs0 fs1 t1
  assume bad: "gridded_geometry P = None \<and>
      projection_system P \<notin> {''local_UTM'', ''global_geographic''}"
    and inp: "open_inputs E P fs0 = (Inr (c, s), fs1, t1)"
  from bad have "choose_grid P s fs1 =
      (Inl (ValueError (''unrecognized projection system: '' @ projection_system P)), fs1, [])"
    by (simp add: choose_grid_def raise_def)
  with inp have "try_body E P fs0 =
      (Inl (ValueError (''unrecognized projection system: '' @ projection_system P)), fs1, t1)"
    by (simp add: try_body_def prepare_def and_then_def Let_def)
  from L1_L2_RAD_LSTE_outcome [OF this]
  show "L1_L2_RAD_LSTE E P fs0 =
      (Inl (ValueError (''unrecognized projection system: '' @ projection_system P)), fs1, t1)"
    by simp
  have "all_calls (in_phase 0) (open_inputs E P)"
    by (rule all_calls_open_inputs) (simp_all add: in_phase_def)
  then have "list_all (in_phase 0) (calls (open_inputs E P fs0))"
    by (simp add: all_calls_def)
  with inp show "list_all (in_phase 0) t1"
    by simp
next
  show "list_all (\<lambda>e. grid_arg e = None \<or>
                grid_arg e = Some (geographic (v_swath_geometry L) (cell_size_degrees P)))
     (calls (products E P L fs))"
    using products_grid [of L P E] by (simp add: all_calls_def)
qed (simp_all add: choose_grid_def ret_def raise_def resolve_index_swath_geometry)

theorem grid_geometry_of_the_products_witness:
  "gridded_geometry projected_params = None \<and>
   projection_system projected_params \<notin> {''local_UTM'', ''global_geographic''} \<and>
   open_inputs example_env projected_params [] =
     (Inr (config_fields example_env example_values example_granule, Swath 3 4), [],
      calls (open_inputs example_env projected_params [])) \<and>
   L1_L2_RAD_LSTE example_env projected_params [] =
     (Inl (ValueError ''unrecognized projection system: local_projected''), [],
      calls (open_inputs example_env projected_params [])) \<and>
   result (resolve_index example_env clip_params example_locals []) =
     Inr (example_locals\<lparr>v_swath_geometry := clip_tails (Swath 3 4),
                          v_kd_tree := Some clipped_kdtree\<rparr>) \<and>
   v_swath_geometry (example_locals\<lparr>v_swath_geometry := clip_tails (Swath 3 4),
                                     v_kd_tree := Some clipped_kdtree\<rparr>) =
     clip_tails (v_swath_geometry example_locals) \<and>
   list_all (\<lambda>e. grid_arg e = None \<or> grid_arg e = Some (geographic (Swath 3 4) (7 / 10000)))
     (calls (products example_env example_params example_locals []))"
proof -
  have none: "gridded_geometry projected_params = None"
    by (simp add: projected_params_def example_params_def)
  have bad: "projection_system projected_params \<notin> {''local_UTM'', ''global_geographic''}"
    by (simp add: projected_params_def)
  have "result (open_inputs example_env projected_params []) =
          Inr (config_fields example_env example_values example_granule, Swath 3 4)"
    and "files (open_inputs example_env projected_params []) = []"
    by code_simp+
  then have inp: "open_inputs example_env projected_params [] =
     (Inr (config_fields example_env example_values example_granule, Swath 3 4), [],
      calls (open_inputs example_env projected_params []))"
    using triple_eq [of "open_inputs example_env projected_params []"] by simp
  have clip: "result (resolve_index example_env clip_params example_locals []) =
     Inr (example_locals\<lparr>v_swath_geometry := clip_tails (Swath 3 4),
                          v_kd_tree := Some clipped_kdtree\<rparr>)"
    by code_simp
  have strategy: "overlap_strategy clip_params = ''remove_105_128''"
    by (simp add: clip_params_def)
  note thm1 = grid_geometry_of_the_products
    [of projected_params "Swath 3 4" "[]" example_env example_locals]
  note thm2 = grid_geometry_of_the_products
    [of clip_params "Swath 3 4" "[]" example_env example_locals]
  note thm3 = grid_geometry_of_the_products
    [of example_params "Swath 3 4" "[]" example_env example_locals]
  from thm1 none bad inp
  have "L1_L2_RAD_LSTE example_env projected_params [] =
     (Inl (ValueError (''unrecognized projection system: '' @ projection_system projected_params)),
      [], calls (open_inputs example_env projected_params []))"
    by blast
  moreover from thm2 clip strategy
  have "v_swath_geometry (example_locals\<lparr>v_swath_geometry := clip_tails (Swath 3 4),
                                     v_kd_tree := Some clipped_kdtree\<rparr>) =
     clip_tails (v_swath_geometry example_locals)"
    by simp
  moreover from thm3
  have "list_all (\<lambda>e. grid_arg e = None \<or>
             grid_arg e = Some (geographic (v_swath_geometry example_locals)
                                  (cell_size_degrees example_params)))
     (calls (products example_env example_params example_locals []))"
    by blast
  ultimately show ?thesis
    using none bad inp clip
    by (simp add: projected_params_def example_locals_def example_params_def)
qed

theorem local_projected_counterexample:
  "result (L1_L2_RAD_LSTE example_env projected_params []) =
     Inl (ValueError ''unrecognized projection system: local_projected'')"
  by code_simp

subsection \<open>The path of the index\<close>

lemma whole_swath_index_load:
  assumes "v_kd_tree_path L = Some p" and "map_of fs p = Some (KDTreeFile t)"
  shows "whole_swath_index E P L fs = (Inr (L\<lparr>v_kd_tree := Some t\<rparr>), fs, [Exists p, KDTreeLoad p])"
  using assms
  by (simp add: whole_swath_index_def not_None_and_exists_def exists_def and_then_def
      KDTree_load_def ret_def)

lemma whole_swath_index_build:
  assumes "v_kd_tree_path L = Some p" and "map_of fs p = None"
    and "KDTree_raises E = None" and "KDTree_save_raises E p = None"
  shows "whole_swath_index E P L fs =
     (Inr (L\<lparr>v_kd_tree :=
             Some (KDTree (v_swath_geometry L) (v_gridded_geometry L) (search_radius_meters P))\<rparr>),
      AList.update p
        (KDTreeFile (KDTree (v_swath_geometry L) (v_gridded_geometry L) (search_radius_meters P)))
        fs,
      [Exists p,
       KDTreeBuild (v_swath_geometry L) (v_gridded_geometry L) (search_radius_meters P),
       KDTreeSave (KDTree (v_swath_geometry L) (v_gridded_geometry L) (search_radius_meters P))
         p])"
  using assms
  by (simp add: whole_swath_index_def not_None_and_exists_def exists_def and_then_def
      KDTree_new_def KDTree_save_def emit_def may_fail_def write_file_def ret_def)

text \<open>
  Claim C3, as amended. When the caller supplies no path for the index, the function
  uses \<open><working directory>/<granule ID>.kdtree\<close>. Under the whole-swath strategies
  an index found at the path is loaded and none is built; when nothing is found there,
  the index is built and saved at the path.
\<close>

theorem default_index_path:
  assumes "open_inputs E P fs0 = (Inr (c, s), fs1, t1)"
    and "kd_tree_path P = None"
    and "result (choose_grid P s fs1) = Inr g"
    and "p = join (working_directory c) (granule_ID c @ ''.kdtree'')"
  shows "prepare E P fs0 =
           (Inr \<lparr> v_runconfig = c, v_swath_geometry = s, v_gridded_geometry = g,
                  v_kd_tree = kd_tree P, v_scan_kd_trees = scan_kd_trees P,
                  v_kd_tree_path = Some p \<rparr>,
            fs1, t1 @ [Exists p]) \<and>
         (\<forall>L fs t. v_kd_tree_path L = Some p \<longrightarrow> map_of fs p = Some (KDTreeFile t) \<longrightarrow>
            whole_swath_index E P L fs =
              (Inr (L\<lparr>v_kd_tree := Some t\<rparr>), fs, [Exists p, KDTreeLoad p])) \<and>
         (\<forall>L fs. v_kd_tree_path L = Some p \<longrightarrow> map_of fs p = None \<longrightarrow>
            KDTree_raises E = None \<longrightarrow> KDTree_save_raises E p = None \<longrightarrow>
            whole_swath_index E P L fs =
              (Inr (L\<lparr>v_kd_tree := Some (KDTree (v_swath_geometry L) (v_gridded_geometry L)
                                           (search_radius_meters P))\<rparr>),
               AList.update p
                 (KDTreeFile (KDTree (v_swath_geometry L) (v_gridded_geometry L)
                                (search_radius_meters P))) fs,
               [Exists p,
                KDTreeBuild (v_swath_geometry L) (v_gridded_geometry L) (search_radius_meters P),
                KDTreeSave (KDTree (v_swath_geometry L) (v_gridded_geometry L)
                              (search_radius_meters P)) p]))"
proof (intro conjI allI impI)
  have "choose_grid P s fs1 = (Inr g, fs1, [])"
    using assms(3) by (auto simp: choose_grid_def ret_def raise_def split: option.splits if_splits)
  with assms(1,2,4) show "prepare E P fs0 =
           (Inr \<lparr> v_runconfig = c, v_swath_geometry = s, v_gridded_geometry = g,
                  v_kd_tree = kd_tree P, v_scan_kd_trees = scan_kd_trees P,
                  v_kd_tree_path = Some p \<rparr>,
            fs1, t1 @ [Exists p])"
    by (simp add: prepare_def and_then_def Let_def default_kd_tree_path_def
        not_None_and_exists_def exists_def ret_def)
qed (simp_all add: whole_swath_index_load whole_swath_index_build)

theorem default_index_path_witness:
  "open_inputs example_env example_params [] =
     (Inr (config_fields example_env example_values example_granule, Swath 3 4), [],
      calls (open_inputs example_env example_params [])) \<and>
   kd_tree_path example_params = None \<and>
   result (choose_grid example_params (Swath 3 4) []) = Inr (geographic (Swath 3 4) (7 / 10000)) \<and>
   example_index_path =
     join (working_directory (config_fields example_env example_values example_granule))
       (granule_ID (config_fields example_env example_values example_granule) @ ''.kdtree'') \<and>
   prepare example_env example_params [] =
     (Inr example_locals, [],
      calls (open_inputs example_env example_params []) @ [Exists example_index_path]) \<and>
   whole_swath_index example_env example_params example_locals [] =
     (Inr (example_locals\<lparr>v_kd_tree := Some example_kdtree\<rparr>),
      [(example_index_path, KDTreeFile example_kdtree)],
      [Exists example_index_path,
       KDTreeBuild (Swath 3 4) (geographic (Swath 3 4) (7 / 10000)) 100,
       KDTreeSave example_kdtree example_index_path]) \<and>
   whole_swath_index example_env example_params example_locals
       [(example_index_path, KDTreeFile example_kdtree)] =
     (Inr (example_locals\<lparr>v_kd_tree := Some example_kdtree\<rparr>),
      [(example_index_path, KDTreeFile example_kdtree)],
      [Exists example_index_path, KDTreeLoad example_index_path])"
proof -
  let ?c = "config_fields example_env example_values example_granule"
  have "result (open_inputs example_env example_params []) = Inr (?c, Swath 3 4)"
    and "files (open_inputs example_env example_params []) = []"
    by code_simp+
  then have inp: "open_inputs example_env example_params [] =
     (Inr (?c, Swath 3 4), [], calls (open_inputs example_env example_params []))"
    using triple_eq [of "open_inputs example_env example_params []"] by simp
  have none: "kd_tree_path example_params = None"
    by (simp add: example_params_def)
  have grid: "result (choose_grid example_params (Swath 3 4) []) =
      Inr (geographic (Swath 3 4) (7 / 10000))"
    by code_simp
  have p: "example_index_path = join (working_directory ?c) (granule_ID ?c @ ''.kdtree'')"
    by code_simp
  have path: "v_kd_tree_path example_locals = Some example_index_path"
    by (simp add: example_locals_def example_index_path_def)
  have raises: "KDTree_raises example_env = None"
      "KDTree_save_raises example_env example_index_path = None"
    by (simp_all add: example_env_def)
  note inst = default_index_path [OF inp none grid p]
  from inst have "prepare example_env example_params [] =
     (Inr \<lparr> v_runconfig = ?c, v_swath_geometry = Swath 3 4,
            v_gridded_geometry = geographic (Swath 3 4) (7 / 10000),
            v_kd_tree = kd_tree example_params, v_scan_kd_trees = scan_kd_trees example_params,
            v_kd_tree_path = Some example_index_path \<rparr>,
      [], calls (open_inputs example_env example_params []) @ [Exists example_index_path])"
    by blast
  then have a: "prepare example_env example_params [] =
     (Inr example_locals, [],
      calls (open_inputs example_env example_params []) @ [Exists example_index_path])"
    by (simp add: example_locals_def example_params_def example_index_path_def)
  from inst path raises
  have "whole_swath_index example_env example_params example_locals [] =
     (Inr (example_locals\<lparr>v_kd_tree :=
        Some (KDTree (v_swath_geometry example_locals) (v_gridded_geometry example_locals)
                (search_radius_meters example_params))\<rparr>),
      AList.update example_index_path
        (KDTreeFile (KDTree (v_swath_geometry example_locals) (v_gridded_geometry example_locals)
                (search_radius_meters example_params))) [],
      [Exists example_index_path,
       KDTreeBuild (v_swath_geometry example_locals) (v_gridded_geometry example_locals)
                (search_radius_meters example_params),
       KDTreeSave (KDTree (v_swath_geometry example_locals) (v_gridded_geometry example_locals)
                (search_radius_meters example_params)) example_index_path])"
    by simp
  then have b: "whole_swath_index example_env example_params example_locals [] =
     (Inr (example_locals\<lparr>v_kd_tree := Some example_kdtree\<rparr>),
      [(example_index_path, KDTreeFile example_kdtree)],
      [Exists example_index_path,
       KDTreeBuild (Swath 3 4) (geographic (Swath 3 4) (7 / 10000)) 100,
       KDTreeSave example_kdtree example_index_path])"
    by (simp add: example_locals_def example_params_def example_kdtree_def)
  from inst path
  have c: "whole_swath_index example_env example_params example_locals
       [(example_index_path, KDTreeFile example_kdtree)] =
     (Inr (example_locals\<lparr>v_kd_tree := Some example_kdtree\<rparr>),
      [(example_index_path, KDTreeFile example_kdtree)],
      [Exists example_index_path, KDTreeLoad example_index_path])"
    by simp
  from inp none grid p a b c show ?thesis
    by blast
qed

theorem persisted_index_counterexample:
  "kd_tree_path example_params = None \<and>
   KDTreeSave example_kdtree example_index_path
     \<in> set (calls (L1_L2_RAD_LSTE example_env example_params [])) \<and>
   map_of (files (L1_L2_RAD_LSTE example_env example_params [])) example_index_path =
     Some (KDTreeFile example_kdtree) \<and>
   filter (\<lambda>e. phase e = Some 1)
     (calls (L1_L2_RAD_LSTE example_env example_params
        (files (L1_L2_RAD_LSTE example_env example_params [])))) =
     [KDTreeLoad example_index_path]"
  by code_simp

subsection \<open>One product\<close>

lemma write_files_eq:
  "write_files ps c fs = (Inr (), fold (\<lambda>p. AList.update p c) ps fs, [])"
  by (induction ps arbitrary: fs) (simp_all add: ret_def and_then_def write_file_def)

lemma map_of_fold_update:
  "q \<notin> set ps \<Longrightarrow> map_of (fold (\<lambda>p. AList.update p c) ps fs) q = map_of fs q"
  by (induction ps arbitrary: fs) (simp_all add: update_conv')

lemma map_of_fold_update_kept:
  "map_of fs q \<noteq> None \<Longrightarrow> map_of (fold (\<lambda>p. AList.update p c) ps fs) q \<noteq> None"
  by (induction ps arbitrary: fs) (simp_all add: update_conv')

lemma map_of_fold_update_Some:
  "map_of fs q = Some y \<Longrightarrow> \<exists>z. map_of (fold (\<lambda>p. AList.update p c) ps fs) q = Some z"
  using map_of_fold_update_kept [of fs q c ps] by auto

lemma both_exist_eq:
  "both_exist a b fs =
     (Inr (map_of fs a \<noteq> None \<and> map_of fs b \<noteq> None), fs,
      if map_of fs a \<noteq> None then [Exists a, Exists b] else [Exists a])"
  by (simp add: both_exist_def exists_def and_then_def ret_def)

lemma to_tiles_eq:
  "to_tiles E P L p fs =
     (case to_tiles_raises E p of
        Some x \<Rightarrow> (Inl (exn_of x), fs,
                   [ToTiles p (output_directory (v_runconfig L)) (tiles P) (variables P)])
      | None \<Rightarrow> (Inr (), fold (\<lambda>q. AList.update q (TileFile p)) (tile_filenames E p) fs,
                 [ToTiles p (output_directory (v_runconfig L)) (tiles P) (variables P)]))"
  by (simp add: to_tiles_def and_then_def emit_def may_fail_def write_files_eq raise_def ret_def
      split: option.splits)

lemma product_stage_existing:
  assumes "map_of fs (product_filename (v_runconfig L) p) \<noteq> None"
    and "map_of fs (browse_filename (v_runconfig L) p) \<noteq> None"
  shows "product_stage E P L p fs =
     (let primary = product_filename (v_runconfig L) p;
          browse = browse_filename (v_runconfig L) p;
          opening = [Exists primary, Exists browse, OpenProduct p primary];
          tiling = [ToTiles p (output_directory (v_runconfig L)) (tiles P) (variables P)]
      in case open_product_raises E p of
           Some x \<Rightarrow> (Inl (exn_of x), fs, opening)
         | None \<Rightarrow>
             if \<not> (process_tiles P \<and> tiled p) then (Inr (ExistingGranule p primary), fs, opening)
             else (case to_tiles_raises E p of
                     Some x \<Rightarrow> (Inl (exn_of x), fs, opening @ tiling)
                   | None \<Rightarrow>
                       (Inr (ExistingGranule p primary),
                        fold (\<lambda>q. AList.update q (TileFile p)) (tile_filenames E p) fs,
                        opening @ tiling)))"
  using assms
  by (simp add: product_stage_def both_exist_eq and_then_def open_product_def emit_def
      may_fail_def ret_def raise_def to_tiles_eq Let_def split: option.splits)

lemma product_stage_build:
  assumes "map_of fs (product_filename (v_runconfig L) p) = None \<or>
           map_of fs (browse_filename (v_runconfig L) p) = None"
  shows "product_stage E P L p fs =
     (let primary = product_filename (v_runconfig L) p;
          browse = browse_filename (v_runconfig L) p;
          building =
            (if map_of fs primary \<noteq> None then [Exists primary, Exists browse]
             else [Exists primary]) @
            [FromSwath p (swath_granule_of (v_runconfig L) p) primary (v_gridded_geometry L)
               (v_kd_tree L) (v_scan_kd_trees L) (v_kd_tree_path L)
               (metadata E P (v_runconfig L) p)];
          drawing = [WriteBrowseImage p browse];
          tiling = [ToTiles p (output_directory (v_runconfig L)) (tiles P) (variables P)];
          fs1 = AList.update primary (ProductFile p) fs;
          fs2 = AList.update browse (BrowseImage p) fs1
      in case from_swath_raises E p of
           Some x \<Rightarrow> (Inl (exn_of x), fs, building)
         | None \<Rightarrow>
             (case write_browse_image_raises E p of
                Some x \<Rightarrow> (Inl (exn_of x), fs1, building @ drawing)
              | None \<Rightarrow>
                  if \<not> (process_tiles P \<and> tiled p)
                  then (Inr (GriddedFromSwath p primary), fs2, building @ drawing)
                  else (case to_tiles_raises E p of
                          Some x \<Rightarrow> (Inl (exn_of x), fs2, building @ drawing @ tiling)
                        | None \<Rightarrow>
                            (Inr (GriddedFromSwath p primary),
                             fold (\<lambda>q. AList.update q (TileFile p)) (tile_filenames E p) fs2,
                             building @ drawing @ tiling))))"
proof (cases "map_of fs (product_filename (v_runconfig L) p) = None")
  case True
  then show ?thesis
    by (simp add: product_stage_def both_exist_eq and_then_def from_swath_def emit_def
        may_fail_def write_file_def write_browse_image_def to_tiles_eq ret_def raise_def Let_def
        split: option.splits)
next
  case False
  with assms have "map_of fs (browse_filename (v_runconfig L) p) = None"
    by simp
  with False show ?thesis
    by (simp add: product_stage_def both_exist_eq and_then_def from_swath_def emit_def
        may_fail_def write_file_def write_browse_image_def to_tiles_eq ret_def raise_def Let_def
        split: option.splits)
qed

lemma product_stage_leaves_both:
  assumes "result (product_stage E P L p fs) = Inr g"
  shows "map_of (files (product_stage E P L p fs)) (product_filename (v_runconfig L) p) \<noteq> None \<and>
         map_of (files (product_stage E P L p fs)) (browse_filename (v_runconfig L) p) \<noteq> None"
proof (cases "map_of fs (product_filename (v_runconfig L) p) \<noteq> None \<and>
              map_of fs (browse_filename (v_runconfig L) p) \<noteq> None")
  case True
  then show ?thesis
    using assms
    by (auto simp: product_stage_existing Let_def intro: map_of_fold_update_Some
        split: option.splits if_splits)
next
  case False
  then have "map_of fs (product_filename (v_runconfig L) p) = None \<or>
      map_of fs (browse_filename (v_runconfig L) p) = None"
    by simp
  note eq = product_stage_build [OF this, of E P]
  let ?fs2 = "AList.update (browse_filename (v_runconfig L) p) (BrowseImage p)
      (AList.update (product_filename (v_runconfig L) p) (ProductFile p) fs)"
  have kept: "map_of ?fs2 (product_filename (v_runconfig L) p) \<noteq> None"
    "map_of ?fs2 (browse_filename (v_runconfig L) p) \<noteq> None"
    by (simp_all add: update_conv')
  have "files (product_stage E P L p fs) = ?fs2 \<or>
      files (product_stage E P L p fs) =
        fold (\<lambda>q. AList.update q (TileFile p)) (tile_filenames E p) ?fs2"
    using assms unfolding eq
    by (auto simp: Let_def split: option.splits if_splits)
  then show ?thesis
    using kept map_of_fold_update_kept [OF kept(1)] map_of_fold_update_kept [OF kept(2)]
    by metis
qed

text \<open>
  Claim C5. For each of the three products: when the primary file and the browse image
  both exist, the stage asks for the two files, opens the primary file and calls
  neither \<open>from_swath\<close> nor \<open>write_browse_image\<close>; the only other call is the
  tiling of \<open>L1CG_RAD\<close> and \<open>L2G_LSTE\<close> when \<open>process_tiles\<close> holds. When opening
  (and tiling, where it is done) does not fail, the stage returns the granule of the
  existing file. The stage itself writes nothing: without tiling the file system is as
  it was, and with tiling only the tile files change. \<open>to_tiles\<close> is not part of this
  file; when its tile files are not the two outputs, both outputs keep their content.
  And after any stage that returned, both outputs exist, so that running the stage
  again does not call the builder.
\<close>

theorem existing_product_is_reused:
  assumes "map_of fs (product_filename (v_runconfig L) p) \<noteq> None"
    and "map_of fs (browse_filename (v_runconfig L) p) \<noteq> None"
    and "process_tiles P \<and> tiled p \<longrightarrow>
           product_filename (v_runconfig L) p \<notin> set (tile_filenames E p) \<and>
           browse_filename (v_runconfig L) p \<notin> set (tile_filenames E p)"
  shows "calls (product_stage E P L p fs) =
           [Exists (product_filename (v_runconfig L) p),
            Exists (browse_filename (v_runconfig L) p),
            OpenProduct p (product_filename (v_runconfig L) p)] @
           (if open_product_raises E p = None \<and> process_tiles P \<and> tiled p
            then [ToTiles p (output_directory (v_runconfig L)) (tiles P) (variables P)]
            else []) \<and>
         list_all (\<lambda>e. \<not> builder_call e) (calls (product_stage E P L p fs)) \<and>
         (open_product_raises E p = None \<longrightarrow>
            (process_tiles P \<and> tiled p \<longrightarrow> to_tiles_raises E p = None) \<longrightarrow>
            result (product_stage E P L p fs) =
              Inr (ExistingGranule p (product_filename (v_runconfig L) p))) \<and>
         map_of (files (product_stage E P L p fs)) (product_filename (v_runconfig L) p) =
           map_of fs (product_filename (v_runconfig L) p) \<and>
         map_of (files (product_stage E P L p fs)) (browse_filename (v_runconfig L) p) =
           map_of fs (browse_filename (v_runconfig L) p) \<and>
         (\<forall>q. q \<notin> set (tile_filenames E p) \<longrightarrow>
            map_of (files (product_stage E P L p fs)) q = map_of fs q) \<and>
         (\<not> (process_tiles P \<and> tiled p) \<longrightarrow> files (product_stage E P L p fs) = fs) \<and>
         (\<forall>g. result (product_stage E P L p fs) = Inr g \<longrightarrow>
            list_all (\<lambda>e. \<not> builder_call e)
              (calls (product_stage E P L p (files (product_stage E P L p fs)))))"
proof -
  note stage = product_stage_existing [OF assms(1,2), of E P]
  have trace: "calls (product_stage E P L p fs) =
      [Exists (product_filename (v_runconfig L) p),
       Exists (browse_filename (v_runconfig L) p),
       OpenProduct p (product_filename (v_runconfig L) p)] @
      (if open_product_raises E p = None \<and> process_tiles P \<and> tiled p
       then [ToTiles p (output_directory (v_runconfig L)) (tiles P) (variables P)]
       else [])"
    by (simp add: stage Let_def split: option.splits)
  then have quiet: "list_all (\<lambda>e. \<not> builder_call e) (calls (product_stage E P L p fs))"
    by simp
  have handle: "result (product_stage E P L p fs) =
      Inr (ExistingGranule p (product_filename (v_runconfig L) p))"
    if "open_product_raises E p = None"
      and "process_tiles P \<and> tiled p \<longrightarrow> to_tiles_raises E p = None"
    using that by (auto simp: stage Let_def split: option.splits)
  have written: "files (product_stage E P L p fs) = fs \<or>
      (process_tiles P \<and> tiled p \<and>
       files (product_stage E P L p fs) =
         fold (\<lambda>q. AList.update q (TileFile p)) (tile_filenames E p) fs)"
    by (auto simp: stage Let_def split: option.splits)
  have kept: "map_of (files (product_stage E P L p fs)) q = map_of fs q"
    if "q \<notin> set (tile_filenames E p)" for q
    using written that by (auto simp: map_of_fold_update)
  have primary: "map_of (files (product_stage E P L p fs)) (product_filename (v_runconfig L) p) =
      map_of fs (product_filename (v_runconfig L) p)"
    using written assms(3) by (auto simp: map_of_fold_update)
  have browse: "map_of (files (product_stage E P L p fs)) (browse_filename (v_runconfig L) p) =
      map_of fs (browse_filename (v_runconfig L) p)"
    using written assms(3) by (auto simp: map_of_fold_update)
  have untouched: "files (product_stage E P L p fs) = fs" if "\<not> (process_tiles P \<and> tiled p)"
    using written that by auto
  have again: "list_all (\<lambda>e. \<not> builder_call e)
      (calls (product_stage E P L p (files (product_stage E P L p fs))))"
    if "result (product_stage E P L p fs) = Inr g" for g
    using product_stage_leaves_both [OF that]
    by (auto simp: product_stage_existing Let_def split: option.splits)
  from trace quiet handle primary browse kept untouched again show ?thesis
    by blast
qed

theorem existing_product_is_reused_witness:
  "map_of produced_fs (product_filename (v_runconfig example_locals) L2G_LSTE) \<noteq> None \<and>
   map_of produced_fs (browse_filename (v_runconfig example_locals) L2G_LSTE) \<noteq> None \<and>
   process_tiles example_params \<and> tiled L2G_LSTE \<and>
   product_filename (v_runconfig example_locals) L2G_LSTE
     \<notin> set (tile_filenames tiling_env L2G_LSTE) \<and>
   browse_filename (v_runconfig example_locals) L2G_LSTE
     \<notin> set (tile_filenames tiling_env L2G_LSTE) \<and>
   product_stage tiling_env example_params example_locals L2G_LSTE produced_fs =
     (Inr (ExistingGranule L2G_LSTE example_LSTE_filename),
      produced_fs @ [(''/o/tiles/11SPS.h5'', TileFile L2G_LSTE)],
      [Exists example_LSTE_filename, Exists example_LSTE_browse_filename,
       OpenProduct L2G_LSTE example_LSTE_filename,
       ToTiles L2G_LSTE ''/o'' None None]) \<and>
   map_of (files (product_stage tiling_env example_params example_locals L2G_LSTE produced_fs))
       example_LSTE_filename = Some (File ''earlier run'') \<and>
   map_of (files (product_stage tiling_env example_params example_locals L2G_LSTE produced_fs))
       example_LSTE_browse_filename = Some (File ''earlier image'')"
proof -
  have h1: "map_of produced_fs (product_filename (v_runconfig example_locals) L2G_LSTE) \<noteq> None"
    by code_simp
  have h2: "map_of produced_fs (browse_filename (v_runconfig example_locals) L2G_LSTE) \<noteq> None"
    by code_simp
  have names: "product_filename (v_runconfig example_locals) L2G_LSTE = example_LSTE_filename"
      "browse_filename (v_runconfig example_locals) L2G_LSTE = example_LSTE_browse_filename"
    by code_simp+
  have tiles: "tile_filenames tiling_env L2G_LSTE = [''/o/tiles/11SPS.h5'']"
    by (simp add: tiling_env_def)
  have apart: "product_filename (v_runconfig example_locals) L2G_LSTE
        \<notin> set (tile_filenames tiling_env L2G_LSTE)"
      "browse_filename (v_runconfig example_locals) L2G_LSTE
        \<notin> set (tile_filenames tiling_env L2G_LSTE)"
    by (simp_all only: names tiles)
       (simp_all add: example_LSTE_filename_def example_LSTE_browse_filename_def)
  have tiling: "process_tiles example_params" "tiled L2G_LSTE"
    by (simp_all add: example_params_def)
  have run: "product_stage tiling_env example_params example_locals L2G_LSTE produced_fs =
     (Inr (ExistingGranule L2G_LSTE example_LSTE_filename),
      produced_fs @ [(''/o/tiles/11SPS.h5'', TileFile L2G_LSTE)],
      [Exists example_LSTE_filename, Exists example_LSTE_browse_filename,
       OpenProduct L2G_LSTE example_LSTE_filename,
       ToTiles L2G_LSTE ''/o'' None None])"
    by code_simp
  have before: "map_of produced_fs example_LSTE_filename = Some (File ''earlier run'')"
      "map_of produced_fs example_LSTE_browse_filename = Some (File ''earlier image'')"
    by (simp_all add: produced_fs_def example_LSTE_filename_def example_LSTE_browse_filename_def)
  note reused = existing_product_is_reused [OF h1 h2, of example_params tiling_env]
  from reused apart
  have "map_of (files (product_stage tiling_env example_params example_locals L2G_LSTE
                         produced_fs)) (product_filename (v_runconfig example_locals) L2G_LSTE) =
          map_of produced_fs (product_filename (v_runconfig example_locals) L2G_LSTE)"
    and "map_of (files (product_stage tiling_env example_params example_locals L2G_LSTE
                         produced_fs)) (browse_filename (v_runconfig example_locals) L2G_LSTE) =
          map_of produced_fs (browse_filename (v_runconfig example_locals) L2G_LSTE)"
    by blast+
  then have "map_of (files (product_stage tiling_env example_params example_locals L2G_LSTE
                         produced_fs)) example_LSTE_filename = Some (File ''earlier run'')"
    and "map_of (files (product_stage tiling_env example_params example_locals L2G_LSTE
                         produced_fs)) example_LSTE_browse_filename =
           Some (File ''earlier image'')"
    by (simp_all only: names before)
  with h1 h2 tiling apart run show ?thesis
    by blast
qed

subsection \<open>One index for three products\<close>

lemma map_filter_append: "List.map_filter f (xs @ ys) = List.map_filter f xs @ List.map_filter f ys"
  by (simp add: List.map_filter_def)

lemma spans_Nil [simp]: "spans lo hi []"
  by (simp add: spans_def List.map_filter_def)

lemma spans_append:
  assumes "spans lo k t" and "spans k hi t'" and "lo \<le> k" and "k \<le> hi"
  shows "spans lo hi (t @ t')"
proof -
  let ?a = "List.map_filter phase t" and ?b = "List.map_filter phase t'"
  from assms(1) have a: "sorted ?a" "\<forall>x \<in> set ?a. lo \<le> x \<and> x \<le> k"
    by (simp_all add: spans_def list_all_iff)
  from assms(2) have b: "sorted ?b" "\<forall>y \<in> set ?b. k \<le> y \<and> y \<le> hi"
    by (simp_all add: spans_def list_all_iff)
  have "\<forall>x \<in> set ?a. \<forall>y \<in> set ?b. x \<le> y"
    using a(2) b(2) by fastforce
  with a(1) b(1) have "sorted (?a @ ?b)"
    by (simp add: sorted_append)
  moreover have "\<forall>x \<in> set (?a @ ?b). lo \<le> x \<and> x \<le> hi"
    using a(2) b(2) assms(3,4) by fastforce
  ultimately show ?thesis
    by (simp add: spans_def map_filter_append list_all_iff)
qed

lemma spans_weaken:
  assumes "spans lo hi t" and "lo' \<le> lo" and "hi \<le> hi'"
  shows "spans lo' hi' t"
  using assms by (fastforce simp: spans_def list_all_iff)

lemma spans_Cons_None: "phase e = None \<Longrightarrow> spans lo hi (e # t) = spans lo hi t"
  by (simp add: spans_def List.map_filter_simps)

lemma spans_Cons_Some: "phase e = Some k \<Longrightarrow> spans k k t \<Longrightarrow> spans k k (e # t)"
  by (simp add: spans_def List.map_filter_simps list_all_iff)

lemma spans_in_phase: "list_all (in_phase k) t \<Longrightarrow> spans k k t"
proof (induction t)
  case Nil
  then show ?case by simp
next
  case (Cons e t)
  then have t: "spans k k t" by simp
  from Cons.prems have "phase e = None \<or> phase e = Some k"
    by (simp add: in_phase_def)
  then show ?case
    using t spans_Cons_None spans_Cons_Some by blast
qed

lemma confined_and_then:
  "confined lo k m \<Longrightarrow> (\<And>x. confined k hi (f x)) \<Longrightarrow> lo \<le> k \<Longrightarrow> k \<le> hi \<Longrightarrow>
   confined lo hi (and_then m f)"
  unfolding confined_def
proof (intro allI)
  fix fs
  assume m: "\<forall>fs. spans lo k (calls (m fs))" and f: "\<And>x. \<forall>fs. spans k hi (calls (f x fs))"
    and le: "lo \<le> k" "k \<le> hi"
  show "spans lo hi (calls (and_then m f fs))"
  proof (cases "result (m fs)")
    case (Inl e)
    with m le show ?thesis
      by (simp add: calls_and_then spans_weaken [of lo k _ lo hi])
  next
    case (Inr x)
    with m f le show ?thesis
      by (simp add: calls_and_then spans_append [of lo k _ hi])
  qed
qed

lemma confined_all_calls: "all_calls (in_phase k) m \<Longrightarrow> confined k k m"
  by (simp add: confined_def all_calls_def spans_in_phase)

lemma confined_weaken: "confined lo hi m \<Longrightarrow> lo' \<le> lo \<Longrightarrow> hi \<le> hi' \<Longrightarrow> confined lo' hi' m"
  by (auto simp: confined_def intro: spans_weaken)

lemma confined_prepare: "confined 0 0 (prepare E P)"
  by (rule confined_all_calls, rule all_calls_prepare) (simp_all add: in_phase_def)

lemma confined_resolve_index: "confined 1 1 (resolve_index E P L)"
  by (rule confined_all_calls, rule all_calls_resolve_index) (simp_all add: in_phase_def)

lemma confined_product_stage: "confined (product_phase p) (product_phase p) (product_stage E P L p)"
  by (rule confined_all_calls, rule all_calls_product_stage) (simp_all add: in_phase_def)

lemma confined_probe: "confined k k (not_None_and_exists p)"
  by (rule confined_all_calls, rule all_calls_not_None_and_exists) (simp add: in_phase_def)

lemma confined_ret: "confined k k (ret x)"
  by (simp add: confined_def ret_def)

lemma confined_products: "confined 1 4 (products E P L)"
  unfolding products_def Let_def
  apply (rule confined_and_then [where k = 2])
     apply (rule confined_weaken [OF confined_product_stage]; simp)
    apply (rule confined_and_then [where k = 2])
       apply (rule confined_probe)
      apply (rule confined_and_then [where k = 3])
         apply (rule confined_weaken [OF confined_product_stage]; simp)
        apply (rule confined_and_then [where k = 4])
           apply (rule confined_weaken [OF confined_product_stage]; simp)
          apply (rule confined_ret)
         apply simp_all
  done

lemma confined_try_body: "confined 0 4 (try_body E P)"
  unfolding try_body_def
  apply (rule confined_and_then [where k = 0])
     apply (rule confined_prepare)
    apply (rule confined_and_then [where k = 1])
       apply (rule confined_weaken [OF confined_resolve_index]; simp)
      apply (rule confined_products)
     apply simp_all
  done


lemma L1_L2_RAD_LSTE_calls:
  "calls (L1_L2_RAD_LSTE E P fs) =
     calls (try_body E P fs) @
     (case result (try_body E P fs) of
        Inl e \<Rightarrow> if isinstance_ECOSTRESSExitCodeException e then [LogException e] else []
      | Inr u \<Rightarrow> [])"
  using L1_L2_RAD_LSTE_outcome [OF triple_eq [of "try_body E P fs"], of ]
  by (auto simp: exit_code_None split: sum.splits option.splits dest: exit_code_Some)

lemma sorted_phases: "sorted (List.map_filter phase (calls (L1_L2_RAD_LSTE E P fs)))"
proof -
  have "spans 0 4 (calls (try_body E P fs))"
    using confined_try_body [of E P] by (simp add: confined_def)
  then show ?thesis
    by (auto simp: L1_L2_RAD_LSTE_calls spans_def map_filter_append List.map_filter_def
        split: sum.splits)
qed


lemma at_most_builds_and_then:
  "at_most_builds a m \<Longrightarrow> (\<And>x. at_most_builds b (f x)) \<Longrightarrow> at_most_builds (a + b) (and_then m f)"
  unfolding at_most_builds_def
proof (intro allI)
  fix fs
  assume m: "\<forall>fs. length (filter is_build (calls (m fs))) \<le> a"
    and f: "\<And>x. \<forall>fs. length (filter is_build (calls (f x fs))) \<le> b"
  show "length (filter is_build (calls (and_then m f fs))) \<le> a + b"
  proof (cases "result (m fs)")
    case (Inl e)
    with m [rule_format, of fs] show ?thesis
      by (simp add: calls_and_then)
  next
    case (Inr x)
    with m [rule_format, of fs] f [of x, rule_format, of "files (m fs)"] show ?thesis
      by (simp add: calls_and_then)
  qed
qed

lemma at_most_builds_weaken: "at_most_builds a m \<Longrightarrow> a \<le> b \<Longrightarrow> at_most_builds b m"
  unfolding at_most_builds_def using le_trans by blast

lemma no_builds: "all_calls (\<lambda>e. \<not> is_build e) m \<Longrightarrow> at_most_builds 0 m"
  by (auto simp: at_most_builds_def all_calls_def list_all_iff filter_empty_conv)

lemma KDTree_new_builds: "at_most_builds (Suc 0) (KDTree_new E s g r)"
  by (auto simp: at_most_builds_def KDTree_new_def calls_and_then emit_def
      silent_may_fail [unfolded silent_def] ret_def split: sum.splits)

lemma KDTree_save_builds: "at_most_builds 0 (KDTree_save E t p)"
  by (rule no_builds, rule all_calls_KDTree_save) simp

lemma whole_swath_index_builds: "at_most_builds (Suc 0) (whole_swath_index E P L)"
proof -
  have probe: "at_most_builds 0 (not_None_and_exists (v_kd_tree_path L))"
    by (rule no_builds, rule all_calls_not_None_and_exists) simp
  have load: "\<And>p. at_most_builds (Suc 0) (and_then (KDTree_load p) (\<lambda>t. ret (L\<lparr>v_kd_tree := Some t\<rparr>)))"
    by (rule at_most_builds_weaken [of 0], rule no_builds)
       (auto intro!: all_calls_intros)
  have build: "\<And>p. at_most_builds (Suc 0)
      (and_then (KDTree_new E (v_swath_geometry L) (v_gridded_geometry L) (search_radius_meters P))
         (\<lambda>t. and_then (KDTree_save E t p) (\<lambda>_. ret (L\<lparr>v_kd_tree := Some t\<rparr>))))"
  proof -
    fix p
    have "at_most_builds (Suc 0 + 0)
      (and_then (KDTree_new E (v_swath_geometry L) (v_gridded_geometry L) (search_radius_meters P))
         (\<lambda>t. and_then (KDTree_save E t p) (\<lambda>_. ret (L\<lparr>v_kd_tree := Some t\<rparr>))))"
      by (rule at_most_builds_and_then [OF KDTree_new_builds], rule no_builds)
         (intro all_calls_intros all_calls_KDTree_save, simp)
    then show "at_most_builds (Suc 0)
      (and_then (KDTree_new E (v_swath_geometry L) (v_gridded_geometry L) (search_radius_meters P))
         (\<lambda>t. and_then (KDTree_save E t p) (\<lambda>_. ret (L\<lparr>v_kd_tree := Some t\<rparr>))))"
      by simp
  qed
  have build': "at_most_builds (Suc 0)
      (and_then (KDTree_new E (v_swath_geometry L) (v_gridded_geometry L) (search_radius_meters P))
         (\<lambda>t. ret (L\<lparr>v_kd_tree := Some t\<rparr>)))"
  proof -
    have "at_most_builds (Suc 0 + 0)
      (and_then (KDTree_new E (v_swath_geometry L) (v_gridded_geometry L) (search_radius_meters P))
         (\<lambda>t. ret (L\<lparr>v_kd_tree := Some t\<rparr>)))"
      by (rule at_most_builds_and_then [OF KDTree_new_builds], rule no_builds)
         (rule all_calls_ret)
    then show ?thesis by simp
  qed
  have "at_most_builds (0 + Suc 0) (whole_swath_index E P L)"
    unfolding whole_swath_index_def
    by (rule at_most_builds_and_then [OF probe]) (auto split: option.splits simp: load build build')
  then show ?thesis by simp
qed

lemma build_scan_kd_trees_builds: "at_most_builds (Suc 0) (build_scan_kd_trees E P L)"
  by (auto simp: at_most_builds_def build_scan_kd_trees_def calls_and_then emit_def
      silent_may_fail [unfolded silent_def] ret_def split: sum.splits)

lemma scan_by_scan_index_builds: "at_most_builds (Suc 0) (scan_by_scan_index E P L)"
proof (cases "v_scan_kd_trees L")
  case (Some ts)
  then show ?thesis
    by (simp add: scan_by_scan_index_def at_most_builds_def ret_def)
next
  case None
  have probe: "at_most_builds 0 (not_None_and_exists (v_kd_tree_path L))"
    by (rule no_builds, rule all_calls_not_None_and_exists) simp
  have load: "\<And>d. at_most_builds (Suc 0)
      (and_then (glob E (join d ''*.kdtree'')) (\<lambda>filenames.
       and_then (load_scan_kd_trees (sort filenames)) (\<lambda>ts.
       ret (L\<lparr>v_scan_kd_trees := Some ts\<rparr>))))"
    by (rule at_most_builds_weaken [of 0], rule no_builds)
       (auto intro!: all_calls_intros all_calls_load_scan_kd_trees)
  have build: "\<And>d. at_most_builds (Suc 0)
      (and_then (build_scan_kd_trees E P L) (\<lambda>ts.
       and_then (makedirs d) (\<lambda>_.
       save_scan_kd_trees E d 0 ts (L\<lparr>v_scan_kd_trees := Some ts\<rparr>))))"
  proof -
    fix d
    have "at_most_builds (Suc 0 + 0)
      (and_then (build_scan_kd_trees E P L) (\<lambda>ts.
       and_then (makedirs d) (\<lambda>_.
       save_scan_kd_trees E d 0 ts (L\<lparr>v_scan_kd_trees := Some ts\<rparr>))))"
      by (rule at_most_builds_and_then [OF build_scan_kd_trees_builds], rule no_builds)
         (intro all_calls_intros all_calls_save_scan_kd_trees; simp)
    then show "at_most_builds (Suc 0)
      (and_then (build_scan_kd_trees E P L) (\<lambda>ts.
       and_then (makedirs d) (\<lambda>_.
       save_scan_kd_trees E d 0 ts (L\<lparr>v_scan_kd_trees := Some ts\<rparr>))))"
      by simp
  qed
  have build': "at_most_builds (Suc 0)
      (and_then (build_scan_kd_trees E P L) (\<lambda>ts. ret (L\<lparr>v_scan_kd_trees := Some ts\<rparr>)))"
  proof -
    have "at_most_builds (Suc 0 + 0)
      (and_then (build_scan_kd_trees E P L) (\<lambda>ts. ret (L\<lparr>v_scan_kd_trees := Some ts\<rparr>)))"
      by (rule at_most_builds_and_then [OF build_scan_kd_trees_builds], rule no_builds)
         (rule all_calls_ret)
    then show ?thesis by simp
  qed
  have "at_most_builds (0 + Suc 0) (scan_by_scan_index E P L)"
    unfolding scan_by_scan_index_def None option.case
    by (rule at_most_builds_and_then [OF probe]) (auto split: option.splits simp: load build build')
  then show ?thesis by simp
qed

lemma resolve_index_builds: "at_most_builds (Suc 0) (resolve_index E P L)"
proof -
  have "at_most_builds (Suc 0)
      (raise (ValueError (''unrecognized overlap strategy: '' @ overlap_strategy P))
         :: locals io)"
    by (simp add: at_most_builds_def raise_def)
  then show ?thesis
    by (simp add: resolve_index_def whole_swath_index_builds scan_by_scan_index_builds)
qed

lemma try_body_builds: "at_most_builds (Suc 0) (try_body E P)"
proof -
  have prep: "at_most_builds 0 (prepare E P)"
    by (rule no_builds, rule all_calls_prepare) simp_all
  have prod: "\<And>L. at_most_builds 0 (products E P L)"
    unfolding products_def Let_def
    by (rule no_builds)
       (intro all_calls_intros all_calls_product_stage; simp)
  have "\<And>L. at_most_builds (Suc 0 + 0) (and_then (resolve_index E P L) (products E P))"
    by (rule at_most_builds_and_then [OF resolve_index_builds prod])
  then have "at_most_builds (0 + Suc 0) (try_body E P)"
    unfolding try_body_def
    by (intro at_most_builds_and_then [OF prep]) simp
  then show ?thesis by simp
qed

lemma L1_L2_RAD_LSTE_builds:
  "length (filter is_build (calls (L1_L2_RAD_LSTE E P fs))) \<le> 1"
  using try_body_builds [of E P]
  by (auto simp: at_most_builds_def L1_L2_RAD_LSTE_calls split: sum.splits)


lemma try_body_calls:
  "calls (try_body E P fs) =
     calls (prepare E P fs) @
     (case result (prepare E P fs) of
        Inl e \<Rightarrow> []
      | Inr L \<Rightarrow>
          calls (resolve_index E P L (files (prepare E P fs))) @
          (case result (resolve_index E P L (files (prepare E P fs))) of
             Inl e \<Rightarrow> []
           | Inr L' \<Rightarrow>
               calls (products E P L' (files (resolve_index E P L (files (prepare E P fs)))))))"
  by (simp add: try_body_def calls_and_then result_and_then files_and_then split: sum.splits)

lemma try_body_result:
  "result (try_body E P fs) =
     (case result (prepare E P fs) of
        Inl e \<Rightarrow> Inl e
      | Inr L \<Rightarrow>
          (case result (resolve_index E P L (files (prepare E P fs))) of
             Inl e \<Rightarrow> Inl e
           | Inr L' \<Rightarrow>
               result (products E P L' (files (resolve_index E P L (files (prepare E P fs)))))))"
  by (simp add: try_body_def calls_and_then result_and_then files_and_then split: sum.splits)

lemma prepare_no_index_args: "list_all (\<lambda>e. index_args e = None) (calls (prepare E P fs))"
proof -
  have "all_calls (\<lambda>e. index_args e = None) (prepare E P)"
    by (rule all_calls_prepare) simp_all
  then show ?thesis by (simp add: all_calls_def)
qed

lemma resolve_index_no_index_args:
  "list_all (\<lambda>e. index_args e = None) (calls (resolve_index E P L fs))"
proof -
  have "all_calls (\<lambda>e. index_args e = None) (resolve_index E P L)"
    by (rule all_calls_resolve_index) simp_all
  then show ?thesis by (simp add: all_calls_def)
qed

lemma products_index_args:
  "list_all (\<lambda>e. index_args e = None \<or>
               index_args e = Some (v_kd_tree L, v_scan_kd_trees L, v_kd_tree_path L))
     (calls (products E P L fs))"
proof -
  have "all_calls (\<lambda>e. index_args e = None \<or>
               index_args e = Some (v_kd_tree L, v_scan_kd_trees L, v_kd_tree_path L))
     (products E P L)"
    unfolding products_def Let_def
    by (intro all_calls_intros all_calls_product_stage) simp_all
  then show ?thesis by (simp add: all_calls_def)
qed

lemma list_all_weaken: "list_all Q t \<Longrightarrow> (\<And>e. Q e \<Longrightarrow> R e) \<Longrightarrow> list_all R t"
  by (simp add: list_all_iff)

lemma L1_L2_RAD_LSTE_index_args:
  "list_all (\<lambda>e. index_args e = None \<or> index_args e = resolved_index E P fs)
     (calls (L1_L2_RAD_LSTE E P fs))"
proof -
  let ?Q = "\<lambda>e. index_args e = None \<or> index_args e = resolved_index E P fs"
  have prep: "list_all ?Q (calls (prepare E P fs))"
    by (rule list_all_weaken [OF prepare_no_index_args]) simp
  have idx: "\<And>L fs'. list_all ?Q (calls (resolve_index E P L fs'))"
    by (rule list_all_weaken [OF resolve_index_no_index_args]) simp
  have prod: "\<And>L L'. result (prepare E P fs) = Inr L \<Longrightarrow>
      result (resolve_index E P L (files (prepare E P fs))) = Inr L' \<Longrightarrow>
      list_all ?Q (calls (products E P L' (files (resolve_index E P L (files (prepare E P fs))))))"
    by (rule list_all_weaken [OF products_index_args]) (auto simp: resolved_index_def)
  have "list_all ?Q (calls (try_body E P fs))"
    using prep idx prod by (auto simp: try_body_calls split: sum.splits)
  then show ?thesis
    by (auto simp: L1_L2_RAD_LSTE_calls split: sum.splits)
qed

lemma map_filter_all_None: "list_all (\<lambda>e. f e = None) t \<Longrightarrow> List.map_filter f t = []"
  by (induction t) (simp_all add: List.map_filter_simps)

lemma started_product_stage:
  "List.map_filter started_product (calls (product_stage E P L p fs)) = [p]"
proof (cases "map_of fs (product_filename (v_runconfig L) p) \<noteq> None \<and>
              map_of fs (browse_filename (v_runconfig L) p) \<noteq> None")
  case True
  then show ?thesis
    by (auto simp: product_stage_existing Let_def List.map_filter_simps split: option.splits)
next
  case False
  then have "map_of fs (product_filename (v_runconfig L) p) = None \<or>
      map_of fs (browse_filename (v_runconfig L) p) = None"
    by simp
  note eq = product_stage_build [OF this, of E P]
  show ?thesis
    unfolding eq
    by (auto simp: Let_def List.map_filter_simps split: option.splits)
qed

lemma started_probe:
  "List.map_filter started_product (calls (not_None_and_exists p fs)) = []"
  by (cases p) (simp_all add: not_None_and_exists_def exists_def ret_def List.map_filter_simps)

lemma started_products:
  "List.map_filter started_product (calls (products E P L fs)) \<in>
     {[L1CG_RAD], [L1CG_RAD, L2G_LSTE], [L1CG_RAD, L2G_LSTE, L2G_CLOUD]} \<and>
   (\<forall>u. result (products E P L fs) = Inr u \<longrightarrow>
      List.map_filter started_product (calls (products E P L fs)) =
        [L1CG_RAD, L2G_LSTE, L2G_CLOUD])"
  by (auto simp: products_def Let_def calls_and_then result_and_then files_and_then
      map_filter_append started_product_stage started_probe ret_def List.map_filter_simps
      split: sum.splits)

lemma started_try_body:
  "(\<exists>n\<le>3. List.map_filter started_product (calls (try_body E P fs)) = take n all_products) \<and>
   (\<forall>u. result (try_body E P fs) = Inr u \<longrightarrow>
      List.map_filter started_product (calls (try_body E P fs)) = all_products)"
proof -
  have prep: "List.map_filter started_product (calls (prepare E P fs)) = []"
  proof (rule map_filter_all_None)
    have "all_calls (\<lambda>e. started_product e = None) (prepare E P)"
      by (rule all_calls_prepare) simp_all
    then show "list_all (\<lambda>e. started_product e = None) (calls (prepare E P fs))"
      by (simp add: all_calls_def)
  qed
  have idx: "\<And>L fs'. List.map_filter started_product (calls (resolve_index E P L fs')) = []"
  proof (rule map_filter_all_None)
    fix L fs'
    have "all_calls (\<lambda>e. started_product e = None) (resolve_index E P L)"
      by (rule all_calls_resolve_index) simp_all
    then show "list_all (\<lambda>e. started_product e = None) (calls (resolve_index E P L fs'))"
      by (simp add: all_calls_def)
  qed
  have t0: "[] = take 0 all_products" and t1: "[L1CG_RAD] = take 1 all_products"
    and t2: "[L1CG_RAD, L2G_LSTE] = take 2 all_products"
    and t3: "[L1CG_RAD, L2G_LSTE, L2G_CLOUD] = take 3 all_products"
    by (simp_all add: all_products_def)
  show ?thesis
  proof (cases "result (prepare E P fs)")
    case (Inl e)
    then show ?thesis
      using t0 by (auto simp: try_body_calls try_body_result prep)
  next
    case (Inr L)
    show ?thesis
    proof (cases "result (resolve_index E P L (files (prepare E P fs)))")
      case (Inl e)
      with Inr show ?thesis
        using t0 by (auto simp: try_body_calls try_body_result prep idx map_filter_append)
    next
      case (Inr L')
      let ?fs = "files (resolve_index E P L (files (prepare E P fs)))"
      have eq: "List.map_filter started_product (calls (try_body E P fs)) =
          List.map_filter started_product (calls (products E P L' ?fs))"
        using \<open>result (prepare E P fs) = Inr L\<close> Inr
        by (simp add: try_body_calls prep idx map_filter_append)
      have res: "result (try_body E P fs) = result (products E P L' ?fs)"
        using \<open>result (prepare E P fs) = Inr L\<close> Inr
        by (simp add: try_body_result)
      from started_products [of E P L' ?fs]
      have "List.map_filter started_product (calls (products E P L' ?fs)) = take 1 all_products \<or>
          List.map_filter started_product (calls (products E P L' ?fs)) = take 2 all_products \<or>
          List.map_filter started_product (calls (products E P L' ?fs)) = take 3 all_products"
        using t1 t2 t3 by auto
      then have "\<exists>n\<le>3. List.map_filter started_product (calls (products E P L' ?fs)) =
          take n all_products"
      proof (elim disjE)
        assume "List.map_filter started_product (calls (products E P L' ?fs)) =
            take 1 all_products"
        then show ?thesis by (intro exI [of _ 1]) simp
      next
        assume "List.map_filter started_product (calls (products E P L' ?fs)) =
            take 2 all_products"
        then show ?thesis by (intro exI [of _ 2]) simp
      next
        assume "List.map_filter started_product (calls (products E P L' ?fs)) =
            take 3 all_products"
        then show ?thesis by (intro exI [of _ 3]) simp
      qed
      moreover have "\<forall>u. result (products E P L' ?fs) = Inr u \<longrightarrow>
          List.map_filter started_product (calls (products E P L' ?fs)) = all_products"
        using started_products [of E P L' ?fs] by (simp add: all_products_def)
      ultimately show ?thesis
        by (simp add: eq res)
    qed
  qed
qed


lemma started_L1_L2_RAD_LSTE:
  "List.map_filter started_product (calls (L1_L2_RAD_LSTE E P fs)) =
     List.map_filter started_product (calls (try_body E P fs))"
  by (auto simp: L1_L2_RAD_LSTE_calls map_filter_append List.map_filter_simps split: sum.splits)

lemma returns_only_save_scan_kd_trees_list:
  "v_scan_kd_trees L = Some ts' \<Longrightarrow>
   returns_only (\<lambda>L'. v_scan_kd_trees L' = Some ts') (save_scan_kd_trees E d i ts L)"
  by (induction ts arbitrary: i L) (auto intro!: returns_only_and_then returns_only_ret)

lemma whole_swath_index_resolves:
  "returns_only (\<lambda>L'. v_kd_tree L' \<noteq> None) (whole_swath_index E P L)"
  unfolding whole_swath_index_def
  by (auto intro!: returns_only_and_then returns_only_ret split: option.splits)

lemma scan_by_scan_index_resolves:
  "returns_only (\<lambda>L'. v_scan_kd_trees L' \<noteq> None) (scan_by_scan_index E P L)"
proof -
  have "returns_only (\<lambda>L'. v_scan_kd_trees L' \<noteq> None)
      (save_scan_kd_trees E d 0 ts (L\<lparr>v_scan_kd_trees := Some ts\<rparr>))" for d ts
    using returns_only_save_scan_kd_trees_list [of "L\<lparr>v_scan_kd_trees := Some ts\<rparr>" ts E d 0 ts]
    by (simp add: returns_only_def)
  then show ?thesis
    unfolding scan_by_scan_index_def
    by (auto intro!: returns_only_and_then returns_only_ret split: option.splits)
qed

lemma resolve_index_resolves:
  assumes "result (resolve_index E P L fs) = Inr L'"
  shows "if overlap_strategy P = ''scan_by_scan'' then v_scan_kd_trees L' \<noteq> None
         else v_kd_tree L' \<noteq> None"
proof -
  have "returns_only (\<lambda>L'. if overlap_strategy P = ''scan_by_scan'' then v_scan_kd_trees L' \<noteq> None
         else v_kd_tree L' \<noteq> None) (resolve_index E P L)"
    using whole_swath_index_resolves [of E P L]
      whole_swath_index_resolves [of E P "L\<lparr>v_swath_geometry := clip_tails (v_swath_geometry L)\<rparr>"]
      scan_by_scan_index_resolves [of E P L]
    by (auto simp: resolve_index_def returns_only_raise)
  with assms show ?thesis
    by (simp add: returns_only_def)
qed

lemma resolved_index_resolves:
  assumes "resolved_index E P fs = Some (kt, skt, kp)"
  shows "if overlap_strategy P = ''scan_by_scan'' then skt \<noteq> None else kt \<noteq> None"
proof -
  from assms obtain L L' where "result (prepare E P fs) = Inr L"
    and r: "result (resolve_index E P L (files (prepare E P fs))) = Inr L'"
    and "kt = v_kd_tree L'" "skt = v_scan_kd_trees L'"
    by (auto simp: resolved_index_def split: sum.splits)
  with resolve_index_resolves [OF r] show ?thesis
    by simp
qed

lemma resolved_index_of_complete_run:
  assumes "result (try_body E P fs) = Inr u"
  shows "resolved_index E P fs \<noteq> None"
  using assms by (auto simp: try_body_result resolved_index_def split: sum.splits)

lemma product_stage_index_args:
  "List.map_filter index_args (calls (product_stage E P L p fs)) =
     (if map_of fs (product_filename (v_runconfig L) p) \<noteq> None \<and>
         map_of fs (browse_filename (v_runconfig L) p) \<noteq> None
      then [] else [(v_kd_tree L, v_scan_kd_trees L, v_kd_tree_path L)])"
proof (cases "map_of fs (product_filename (v_runconfig L) p) \<noteq> None \<and>
              map_of fs (browse_filename (v_runconfig L) p) \<noteq> None")
  case True
  then show ?thesis
    by (auto simp: product_stage_existing Let_def List.map_filter_simps split: option.splits)
next
  case False
  then have "map_of fs (product_filename (v_runconfig L) p) = None \<or>
      map_of fs (browse_filename (v_runconfig L) p) = None"
    by simp
  note eq = product_stage_build [OF this, of E P]
  show ?thesis
    unfolding eq using False
    by (auto simp: Let_def List.map_filter_simps split: option.splits)
qed

lemma index_args_of_builders:
  assumes "list_all (\<lambda>e. index_args e = None \<or> index_args e = Some r) t"
    and "list_all (\<lambda>e. \<not> is_open e) t"
  shows "List.map_filter index_args t =
     replicate (length (List.map_filter started_product t)) r"
  using assms
proof (induction t)
  case Nil
  then show ?case
    by (simp add: List.map_filter_simps)
next
  case (Cons e t)
  then have rest: "List.map_filter index_args t =
      replicate (length (List.map_filter started_product t)) r"
    by simp
  from Cons.prems have "index_args e = None \<or> index_args e = Some r" and "\<not> is_open e"
    by simp_all
  then show ?case
    using rest by (cases e) (auto simp: List.map_filter_simps)
qed

lemma builders_of_complete_run:
  assumes "result (try_body E P fs) = Inr u"
    and "list_all (\<lambda>e. \<not> is_open e) (calls (L1_L2_RAD_LSTE E P fs))"
    and "resolved_index E P fs = Some r"
  shows "List.map_filter index_args (calls (L1_L2_RAD_LSTE E P fs)) = [r, r, r]"
proof -
  have "list_all (\<lambda>e. index_args e = None \<or> index_args e = Some r)
      (calls (L1_L2_RAD_LSTE E P fs))"
    using L1_L2_RAD_LSTE_index_args [of E P fs] assms(3) by simp
  from index_args_of_builders [OF this assms(2)]
  have "List.map_filter index_args (calls (L1_L2_RAD_LSTE E P fs)) =
      replicate (length (List.map_filter started_product (calls (L1_L2_RAD_LSTE E P fs)))) r" .
  moreover have "List.map_filter started_product (calls (L1_L2_RAD_LSTE E P fs)) = all_products"
    using started_try_body [of E P fs] assms(1) by (simp add: started_L1_L2_RAD_LSTE)
  ultimately show ?thesis
    by (simp add: all_products_def numeral_3_eq_3)
qed

text \<open>
  Claim C6, as amended. In every run of the function, whatever fails: at most one call
  builds a spatial index (\<open>KDTree\<close> or \<open>generate_scan_kd_trees\<close>); the calls come in
  the order of the parts, so every call that works on the index precedes every call of
  a product, and the calls of \<open>L1CG_RAD\<close> precede those of \<open>L2G_LSTE\<close>, which precede
  those of \<open>L2G_CLOUD\<close>; the products that are started are a prefix of the three in
  that order, and all three when the \<open>try\<close> block ends without exception. When the
  work on the index has returned, there is an index: the list of per-scan indices under
  \<open>scan_by_scan\<close>, the whole-swath index under the other strategies. A stage that does
  not find both of its outputs calls \<open>from_swath\<close> once, with the index values that it
  is given, and a stage that finds both calls no builder and is handed no index. Every
  call of \<open>from_swath\<close> in the run is given the index values as the work on the index
  left them; a run that ends without exception and opens no existing product makes
  three such calls.
\<close>

theorem one_index_for_three_products:
  "length (filter is_build (calls (L1_L2_RAD_LSTE E P fs))) \<le> 1 \<and>
   sorted (List.map_filter phase (calls (L1_L2_RAD_LSTE E P fs))) \<and>
   list_all (\<lambda>e. index_args e = None \<or> index_args e = resolved_index E P fs)
     (calls (L1_L2_RAD_LSTE E P fs)) \<and>
   (\<exists>n\<le>3. List.map_filter started_product (calls (L1_L2_RAD_LSTE E P fs)) =
             take n all_products) \<and>
   (\<forall>u. result (try_body E P fs) = Inr u \<longrightarrow>
      List.map_filter started_product (calls (L1_L2_RAD_LSTE E P fs)) = all_products \<and>
      resolved_index E P fs \<noteq> None) \<and>
   (\<forall>kt skt kp. resolved_index E P fs = Some (kt, skt, kp) \<longrightarrow>
      (if overlap_strategy P = ''scan_by_scan'' then skt \<noteq> None else kt \<noteq> None)) \<and>
   (\<forall>L p fs'.
      List.map_filter index_args (calls (product_stage E P L p fs')) =
        (if map_of fs' (product_filename (v_runconfig L) p) \<noteq> None \<and>
            map_of fs' (browse_filename (v_runconfig L) p) \<noteq> None
         then [] else [(v_kd_tree L, v_scan_kd_trees L, v_kd_tree_path L)])) \<and>
   (\<forall>u r. result (try_body E P fs) = Inr u \<longrightarrow>
      list_all (\<lambda>e. \<not> is_open e) (calls (L1_L2_RAD_LSTE E P fs)) \<longrightarrow>
      resolved_index E P fs = Some r \<longrightarrow>
      List.map_filter index_args (calls (L1_L2_RAD_LSTE E P fs)) = [r, r, r])"
proof (intro conjI allI impI)
  show "length (filter is_build (calls (L1_L2_RAD_LSTE E P fs))) \<le> 1"
    by (rule L1_L2_RAD_LSTE_builds)
  show "sorted (List.map_filter phase (calls (L1_L2_RAD_LSTE E P fs)))"
    by (rule sorted_phases)
  show "list_all (\<lambda>e. index_args e = None \<or> index_args e = resolved_index E P fs)
      (calls (L1_L2_RAD_LSTE E P fs))"
    by (rule L1_L2_RAD_LSTE_index_args)
  show "\<exists>n\<le>3. List.map_filter started_product (calls (L1_L2_RAD_LSTE E P fs)) =
      take n all_products"
    using started_try_body [of E P fs] by (simp add: started_L1_L2_RAD_LSTE)
next
  fix u assume "result (try_body E P fs) = Inr u"
  then show "List.map_filter started_product (calls (L1_L2_RAD_LSTE E P fs)) = all_products"
    using started_try_body [of E P fs] by (simp add: started_L1_L2_RAD_LSTE)
next
  fix u assume "result (try_body E P fs) = Inr u"
  then show "resolved_index E P fs \<noteq> None"
    by (rule resolved_index_of_complete_run)
next
  fix kt skt kp assume "resolved_index E P fs = Some (kt, skt, kp)"
  then show "if overlap_strategy P = ''scan_by_scan'' then skt \<noteq> None else kt \<noteq> None"
    by (rule resolved_index_resolves)
next
  fix L p fs'
  show "List.map_filter index_args (calls (product_stage E P L p fs')) =
      (if map_of fs' (product_filename (v_runconfig L) p) \<noteq> None \<and>
          map_of fs' (browse_filename (v_runconfig L) p) \<noteq> None
       then [] else [(v_kd_tree L, v_scan_kd_trees L, v_kd_tree_path L)])"
    by (rule product_stage_index_args)
next
  fix u r
  assume "result (try_body E P fs) = Inr u"
    and "list_all (\<lambda>e. \<not> is_open e) (calls (L1_L2_RAD_LSTE E P fs))"
    and "resolved_index E P fs = Some r"
  then show "List.map_filter index_args (calls (L1_L2_RAD_LSTE E P fs)) = [r, r, r]"
    by (rule builders_of_complete_run)
qed

theorem one_index_for_three_products_witness:
  "result (try_body example_env example_params []) = Inr () \<and>
   list_all (\<lambda>e. \<not> is_open e) (calls (L1_L2_RAD_LSTE example_env example_params [])) \<and>
   resolved_index example_env example_params [] =
     Some (Some example_kdtree, None, Some example_index_path) \<and>
   overlap_strategy example_params \<noteq> ''scan_by_scan'' \<and>
   Some example_kdtree \<noteq> None \<and>
   List.map_filter started_product (calls (L1_L2_RAD_LSTE example_env example_params [])) =
     [L1CG_RAD, L2G_LSTE, L2G_CLOUD] \<and>
   List.map_filter index_args (calls (L1_L2_RAD_LSTE example_env example_params [])) =
     [(Some example_kdtree, None, Some example_index_path),
      (Some example_kdtree, None, Some example_index_path),
      (Some example_kdtree, None, Some example_index_path)]"
proof -
  have r: "result (try_body example_env example_params []) = Inr ()"
    by code_simp
  have o: "list_all (\<lambda>e. \<not> is_open e) (calls (L1_L2_RAD_LSTE example_env example_params []))"
    by code_simp
  have i: "resolved_index example_env example_params [] =
     Some (Some example_kdtree, None, Some example_index_path)"
    by code_simp
  have s: "overlap_strategy example_params \<noteq> ''scan_by_scan''"
    by (simp add: example_params_def)
  note run = one_index_for_three_products [of example_env example_params "[]"]
  note rest = run [THEN conjunct2, THEN conjunct2, THEN conjunct2, THEN conjunct2]
  note started = rest [THEN conjunct1, rule_format, OF r, THEN conjunct1]
  note there = rest [THEN conjunct2, THEN conjunct1, rule_format, OF i]
  note passed = rest [THEN conjunct2, THEN conjunct2, THEN conjunct2, rule_format, OF r o i]
  from there s have "Some example_kdtree \<noteq> None"
    by simp
  with r o i s started passed show ?thesis
    by (simp add: all_products_def)
qed

theorem existing_outputs_counterexample:
  "files (L1_L2_RAD_LSTE example_env example_params []) = complete_fs \<and>
   resolved_index example_env example_params complete_fs =
     Some (Some example_kdtree, None, Some example_index_path) \<and>
   List.map_filter index_args (calls (L1_L2_RAD_LSTE example_env example_params complete_fs)) =
     [] \<and>
   L1_L2_RAD_LSTE example_env example_params complete_fs =
     (Inr 0, complete_fs,
      [ReadRunconfig ''/rc.xml'',
       NewL2LSTE ''/i/lste.h5'' ''/i/cloud.h5'' ''/i/geo.h5'',
       ConfigureLog ''/w/log/ECOv002_L1_L2_RAD_LSTE_00007_005_20200101T000000_0700_01.log'',
       NewL1BRAD ''/i/rad.h5'' ''/i/cloud.h5'' ''/i/lste.h5'' ''/i/geo.h5'',
       OpenL2LSTE ''/i/lste.h5'' ''/i/cloud.h5'' ''/i/geo.h5'',
       OpenL2CLOUD ''/i/cloud.h5'' ''/i/geo.h5'',
       Exists example_index_path,
       Exists example_index_path,
       KDTreeLoad example_index_path,
       Exists ''/o/ECOv002_L1CG_RAD_00007_005_20200101T000000_0700_01.h5'',
       Exists ''/o/ECOv002_L1CG_RAD_00007_005_20200101T000000_0700_01.png'',
       OpenProduct L1CG_RAD ''/o/ECOv002_L1CG_RAD_00007_005_20200101T000000_0700_01.h5'',
       ToTiles L1CG_RAD ''/o'' None None,
       Exists example_index_path,
       Exists ''/o/ECOv002_L2G_LSTE_00007_005_20200101T000000_0700_01.h5'',
       Exists ''/o/ECOv002_L2G_LSTE_00007_005_20200101T000000_0700_01.png'',
       OpenProduct L2G_LSTE ''/o/ECOv002_L2G_LSTE_00007_005_20200101T000000_0700_01.h5'',
       ToTiles L2G_LSTE ''/o'' None None,
       Exists ''/o/ECOv002_L2G_CLOUD_00007_005_20200101T000000_0700_01.h5'',
       Exists ''/o/ECOv002_L2G_CLOUD_00007_005_20200101T000000_0700_01.png'',
       OpenProduct L2G_CLOUD ''/o/ECOv002_L2G_CLOUD_00007_005_20200101T000000_0700_01.h5''])"
  by code_simp

subsection \<open>The names of the per-scan files\<close>

lemma of_char_dg_all: "list_all (\<lambda>n. of_char (dg n) = (48::nat) + n) [0..<10]"
  by code_simp

lemma of_char_dg: "n < 10 \<Longrightarrow> of_char (dg n) = 48 + n"
  using of_char_dg_all by (simp add: list_all_iff)

lemma dg_less: "a < 10 \<Longrightarrow> b < 10 \<Longrightarrow> dg a < dg b \<longleftrightarrow> a < b"
  by (simp add: less_char_def of_char_dg)

lemma dg_eq: "a < 10 \<Longrightarrow> b < 10 \<Longrightarrow> dg a = dg b \<longleftrightarrow> a = b"
  by (metis add_left_cancel of_char_dg)

lemma dg_not_special_all:
  "list_all (\<lambda>n. dg n \<noteq> CHR ''/'' \<and> dg n \<noteq> CHR ''.'') [0..<10]"
  by code_simp

lemma dg_not_special: "n < 10 \<Longrightarrow> dg n \<noteq> CHR ''/'' \<and> dg n \<noteq> CHR ''.''"
  using dg_not_special_all by (simp add: list_all_iff)

lemma format_d_two_digits:
  assumes "j < 100"
  shows "format_d 2 (int j) = [dg (j div 10), dg (j mod 10)]"
proof (cases "j < 10")
  case True
  then show ?thesis
    by (simp add: format_d_def str_nat.simps [of j] dg_def)
next
  case False
  with assms have "j div 10 < 10" by simp
  with False show ?thesis
    by (simp add: format_d_def str_nat.simps [of j] str_nat.simps [of "j div 10"] dg_def)
qed

lemma join_dir_prefix:
  "x \<noteq> [] \<Longrightarrow> CHR ''/'' \<notin> set x \<Longrightarrow> join d x = dir_prefix d @ x"
  by (cases x) (auto simp: join_def dir_prefix_def)

lemma dir_prefix_ends: "dir_prefix d = [] \<or> last (dir_prefix d) = CHR ''/''"
  by (simp add: dir_prefix_def)

lemma takeWhile_rev_prefix:
  assumes "CHR ''/'' \<notin> set x" and "p = [] \<or> last p = CHR ''/''"
  shows "takeWhile (\<lambda>c. c \<noteq> CHR ''/'') (rev (p @ x)) = rev x"
proof -
  have p: "takeWhile (\<lambda>c. c \<noteq> CHR ''/'') (rev p) = []"
    using assms(2) by (cases p rule: rev_cases) auto
  have "\<And>c. c \<in> set (rev x) \<Longrightarrow> c \<noteq> CHR ''/''"
    using assms(1) by auto
  then have "takeWhile (\<lambda>c. c \<noteq> CHR ''/'') (rev x @ rev p) =
      rev x @ takeWhile (\<lambda>c. c \<noteq> CHR ''/'') (rev p)"
    by (rule takeWhile_append2)
  with p show ?thesis
    by simp
qed

lemma dropWhile_rev_prefix:
  assumes "CHR ''/'' \<notin> set x" and "p = [] \<or> last p = CHR ''/''"
  shows "dropWhile (\<lambda>c. c \<noteq> CHR ''/'') (rev (p @ x)) = rev p"
proof -
  have p: "dropWhile (\<lambda>c. c \<noteq> CHR ''/'') (rev p) = rev p"
    using assms(2) by (cases p rule: rev_cases) auto
  have "\<And>c. c \<in> set (rev x) \<Longrightarrow> c \<noteq> CHR ''/''"
    using assms(1) by auto
  then have "dropWhile (\<lambda>c. c \<noteq> CHR ''/'') (rev x @ rev p) =
      dropWhile (\<lambda>c. c \<noteq> CHR ''/'') (rev p)"
    by (rule dropWhile_append2)
  with p show ?thesis
    by simp
qed

lemma basename_prefix:
  assumes "CHR ''/'' \<notin> set x" and "p = [] \<or> last p = CHR ''/''"
  shows "basename (p @ x) = x"
  unfolding basename_def takeWhile_rev_prefix [OF assms] by simp

lemma dirname_prefix:
  assumes "CHR ''/'' \<notin> set x" and "p = [] \<or> last p = CHR ''/''"
  shows "dirname (p @ x) = dirname p"
proof -
  have "dropWhile (\<lambda>c. c \<noteq> CHR ''/'') (rev p) = rev p"
    using dropWhile_rev_prefix [of "[]" p] assms(2) by simp
  then show ?thesis
    unfolding dirname_def dropWhile_rev_prefix [OF assms] by simp
qed

lemma basename_join:
  "x \<noteq> [] \<Longrightarrow> CHR ''/'' \<notin> set x \<Longrightarrow> basename (join d x) = x"
  using dir_prefix_ends [of d] by (simp add: join_dir_prefix basename_prefix)

lemma dirname_join:
  "x \<noteq> [] \<Longrightarrow> CHR ''/'' \<notin> set x \<Longrightarrow> dirname (join d x) = dirname (dir_prefix d)"
  using dir_prefix_ends [of d] by (simp add: join_dir_prefix dirname_prefix)

lemma length_dirname: "length (dirname p) \<le> length p"
proof -
  have a: "length (dropWhile (\<lambda>c. c \<noteq> CHR ''/'') (rev p)) \<le> length p"
    using length_dropWhile_le [of "\<lambda>c. c \<noteq> CHR ''/''" "rev p"] by simp
  have b: "\<And>h. length (dropWhile (\<lambda>c. c = CHR ''/'') (rev h)) \<le> length h"
    using length_dropWhile_le [of "\<lambda>c. c = CHR ''/''"] by (metis length_rev)
  show ?thesis
    using a b [of "rev (dropWhile (\<lambda>c. c \<noteq> CHR ''/'') (rev p))"]
    by (auto simp: dirname_def Let_def)
qed

lemma basename_nonempty:
  assumes "basename d \<noteq> []"
  shows "d \<noteq> []" and "last d \<noteq> CHR ''/''"
proof -
  from assms have "takeWhile (\<lambda>c. c \<noteq> CHR ''/'') (rev d) \<noteq> []"
    by (simp add: basename_def)
  then have "rev d \<noteq> [] \<and> hd (rev d) \<noteq> CHR ''/''"
    by (cases "rev d") (auto split: if_splits)
  then show "d \<noteq> []" and "last d \<noteq> CHR ''/''"
    by (simp_all add: hd_rev)
qed

lemma dirname_dir_prefix:
  assumes "basename d \<noteq> []"
  shows "dirname (dir_prefix d) = d"
proof -
  from basename_nonempty [OF assms] obtain c d' where d: "d = d' @ [c]" and c: "c \<noteq> CHR ''/''"
    by (cases d rule: rev_cases) auto
  then show ?thesis
    by (simp add: dir_prefix_def dirname_def Let_def)
qed

lemma dirname_shorter:
  assumes "basename d \<noteq> []"
  shows "dirname d \<noteq> d"
proof -
  from basename_nonempty [OF assms] obtain c d' where d: "d = d' @ [c]" and c: "c \<noteq> CHR ''/''"
    by (cases d rule: rev_cases) auto
  let ?h = "rev (dropWhile (\<lambda>c. c \<noteq> CHR ''/'') (rev d'))"
  have h: "length ?h \<le> length d'"
    using length_dropWhile_le [of "\<lambda>c. c \<noteq> CHR ''/''" "rev d'"] by simp
  have "length (rev (dropWhile (\<lambda>c. c = CHR ''/'') (rev ?h))) \<le> length ?h"
    using length_dropWhile_le [of "\<lambda>c. c = CHR ''/''" "rev ?h"] by simp
  with h have "length (dirname d) \<le> length d'"
    using d c by (auto simp: dirname_def Let_def)
  with d show ?thesis
    by auto
qed

lemma fnmatch_star:
  assumes "fnmatch ps ys"
  shows "fnmatch (CHR ''*'' # ps) (xs @ ys)"
proof -
  have "length xs \<in> set [0..<Suc (length (xs @ ys))]"
    by simp
  moreover have "fnmatch ps (drop (length xs) (xs @ ys))"
    using assms by simp
  ultimately show ?thesis
    unfolding fnmatch.simps list_ex_iff by (metis (mono_tags, lifting))
qed

lemma fnmatch_kdtree: "fnmatch ''*.kdtree'' (x @ ''.kdtree'')"
  by (rule fnmatch_star) simp

lemma digit_value_dg: "n < 10 \<Longrightarrow> digit_value (dg n) = n"
  by (simp add: digit_value_def of_char_dg)

lemma decimal_snoc: "decimal (s @ [c]) = 10 * decimal s + digit_value c"
  by (simp add: decimal_def)

lemma decimal_str_nat: "decimal (str_nat n) = n"
proof (induction n rule: str_nat.induct)
  case (1 n)
  show ?case
  proof (cases "n < 10")
    case True
    then show ?thesis
      by (simp add: str_nat.simps [of n] decimal_def digit_value_dg [unfolded dg_def])
  next
    case False
    with "1" have "decimal (str_nat (n div 10)) = n div 10"
      by simp
    with False show ?thesis
      by (simp add: str_nat.simps [of n] decimal_snoc digit_value_dg [unfolded dg_def])
  qed
qed

lemma decimal_zeros: "decimal (replicate k (CHR ''0'') @ s) = decimal s"
proof -
  have "foldl (\<lambda>a c. 10 * a + digit_value c) 0 (replicate k (CHR ''0'')) = 0"
    by (induction k) (simp_all add: digit_value_def)
  then show ?thesis
    by (simp add: decimal_def)
qed

lemma decimal_format_d: "decimal (format_d w (int j)) = j"
  by (simp add: format_d_def Let_def decimal_zeros decimal_str_nat)

lemma str_nat_digits: "set (str_nat n) \<subseteq> dg ` {..<10}"
proof (induction n rule: str_nat.induct)
  case (1 n)
  show ?case
  proof (cases "n < 10")
    case True
    then show ?thesis
      by (auto simp: str_nat.simps [of n] dg_def)
  next
    case False
    with "1" have "set (str_nat (n div 10)) \<subseteq> dg ` {..<10}"
      by simp
    moreover have "''0123456789'' ! (n mod 10) \<in> dg ` {..<10}"
      unfolding dg_def by (rule imageI) simp
    ultimately show ?thesis
      using False by (simp add: str_nat.simps [of n])
  qed
qed

lemma str_nat_nonempty: "str_nat n \<noteq> []"
  by (cases "n < 10") (simp_all add: str_nat.simps [of n])

lemma format_d_digits: "set (format_d w (int j)) \<subseteq> dg ` {..<10}"
proof -
  have "CHR ''0'' \<in> dg ` {..<10}"
    by (rule image_eqI [of _ _ 0]) (simp_all add: dg_def)
  with str_nat_digits [of j] show ?thesis
    by (auto simp: format_d_def Let_def)
qed

lemma format_d_nonempty: "format_d w (int j) \<noteq> []"
  by (simp add: format_d_def Let_def str_nat_nonempty)

lemma digits_not_special:
  assumes "set s \<subseteq> dg ` {..<10}"
  shows "CHR ''/'' \<notin> set s" and "CHR ''.'' \<notin> set s"
proof -
  have "c \<noteq> CHR ''/'' \<and> c \<noteq> CHR ''.''" if "c \<in> set s" for c
  proof -
    from that assms obtain n where "n < 10" "c = dg n"
      by auto
    then show ?thesis
      using dg_not_special [of n] by simp
  qed
  then show "CHR ''/'' \<notin> set s" and "CHR ''.'' \<notin> set s"
    by blast+
qed

lemma scan_name_plain:
  "format_d 2 (int j) @ ''.kdtree'' \<noteq> []"
  "CHR ''/'' \<notin> set (format_d 2 (int j) @ ''.kdtree'')"
  "hd (format_d 2 (int j) @ ''.kdtree'') \<noteq> CHR ''.''"
proof -
  note d = digits_not_special [OF format_d_digits [of 2 j]]
  show "format_d 2 (int j) @ ''.kdtree'' \<noteq> []"
    by simp
  show "CHR ''/'' \<notin> set (format_d 2 (int j) @ ''.kdtree'')"
    using d(1) by simp
  show "hd (format_d 2 (int j) @ ''.kdtree'') \<noteq> CHR ''.''"
    using d(2) format_d_nonempty [of 2 j] by (cases "format_d 2 (int j)") auto
qed

lemma scan_filename_dir_prefix:
  "scan_filename d j = dir_prefix d @ format_d 2 (int j) @ ''.kdtree''"
  unfolding scan_filename_def by (rule join_dir_prefix [OF scan_name_plain(1,2)])

lemma scan_filename_inject: "scan_filename d i = scan_filename d j \<Longrightarrow> i = j"
proof -
  assume "scan_filename d i = scan_filename d j"
  then have "format_d 2 (int i) = format_d 2 (int j)"
    by (simp add: scan_filename_dir_prefix)
  then have "decimal (format_d 2 (int i)) = decimal (format_d 2 (int j))"
    by simp
  then show "i = j"
    by (simp add: decimal_format_d)
qed

lemma glob_match_scan_filename: "glob_match (join d ''*.kdtree'') (scan_filename d j)"
proof -
  have pat: "''*.kdtree'' \<noteq> []" "CHR ''/'' \<notin> set ''*.kdtree''"
    by simp_all
  note x = scan_name_plain [of j]
  show ?thesis
    unfolding glob_match_def scan_filename_def
    by (simp only: basename_join [OF x(1,2)] dirname_join [OF x(1,2)]
        basename_join [OF pat] dirname_join [OF pat] fnmatch_kdtree x) simp
qed

lemma not_glob_match_directory: "\<not> glob_match (join d ''*.kdtree'') d"
proof
  assume m: "glob_match (join d ''*.kdtree'') d"
  then have b: "basename d \<noteq> []" and "dirname d = dirname (join d ''*.kdtree'')"
    by (simp_all add: glob_match_def)
  then have "dirname d = dirname (dir_prefix d)"
    by (simp add: dirname_join)
  with dirname_dir_prefix [OF b] dirname_shorter [OF b] show False
    by simp
qed

lemma join_basename_scan_filename: "join d (basename (scan_filename d j)) = scan_filename d j"
  unfolding scan_filename_def by (simp only: basename_join [OF scan_name_plain(1,2)])

lemma glob_kdtree:
  assumes "plain_directory d"
  shows "glob E (join d ''*.kdtree'') fs =
     (Inr (kdtree_files d fs), fs, [Glob (join d ''*.kdtree'')])"
proof -
  have pat: "''*.kdtree'' \<noteq> []" "CHR ''/'' \<notin> set ''*.kdtree''"
    by simp_all
  have dir: "dirname (join d ''*.kdtree'') = d" and plain: "\<not> has_magic d"
    using assms by (simp_all add: plain_directory_def)
  have "glob_plain (join d ''*.kdtree'')"
    unfolding glob_plain_def dir basename_join [OF pat] using plain
    by (simp add: has_magic_def)
  then show ?thesis
    by (simp add: glob_def kdtree_files_def dir)
qed

subsection \<open>The scan-by-scan index\<close>

lemma load_scan_kd_trees_all:
  "map (held_index fs) ps = map Some ts \<Longrightarrow>
   load_scan_kd_trees ps fs = (Inr ts, fs, map KDTreeLoad ps)"
proof (induction ps arbitrary: ts)
  case Nil
  then show ?case by (simp add: ret_def)
next
  case (Cons p ps)
  then obtain t ts' where ts: "ts = t # ts'" and t: "held_index fs p = Some t"
    and rest: "map (held_index fs) ps = map Some ts'"
    by (cases ts) auto
  from t have "KDTree_load p fs = (Inr t, fs, [KDTreeLoad p])"
    by (auto simp: held_index_def KDTree_load_def split: option.splits content.splits)
  with Cons.IH [OF rest] ts show ?case
    by (simp add: and_then_def ret_def)
qed

lemma save_scan_kd_trees_all:
  "(\<forall>j<length ts. KDTree_save_raises E (scan_filename d (i + j)) = None) \<Longrightarrow>
   save_scan_kd_trees E d i ts L fs =
     (Inr (after_saving d i ts L),
      AList.updates (scan_filenames d i (length ts)) (map KDTreeFile ts) fs,
      map2 (\<lambda>p t. KDTreeSave t p) (scan_filenames d i (length ts)) ts)"
proof (induction ts arbitrary: i L fs)
  case Nil
  then show ?case by (simp add: ret_def after_saving_def scan_filenames_def)
next
  case (Cons t ts)
  from Cons.prems have here: "KDTree_save_raises E (scan_filename d i) = None"
    by force
  from Cons.prems have "\<forall>j<length ts. KDTree_save_raises E (scan_filename d (Suc i + j)) = None"
    by force
  note IH = Cons.IH [OF this]
  have save: "KDTree_save E t (scan_filename d i) fs =
      (Inr (), AList.update (scan_filename d i) (KDTreeFile t) fs,
       [KDTreeSave t (scan_filename d i)])"
    using here by (simp add: KDTree_save_def and_then_def emit_def may_fail_def ret_def
        write_file_def)
  have L: "after_saving d (Suc i) ts
        (L\<lparr>v_kd_tree := Some t, v_kd_tree_path := Some (scan_filename d i)\<rparr>) =
      after_saving d i (t # ts) L"
    by (simp add: after_saving_def)
  show ?case
    by (simp add: and_then_def save IH L scan_filenames_def upt_conv_Cons del: upt_Suc)
qed



lemma scan_by_scan_index_load:
  assumes "v_scan_kd_trees L = None" and "v_kd_tree_path L = Some d"
    and "plain_directory d"
    and "map_of fs d \<noteq> None"
    and "map (held_index fs) (sort (kdtree_files d fs)) = map Some ts"
  shows "scan_by_scan_index E P L fs =
     (Inr (L\<lparr>v_scan_kd_trees := Some ts\<rparr>), fs,
      Exists d # Glob (join d ''*.kdtree'') # map KDTreeLoad (sort (kdtree_files d fs)))"
  using assms(1,2,4)
  by (simp add: scan_by_scan_index_def not_None_and_exists_def exists_def and_then_def
      glob_kdtree [OF assms(3)] load_scan_kd_trees_all [OF assms(5)] ret_def)

lemma scan_by_scan_index_build:
  assumes "v_scan_kd_trees L = None" and "v_kd_tree_path L = Some d"
    and "map_of fs d = None"
    and "generate_scan_kd_trees_raises E = None"
    and "ts = generate_scan_kd_trees (v_swath_geometry L) (cell_size_degrees P)"
    and "\<forall>j<length ts. KDTree_save_raises E (scan_filename d j) = None"
  shows "scan_by_scan_index E P L fs =
     (Inr (after_saving d 0 ts (L\<lparr>v_scan_kd_trees := Some ts\<rparr>)),
      AList.updates (scan_filenames d 0 (length ts)) (map KDTreeFile ts)
        (AList.update d Directory fs),
      [Exists d, GenerateScanKDTrees (v_swath_geometry L) (cell_size_degrees P), Makedirs d] @
      map2 (\<lambda>p t. KDTreeSave t p) (scan_filenames d 0 (length ts)) ts)"
proof -
  from assms(6) have "\<forall>j<length ts. KDTree_save_raises E (scan_filename d (0 + j)) = None"
    by simp
  note save = save_scan_kd_trees_all [OF this]
  show ?thesis
    using assms(1-4)
    by (simp add: scan_by_scan_index_def not_None_and_exists_def exists_def and_then_def
        build_scan_kd_trees_def emit_def may_fail_def ret_def makedirs_def save
        assms(5) [symmetric])
qed

lemma length_generate_scan_kd_trees: "length (generate_scan_kd_trees s c) = scan_lines s"
  by (simp add: generate_scan_kd_trees_def)




subsection \<open>The round trip of the per-scan files\<close>

lemma append_less_append: "(p @ x < p @ y) = (x < (y :: string))"
  by (induction p) simp_all

lemma two_digits_less:
  assumes "i < j" and "j < 100"
  shows "[dg (i div 10), dg (i mod 10)] @ s < [dg (j div 10), dg (j mod 10)] @ s"
proof -
  have lt: "i div 10 < 10" "j div 10 < 10" "i mod 10 < 10" "j mod 10 < 10"
    using assms by simp_all
  have "i div 10 < j div 10 \<or> (i div 10 = j div 10 \<and> i mod 10 < j mod 10)"
    using assms by (metis div_mult_mod_eq less_imp_le_nat nat_add_left_cancel_less
        div_le_mono le_neq_implies_less)
  then show ?thesis
    using lt by (auto simp: dg_less dg_eq)
qed

lemma scan_filename_digits:
  "j < 100 \<Longrightarrow> scan_filename d j = dir_prefix d @ [dg (j div 10), dg (j mod 10)] @ ''.kdtree''"
proof -
  assume j: "j < 100"
  then have lt: "j div 10 < 10" "j mod 10 < 10" by simp_all
  have "CHR ''/'' \<notin> set ([dg (j div 10), dg (j mod 10)] @ ''.kdtree'')"
    using dg_not_special [OF lt(1)] dg_not_special [OF lt(2)] by auto
  then show ?thesis
    by (simp add: scan_filename_def format_d_two_digits [OF j] join_dir_prefix)
qed

lemma scan_filename_less:
  assumes "i < j" and "j < 100"
  shows "scan_filename d i < scan_filename d j"
  using assms two_digits_less [OF assms]
  by (simp add: scan_filename_digits append_less_append)

lemma scan_filenames_strict:
  assumes "n \<le> 100"
  shows "sorted_wrt (<) (scan_filenames d 0 n)"
  unfolding sorted_wrt_iff_nth_less scan_filenames_def
  using assms by (auto intro!: scan_filename_less)

lemma scan_filenames_sorted: "n \<le> 100 \<Longrightarrow> sorted (scan_filenames d 0 n)"
  and scan_filenames_distinct: "n \<le> 100 \<Longrightarrow> distinct (scan_filenames d 0 n)"
  using scan_filenames_strict [of n d] by (simp_all add: strict_sorted_iff)

lemma scan_filenames_all_distinct: "distinct (scan_filenames d i n)"
  unfolding scan_filenames_def
  by (simp add: distinct_map inj_on_def) (blast dest: scan_filename_inject)

lemma scan_filenames_match:
  assumes "k \<in> set (scan_filenames d i n)"
  shows "glob_match (join d ''*.kdtree'') k"
  using assms by (auto simp: scan_filenames_def intro!: glob_match_scan_filename)

lemma held_index_present:
  assumes "map (held_index fs) ks = map Some ts" and "k \<in> set ks"
  shows "held_index fs k \<noteq> None"
proof -
  from assms(2) obtain i where i: "i < length ks" "ks ! i = k"
    by (auto simp: in_set_conv_nth)
  from assms(1) have "length ts = length ks"
    by (metis length_map)
  with i assms(1) have "held_index fs k = Some (ts ! i)"
    by (metis nth_map)
  then show ?thesis
    by simp
qed

lemma map_filter_all_Some:
  "(\<And>x. x \<in> set xs \<Longrightarrow> f x \<noteq> None) \<Longrightarrow> map f xs = map Some (List.map_filter f xs)"
proof (induction xs)
  case Nil
  then show ?case
    by (simp add: List.map_filter_simps)
next
  case (Cons a xs)
  then obtain y where "f a = Some y"
    by auto
  with Cons show ?case
    by (simp add: List.map_filter_simps)
qed

lemma updates_keys_fresh:
  assumes "distinct ks" and "set ks \<inter> set (map fst al) = {}" and "length vs = length ks"
  shows "map fst (AList.updates ks vs al) = map fst al @ ks"
  using assms
proof (induction ks arbitrary: vs al)
  case Nil
  then show ?case by simp
next
  case (Cons k ks)
  then obtain v vs' where vs: "vs = v # vs'" and len: "length vs' = length ks"
    by (cases vs) auto
  from Cons.prems have fresh: "k \<notin> set (map fst al)" and k: "k \<notin> set ks"
    and d: "distinct ks" and rest: "set ks \<inter> set (map fst al) = {}"
    by auto
  have keys: "map fst (AList.update k v al) = map fst al @ [k]"
    using fresh by (simp add: update_keys)
  have "set ks \<inter> set (map fst (AList.update k v al)) = {}"
    using rest k by (auto simp: keys)
  from Cons.IH [OF d this len] show ?case
    by (simp add: vs keys)
qed

lemma map_of_updates_fresh:
  assumes "k \<notin> set ks"
  shows "map_of (AList.updates ks vs al) k = map_of al k"
  using assms by (simp add: updates_conv')

lemma map_of_updates_all:
  assumes "distinct ks" and "length vs = length ks"
  shows "map (map_of (AList.updates ks vs al)) ks = map Some vs"
  using assms
proof (induction ks arbitrary: vs al)
  case Nil
  then show ?case by simp
next
  case (Cons k ks)
  then obtain v vs' where vs: "vs = v # vs'" and len: "length vs' = length ks"
    by (cases vs) auto
  from Cons.prems have k: "k \<notin> set ks" and d: "distinct ks"
    by auto
  have "map_of (AList.updates ks vs' (AList.update k v al)) k = Some v"
    using k by (simp add: map_of_updates_fresh update_conv')
  with Cons.IH [OF d len, of "AList.update k v al"] show ?case
    by (simp add: vs)
qed

lemma held_index_files:
  assumes "map (map_of fs) ks = map Some (map KDTreeFile ts)"
  shows "map (held_index fs) ks = map Some ts"
  using assms
proof (induction ks arbitrary: ts)
  case Nil
  then show ?case by simp
next
  case (Cons k ks)
  then obtain t ts' where "ts = t # ts'"
    by (cases ts) auto
  with Cons show ?case
    by (simp add: held_index_def)
qed

lemma filter_all: "(\<And>x. x \<in> set xs \<Longrightarrow> P x) \<Longrightarrow> filter P xs = xs"
  by (induction xs) simp_all

lemma scan_files_saved:
  assumes none: "v_scan_kd_trees L = None" and path: "v_kd_tree_path L = Some d"
    and absent: "map_of fs d = None"
    and dist: "distinct (map fst fs)"
    and stray: "filter (glob_match (join d ''*.kdtree'')) (map fst fs) = []"
    and gen: "generate_scan_kd_trees_raises E = None"
    and made: "ts = generate_scan_kd_trees (v_swath_geometry L) (cell_size_degrees P)"
    and saves: "\<forall>j<length ts. KDTree_save_raises E (scan_filename d j) = None"
  defines "ks \<equiv> scan_filenames d 0 (length ts)"
    and "fs1 \<equiv> files (scan_by_scan_index E P L fs)"
  shows "List.map_filter saved_path (calls (scan_by_scan_index E P L fs)) = ks"
    and "map fst fs1 = map fst fs @ d # ks"
    and "distinct (map fst fs1)"
    and "filter (glob_match (join d ''*.kdtree'')) (map fst fs1) = ks"
    and "map_of fs1 d = Some Directory"
    and "map (map_of fs1) ks = map Some (map KDTreeFile ts)"
proof -
  let ?pat = "join d ''*.kdtree''"
  have lks: "length ks = length ts"
    by (simp add: ks_def scan_filenames_def)
  have dks: "distinct ks"
    unfolding ks_def by (rule scan_filenames_all_distinct)
  have mks: "\<And>k. k \<in> set ks \<Longrightarrow> glob_match ?pat k"
    unfolding ks_def by (rule scan_filenames_match)
  have d_fresh: "d \<notin> set (map fst fs)"
    using absent by (simp add: map_of_eq_None_iff)
  have no_match: "\<And>k. k \<in> set (map fst fs) \<Longrightarrow> \<not> glob_match ?pat k"
    using stray by (auto simp: filter_empty_conv)
  have d_ks: "d \<notin> set ks"
    using mks not_glob_match_directory [of d] by blast
  have keys0: "map fst (AList.update d Directory fs) = map fst fs @ [d]"
    using d_fresh by (simp add: update_keys)
  have disj: "set ks \<inter> set (map fst (AList.update d Directory fs)) = {}"
    using mks no_match d_ks by (auto simp: keys0)
  note run = scan_by_scan_index_build [OF none path absent gen made saves]
  have fs1: "fs1 = AList.updates ks (map KDTreeFile ts) (AList.update d Directory fs)"
    by (simp add: fs1_def run ks_def files_def)
  show "List.map_filter saved_path (calls (scan_by_scan_index E P L fs)) = ks"
  proof -
    have "\<And>ps. length ps = length ts \<Longrightarrow>
        List.map_filter saved_path (map2 (\<lambda>p t. KDTreeSave t p) ps ts) = ps"
    proof (induction ts)
      case Nil
      then show ?case by (simp add: List.map_filter_simps)
    next
      case (Cons t ts)
      then show ?case by (cases ps) (simp_all add: List.map_filter_simps)
    qed
    from this [OF lks] show ?thesis
      by (simp add: run ks_def [symmetric] List.map_filter_simps calls_def)
  qed
  show keys: "map fst fs1 = map fst fs @ d # ks"
    using updates_keys_fresh [OF dks disj, of "map KDTreeFile ts"] lks
    by (simp add: fs1 keys0)
  show "distinct (map fst fs1)"
    using dist dks d_fresh d_ks mks no_match by (auto simp: keys)
  show "filter (glob_match ?pat) (map fst fs1) = ks"
    using stray not_glob_match_directory [of d] filter_all [of ks "glob_match ?pat", OF mks]
    by (simp add: keys)
  show "map_of fs1 d = Some Directory"
    using d_ks by (simp add: fs1 map_of_updates_fresh update_conv')
  show "map (map_of fs1) ks = map Some (map KDTreeFile ts)"
    unfolding fs1 using dks lks by (intro map_of_updates_all) simp_all
qed

lemma map_filter_map_Some: "map f xs = map Some ys \<Longrightarrow> List.map_filter f xs = ys"
proof (induction xs arbitrary: ys)
  case Nil
  then show ?case
    by (simp add: List.map_filter_simps)
next
  case (Cons a xs)
  then obtain y ys' where "ys = y # ys'"
    by (cases ys) auto
  with Cons show ?case
    by (simp add: List.map_filter_simps)
qed

lemma kdtree_files_of_scan_filenames:
  assumes "filter (glob_match (join d ''*.kdtree'')) (map fst fs) = scan_filenames d i n"
  shows "kdtree_files d fs = scan_filenames d i n"
proof -
  have "join d (basename p) = p" if "p \<in> set (scan_filenames d i n)" for p
    using that by (auto simp: scan_filenames_def join_basename_scan_filename)
  then have "map (\<lambda>p. join d (basename p)) (scan_filenames d i n) = scan_filenames d i n"
    by (simp add: map_idI)
  then show ?thesis
    by (simp add: kdtree_files_def assms)
qed

lemma kdtree_files_same:
  assumes "set fs2 = set fs1" and "distinct (map fst fs2)"
    and "kdtree_files d fs1 = ks" and "distinct ks"
    and "filter (glob_match (join d ''*.kdtree'')) (map fst fs1) = ks"
  shows "sort (kdtree_files d fs2) = sort ks"
proof -
  let ?pat = "join d ''*.kdtree''"
  have sets: "set (filter (glob_match ?pat) (map fst fs2)) = set ks"
    using assms(1,5) by (metis (no_types, lifting) filter_set list.set_map)
  have same: "join d (basename p) = p" if "p \<in> set ks" for p
  proof -
    from that assms(5) have "p \<in> set (filter (glob_match ?pat) (map fst fs1))"
      by simp
    then obtain m where m: "m < length (filter (glob_match ?pat) (map fst fs1))"
      and p: "filter (glob_match ?pat) (map fst fs1) ! m = p"
      by (metis in_set_conv_nth)
    have "kdtree_files d fs1 ! m = join d (basename p)"
      using m p by (simp add: kdtree_files_def)
    with assms(3,5) p show ?thesis
      by simp
  qed
  have "map (\<lambda>p. join d (basename p)) (filter (glob_match ?pat) (map fst fs2)) =
      filter (glob_match ?pat) (map fst fs2)"
  proof (rule map_idI)
    fix p
    assume "p \<in> set (filter (glob_match ?pat) (map fst fs2))"
    with sets have "p \<in> set ks"
      by simp
    then show "join d (basename p) = p"
      by (rule same)
  qed
  then have eq: "kdtree_files d fs2 = filter (glob_match ?pat) (map fst fs2)"
    by (simp add: kdtree_files_def)
  have "distinct (sort (kdtree_files d fs2))" and "sorted (sort (kdtree_files d fs2))"
    using assms(2) by (simp_all add: eq)
  moreover have "distinct (sort ks)" and "sorted (sort ks)"
    using assms(4) by simp_all
  moreover have "set (sort (kdtree_files d fs2)) = set (sort ks)"
    using sets by (simp add: eq)
  ultimately show ?thesis
    by (intro sorted_distinct_set_unique)
qed

lemma scan_files_reload:
  assumes none: "v_scan_kd_trees L = None" and path: "v_kd_tree_path L = Some d"
    and plain: "plain_directory d"
    and absent: "map_of fs d = None"
    and dist: "distinct (map fst fs)"
    and stray: "filter (glob_match (join d ''*.kdtree'')) (map fst fs) = []"
    and gen: "generate_scan_kd_trees_raises E = None"
    and made: "ts = generate_scan_kd_trees (v_swath_geometry L) (cell_size_degrees P)"
    and saves: "\<forall>j<length ts. KDTree_save_raises E (scan_filename d j) = None"
    and same: "set fs2 = set (files (scan_by_scan_index E P L fs))"
    and dist2: "distinct (map fst fs2)"
    and none2: "v_scan_kd_trees L2 = None" and path2: "v_kd_tree_path L2 = Some d"
  shows "result (scan_by_scan_index E2 P2 L2 fs2) =
           Inr (L2\<lparr>v_scan_kd_trees :=
                  Some (List.map_filter (held_index (files (scan_by_scan_index E P L fs)))
                          (sort (scan_filenames d 0 (length ts))))\<rparr>)"
proof -
  let ?ks = "scan_filenames d 0 (length ts)"
  let ?fs1 = "files (scan_by_scan_index E P L fs)"
  note aux = scan_files_saved [OF none path absent dist stray gen made saves]
  have maps: "map_of fs2 = map_of ?fs1"
    using map_of_inject_set [OF dist2 aux(3)] same by simp
  have held: "held_index fs2 = held_index ?fs1"
    by (rule ext) (simp add: held_index_def maps)
  have present: "map_of fs2 d \<noteq> None"
    by (simp add: maps aux(5))
  have names: "sort (kdtree_files d fs2) = sort ?ks"
    using same dist2 kdtree_files_of_scan_filenames [OF aux(4)]
      scan_filenames_all_distinct [of d 0 "length ts"] aux(4)
    by (rule kdtree_files_same)
  have "map (held_index ?fs1) ?ks = map Some ts"
    using aux(6) by (rule held_index_files)
  then have "held_index ?fs1 k \<noteq> None" if "k \<in> set (sort ?ks)" for k
    using that by (intro held_index_present [of ?fs1 ?ks ts]) simp_all
  then have "map (held_index ?fs1) (sort ?ks) =
      map Some (List.map_filter (held_index ?fs1) (sort ?ks))"
    by (rule map_filter_all_Some)
  then have "map (held_index fs2) (sort (kdtree_files d fs2)) =
      map Some (List.map_filter (held_index ?fs1) (sort ?ks))"
    by (simp only: names held)
  from scan_by_scan_index_load [OF none2 path2 plain present this, of E2 P2]
  show ?thesis
    by (simp add: result_def)
qed

lemma scan_files_in_order:
  assumes none: "v_scan_kd_trees L = None" and path: "v_kd_tree_path L = Some d"
    and absent: "map_of fs d = None"
    and dist: "distinct (map fst fs)"
    and stray: "filter (glob_match (join d ''*.kdtree'')) (map fst fs) = []"
    and gen: "generate_scan_kd_trees_raises E = None"
    and made: "ts = generate_scan_kd_trees (v_swath_geometry L) (cell_size_degrees P)"
    and saves: "\<forall>j<length ts. KDTree_save_raises E (scan_filename d j) = None"
    and len: "length ts \<le> 100"
  shows "List.map_filter (held_index (files (scan_by_scan_index E P L fs)))
           (sort (scan_filenames d 0 (length ts))) = ts"
proof -
  let ?ks = "scan_filenames d 0 (length ts)"
  let ?fs1 = "files (scan_by_scan_index E P L fs)"
  note aux = scan_files_saved [OF none path absent dist stray gen made saves]
  have "sort ?ks = ?ks"
    using scan_filenames_sorted [OF len, of d] by (simp add: sorted_sort_id)
  moreover have "map (held_index ?fs1) ?ks = map Some ts"
    using aux(6) by (rule held_index_files)
  ultimately show ?thesis
    by (simp add: map_filter_map_Some)
qed

text \<open>
  Under the \<open>scan_by_scan\<close> strategy, with a directory \<open>d\<close> that does not exist yet
  and a swath of \<open>n\<close> scan-lines whose indices are built and saved without failure:
  exactly \<open>n\<close> files are saved, under \<open>n\<close> distinct names, they are the files of \<open>d\<close>
  that match \<open>*.kdtree\<close> afterwards, and file number \<open>j\<close> holds the index of
  scan-line \<open>j\<close>. A later run that finds the same files, in whatever order the file
  system lists them, loads the indices in the lexical order of the names. When
  \<open>n \<le> 100\<close> this is the order of the scan-lines, so the loaded list is the list
  that was built.
\<close>

lemma scan_files_round_trip:
  assumes none: "v_scan_kd_trees L = None" and path: "v_kd_tree_path L = Some d"
    and plain: "plain_directory d"
    and absent: "map_of fs d = None"
    and dist: "distinct (map fst fs)"
    and stray: "filter (glob_match (join d ''*.kdtree'')) (map fst fs) = []"
    and gen: "generate_scan_kd_trees_raises E = None"
    and made: "ts = generate_scan_kd_trees (v_swath_geometry L) (cell_size_degrees P)"
    and saves: "\<forall>j<length ts. KDTree_save_raises E (scan_filename d j) = None"
  shows "length ts = scan_lines (v_swath_geometry L) \<and>
         List.map_filter saved_path (calls (scan_by_scan_index E P L fs)) =
           scan_filenames d 0 (length ts) \<and>
         length (scan_filenames d 0 (length ts)) = length ts \<and>
         distinct (scan_filenames d 0 (length ts)) \<and>
         kdtree_files d (files (scan_by_scan_index E P L fs)) = scan_filenames d 0 (length ts) \<and>
         map (held_index (files (scan_by_scan_index E P L fs))) (scan_filenames d 0 (length ts)) =
           map Some ts \<and>
         (\<forall>fs2 E2 P2 L2.
            set fs2 = set (files (scan_by_scan_index E P L fs)) \<longrightarrow>
            distinct (map fst fs2) \<longrightarrow>
            v_scan_kd_trees L2 = None \<longrightarrow> v_kd_tree_path L2 = Some d \<longrightarrow>
            result (scan_by_scan_index E2 P2 L2 fs2) =
              Inr (L2\<lparr>v_scan_kd_trees :=
                     Some (List.map_filter (held_index (files (scan_by_scan_index E P L fs)))
                             (sort (scan_filenames d 0 (length ts))))\<rparr>)) \<and>
         (length ts \<le> 100 \<longrightarrow>
            List.map_filter (held_index (files (scan_by_scan_index E P L fs)))
              (sort (scan_filenames d 0 (length ts))) = ts)"
proof (intro conjI allI impI)
  note aux = scan_files_saved [OF none path absent dist stray gen made saves]
  show "length ts = scan_lines (v_swath_geometry L)"
    by (simp add: made length_generate_scan_kd_trees)
  show "List.map_filter saved_path (calls (scan_by_scan_index E P L fs)) =
      scan_filenames d 0 (length ts)"
    by (rule aux(1))
  show "length (scan_filenames d 0 (length ts)) = length ts"
    by (simp add: scan_filenames_def)
  show "distinct (scan_filenames d 0 (length ts))"
    by (rule scan_filenames_all_distinct)
  show "kdtree_files d (files (scan_by_scan_index E P L fs)) = scan_filenames d 0 (length ts)"
    using aux(4) by (rule kdtree_files_of_scan_filenames)
  show "map (held_index (files (scan_by_scan_index E P L fs))) (scan_filenames d 0 (length ts)) =
      map Some ts"
    using aux(6) by (rule held_index_files)
next
  fix fs2 :: filesystem and E2 :: env and P2 :: params and L2 :: locals
  assume "set fs2 = set (files (scan_by_scan_index E P L fs))" and "distinct (map fst fs2)"
    and "v_scan_kd_trees L2 = None" and "v_kd_tree_path L2 = Some d"
  with assms show "result (scan_by_scan_index E2 P2 L2 fs2) =
      Inr (L2\<lparr>v_scan_kd_trees :=
             Some (List.map_filter (held_index (files (scan_by_scan_index E P L fs)))
                     (sort (scan_filenames d 0 (length ts))))\<rparr>)"
    by (rule scan_files_reload)
next
  assume "length ts \<le> 100"
  with none path absent dist stray gen made saves
  show "List.map_filter (held_index (files (scan_by_scan_index E P L fs)))
      (sort (scan_filenames d 0 (length ts))) = ts"
    by (rule scan_files_in_order)
qed

lemma scan_files_round_trip_example:
  "files (scan_by_scan_index example_env scan_params short_locals []) = example_scan_fs \<and>
   List.map_filter saved_path
     (calls (scan_by_scan_index example_env scan_params short_locals [])) =
     [''/k/00.kdtree'', ''/k/01.kdtree'', ''/k/02.kdtree''] \<and>
   set (rev example_scan_fs) = set example_scan_fs \<and>
   result (scan_by_scan_index example_env scan_params short_locals (rev example_scan_fs)) =
     Inr (short_locals\<lparr>v_scan_kd_trees := Some example_scan_kd_trees\<rparr>)"
proof -
  have a1: "v_scan_kd_trees short_locals = None"
    by (simp add: short_locals_def example_locals_def)
  have a2: "v_kd_tree_path short_locals = Some ''/k''"
    by (simp add: short_locals_def)
  have plain: "plain_directory ''/k''"
    by code_simp
  have absent: "map_of [] ''/k'' = (None :: content option)"
    and dist: "distinct (map fst ([] :: filesystem))"
    and stray: "filter (glob_match (join ''/k'' ''*.kdtree'')) (map fst ([] :: filesystem)) = []"
    by simp_all
  have gen: "generate_scan_kd_trees_raises example_env = None"
    by (simp add: example_env_def)
  have made: "example_scan_kd_trees = generate_scan_kd_trees (v_swath_geometry short_locals)
      (cell_size_degrees scan_params)"
    by code_simp
  have saves: "\<forall>j<length example_scan_kd_trees.
      KDTree_save_raises example_env (scan_filename ''/k'' j) = None"
    by (simp add: example_env_def)
  have len: "length example_scan_kd_trees \<le> 100"
    by (simp add: example_scan_kd_trees_def)
  have fs1: "files (scan_by_scan_index example_env scan_params short_locals []) =
      example_scan_fs"
    by code_simp
  have names: "scan_filenames ''/k'' 0 (length example_scan_kd_trees) =
      [''/k/00.kdtree'', ''/k/01.kdtree'', ''/k/02.kdtree'']"
    by code_simp
  have same: "set (rev example_scan_fs) =
      set (files (scan_by_scan_index example_env scan_params short_locals []))"
    by (simp add: fs1)
  have dist2: "distinct (map fst (rev example_scan_fs))"
    by (simp add: example_scan_fs_def)
  note round_trip = scan_files_round_trip [OF a1 a2 plain absent dist stray gen made saves]
  note saved = round_trip [THEN conjunct2, THEN conjunct1]
  note rest = round_trip [THEN conjunct2, THEN conjunct2, THEN conjunct2, THEN conjunct2,
      THEN conjunct2, THEN conjunct2]
  note reload = rest [THEN conjunct1, rule_format, OF same dist2 a1 a2,
      of example_env scan_params]
  note in_order = rest [THEN conjunct2, rule_format, OF len]
  have "result (scan_by_scan_index example_env scan_params short_locals
      (rev example_scan_fs)) =
      Inr (short_locals\<lparr>v_scan_kd_trees := Some example_scan_kd_trees\<rparr>)"
    using reload by (simp only: in_order)
  with fs1 saved same show ?thesis
    by (simp only: names fs1)
qed

lemma scan_files_reloaded_nth:
  assumes none: "v_scan_kd_trees L = None" and path: "v_kd_tree_path L = Some d"
    and absent: "map_of fs d = None"
    and dist: "distinct (map fst fs)"
    and stray: "filter (glob_match (join d ''*.kdtree'')) (map fst fs) = []"
    and gen: "generate_scan_kd_trees_raises E = None"
    and made: "ts = generate_scan_kd_trees (v_swath_geometry L) (cell_size_degrees P)"
    and saves: "\<forall>j<length ts. KDTree_save_raises E (scan_filename d j) = None"
    and i: "i < length ts" and j: "j < length ts"
    and at: "sort (scan_filenames d 0 (length ts)) ! i = scan_filenames d 0 (length ts) ! j"
  shows "List.map_filter (held_index (files (scan_by_scan_index E P L fs)))
           (sort (scan_filenames d 0 (length ts))) ! i = ts ! j"
proof -
  let ?ks = "scan_filenames d 0 (length ts)"
  let ?fs1 = "files (scan_by_scan_index E P L fs)"
  note aux = scan_files_saved [OF none path absent dist stray gen made saves]
  have lks: "length ?ks = length ts"
    by (simp add: scan_filenames_def)
  have held: "map (held_index ?fs1) ?ks = map Some ts"
    using aux(6) by (rule held_index_files)
  then have "held_index ?fs1 k \<noteq> None" if "k \<in> set (sort ?ks)" for k
    using that by (intro held_index_present [of ?fs1 ?ks ts]) simp_all
  then have all: "map (held_index ?fs1) (sort ?ks) =
      map Some (List.map_filter (held_index ?fs1) (sort ?ks))"
    by (rule map_filter_all_Some)
  then have len: "length (List.map_filter (held_index ?fs1) (sort ?ks)) = length ts"
    using lks by (metis length_map length_sort)
  have "Some (List.map_filter (held_index ?fs1) (sort ?ks) ! i) =
      map Some (List.map_filter (held_index ?fs1) (sort ?ks)) ! i"
    using i len by simp
  also have "\<dots> = held_index ?fs1 (sort ?ks ! i)"
    unfolding all [symmetric] using i lks by simp
  also have "\<dots> = map (held_index ?fs1) ?ks ! j"
    unfolding at using j lks by simp
  also have "\<dots> = Some (ts ! j)"
    unfolding held using j by simp
  finally show ?thesis
    by simp
qed

lemma sort_101_scan_filenames:
  "sort (scan_filenames ''/k'' 0 101) ! 11 = scan_filenames ''/k'' 0 101 ! 100"
  by code_simp

lemma v_scan_kd_trees_after_saving:
  "v_scan_kd_trees (after_saving d i ts L) = v_scan_kd_trees L"
  by (simp add: after_saving_def)

text \<open>
  Claim C8, on a swath of 101 scan-lines and a directory \<open>/k\<close> that does not exist
  yet. The first run builds the indices of the scan-lines 0 to 100, in this order, and
  saves them as \<open>00.kdtree\<close> to \<open>99.kdtree\<close> and \<open>100.kdtree\<close>. The next run, on the
  files that the first one left, loads them in the lexical order of the names, in
  which \<open>100.kdtree\<close> comes before \<open>11.kdtree\<close>: position 11 of the loaded list holds
  the index of scan-line 100, where the first run had the index of scan-line 11.
\<close>

theorem scan_order_lost_at_101_scans:
  "scan_lines (v_swath_geometry many_scans_locals) = 101 \<and>
   loaded_scan_kd_trees (scan_by_scan_index example_env scan_params many_scans_locals []) ! 11 =
     ScanKDTree (Swath 101 4) (7 / 10000) 11 \<and>
   loaded_scan_kd_trees
     (scan_by_scan_index example_env scan_params many_scans_locals
        (files (scan_by_scan_index example_env scan_params many_scans_locals []))) ! 11 =
     ScanKDTree (Swath 101 4) (7 / 10000) 100"
proof (intro conjI)
  let ?ts = "map (ScanKDTree (Swath 101 4) (7 / 10000)) [0..<101]"
  let ?run = "scan_by_scan_index example_env scan_params many_scans_locals []"
  show "scan_lines (v_swath_geometry many_scans_locals) = 101"
    by (simp add: many_scans_locals_def)
  have none: "v_scan_kd_trees many_scans_locals = None"
    and path: "v_kd_tree_path many_scans_locals = Some ''/k''"
    by (simp_all add: many_scans_locals_def short_locals_def example_locals_def)
  have plain: "plain_directory ''/k''"
    by code_simp
  have absent: "map_of ([] :: filesystem) ''/k'' = None"
    and dist: "distinct (map fst ([] :: filesystem))"
    and stray: "filter (glob_match (join ''/k'' ''*.kdtree'')) (map fst ([] :: filesystem)) = []"
    by simp_all
  have gen: "generate_scan_kd_trees_raises example_env = None"
    by (simp add: example_env_def)
  have made: "?ts = generate_scan_kd_trees (v_swath_geometry many_scans_locals)
      (cell_size_degrees scan_params)"
    by (simp add: generate_scan_kd_trees_def many_scans_locals_def scan_params_def
        example_params_def)
  have saves: "\<forall>j<length ?ts. KDTree_save_raises example_env (scan_filename ''/k'' j) = None"
    by (simp add: example_env_def)
  have len: "length ?ts = 101"
    by simp
  have at: "?ts ! k = ScanKDTree (Swath 101 4) (7 / 10000) k" if "k < 101" for k
    using that by (simp del: upt_Suc)
  have "result ?run =
      Inr (after_saving ''/k'' 0 ?ts (many_scans_locals\<lparr>v_scan_kd_trees := Some ?ts\<rparr>))"
    by (simp only: scan_by_scan_index_build [OF none path absent gen made saves] result_triple)
  then have "loaded_scan_kd_trees ?run = ?ts"
    by (simp add: loaded_scan_kd_trees_def v_scan_kd_trees_after_saving)
  then show "loaded_scan_kd_trees ?run ! 11 = ScanKDTree (Swath 101 4) (7 / 10000) 11"
    by (simp only: at [of 11])
  note saved = scan_files_saved [OF none path absent dist stray gen made saves]
  have "result (scan_by_scan_index example_env scan_params many_scans_locals (files ?run)) =
      Inr (many_scans_locals\<lparr>v_scan_kd_trees :=
        Some (List.map_filter (held_index (files ?run))
          (sort (scan_filenames ''/k'' 0 (length ?ts))))\<rparr>)"
    using none path plain absent dist stray gen made saves refl saved(3) none path
    by (rule scan_files_reload)
  then have "loaded_scan_kd_trees
        (scan_by_scan_index example_env scan_params many_scans_locals (files ?run)) =
      List.map_filter (held_index (files ?run)) (sort (scan_filenames ''/k'' 0 (length ?ts)))"
    by (simp add: loaded_scan_kd_trees_def)
  moreover have "List.map_filter (held_index (files ?run))
        (sort (scan_filenames ''/k'' 0 (length ?ts))) ! 11 = ?ts ! 100"
    using none path absent dist stray gen made saves
  proof (rule scan_files_reloaded_nth)
    show "11 < length ?ts" and "100 < length ?ts"
      by simp_all
    show "sort (scan_filenames ''/k'' 0 (length ?ts)) ! 11 =
        scan_filenames ''/k'' 0 (length ?ts) ! 100"
      unfolding len by (rule sort_101_scan_filenames)
  qed
  ultimately show "loaded_scan_kd_trees
     (scan_by_scan_index example_env scan_params many_scans_locals (files ?run)) ! 11 =
     ScanKDTree (Swath 101 4) (7 / 10000) 100"
    by (simp only: at [of 100])
qed

section \<open>The default working directory of generate_L1_L2_RAD_LSTE_runconfig\<close>

lemma read_only_ret [simp]: "read_only (ret x)"
  by (simp add: read_only_def ret_def)

lemma read_only_raise [simp]: "read_only (raise e)"
  by (simp add: read_only_def raise_def)

lemma read_only_and_then:
  "read_only m \<Longrightarrow> (\<And>x. read_only (f x)) \<Longrightarrow> read_only (and_then m f)"
  by (auto simp: read_only_def files_and_then split: sum.splits)

lemma read_only_exists [simp]: "read_only (exists p)"
  by (simp add: read_only_def exists_def)

lemma read_only_glob [simp]: "read_only (glob E pattern)"
  by (simp add: read_only_def glob_def)

lemma read_only_raise_if [simp]: "read_only (raise_if b e)"
  by (simp add: raise_if_def)

lemma read_only_int_of [simp]: "read_only (int_of E s)"
  by (simp add: int_of_def split: option.splits)

lemma read_only_from_end [simp]: "read_only (from_end xs k)"
  by (simp add: from_end_def)

lemma read_only_find_granule [simp]: "read_only (find_granule E name label directory orb scn bld)"
  unfolding find_granule_def
  by (intro read_only_and_then read_only_glob) (simp_all add: read_only_and_then)

lemma read_only_find_inputs: "read_only (find_inputs E H A)"
  unfolding find_inputs_def Let_def
  by (intro read_only_and_then read_only_exists read_only_raise_if)
     (simp_all add: read_only_and_then split: option.splits)

lemma write_runconfig_no_output_directory:
  assumes "arg_working_directory A = None" and "arg_output_directory A = None"
  shows "write_runconfig E H A I = raise join_None"
  using assms by (simp add: write_runconfig_def join_opt_def)

lemma write_runconfig_no_runconfig_filename:
  assumes "arg_working_directory A = None" and "arg_output_directory A = Some d"
    and "arg_runconfig_filename A = None"
  shows "write_runconfig E H A I fs =
    (case new_L2LSTE E (abspath E (expanduser E (found_L2_LSTE_filename I)))
            (abspath E (expanduser E (found_L2_CLOUD_filename I)))
            (abspath E (expanduser E (found_L1B_GEO_filename I))) of
       Inl x \<Rightarrow> Inl (exn_of x)
     | Inr g \<Rightarrow> Inl join_None,
     fs,
     [NewL2LSTE (abspath E (expanduser E (found_L2_LSTE_filename I)))
        (abspath E (expanduser E (found_L2_CLOUD_filename I)))
        (abspath E (expanduser E (found_L1B_GEO_filename I)))])"
  using assms
  by (simp add: write_runconfig_def join_opt_def Let_def and_then_def emit_def
      collaborator_def raise_def ret_def split: sum.splits)

text \<open>
  Claim C10, as amended. In a call with \<open>working_directory\<close> left as \<open>None\<close> and
  \<open>output_directory\<close> or \<open>runconfig_filename\<close> also \<open>None\<close>, the function never
  returns a path and never changes the file system, so no default working directory
  is applied and no run-config is written. An exception raised by lines 67 to 152
  (the \<open>L2_LSTE\<close> file missing, a name from which orbit, scene or build cannot be
  read, an input granule neither given nor found) is the exception of the call. When
  these lines succeed and \<open>output_directory\<close> is \<open>None\<close>, the call raises the
  \<open>TypeError\<close> of \<open>join(None, ...)\<close> at line 155, having made no call after
  theirs. When they succeed, \<open>output_directory\<close> is given and \<open>runconfig_filename\<close>
  is \<open>None\<close>, the call opens the \<open>L2_LSTE\<close> granule and then raises that
  \<open>TypeError\<close> at line 196, or the exception of the granule's constructor.
\<close>

theorem working_directory_None_raises:
  assumes "arg_working_directory A = None"
    and "arg_output_directory A = None \<or> arg_runconfig_filename A = None"
  shows "(\<forall>f. result (generate_L1_L2_RAD_LSTE_runconfig E H A fs) \<noteq> Inr f) \<and>
         files (generate_L1_L2_RAD_LSTE_runconfig E H A fs) = fs \<and>
         (\<forall>e. result (find_inputs E H A fs) = Inl e \<longrightarrow>
            result (generate_L1_L2_RAD_LSTE_runconfig E H A fs) = Inl e) \<and>
         (\<forall>I t. find_inputs E H A fs = (Inr I, fs, t) \<longrightarrow> arg_output_directory A = None \<longrightarrow>
            generate_L1_L2_RAD_LSTE_runconfig E H A fs = (Inl join_None, fs, t)) \<and>
         (\<forall>I t d. find_inputs E H A fs = (Inr I, fs, t) \<longrightarrow> arg_output_directory A = Some d \<longrightarrow>
            generate_L1_L2_RAD_LSTE_runconfig E H A fs =
              (case new_L2LSTE E (abspath E (expanduser E (found_L2_LSTE_filename I)))
                      (abspath E (expanduser E (found_L2_CLOUD_filename I)))
                      (abspath E (expanduser E (found_L1B_GEO_filename I))) of
                 Inl x \<Rightarrow> Inl (exn_of x)
               | Inr g \<Rightarrow> Inl join_None,
               fs,
               t @ [NewL2LSTE (abspath E (expanduser E (found_L2_LSTE_filename I)))
                      (abspath E (expanduser E (found_L2_CLOUD_filename I)))
                      (abspath E (expanduser E (found_L1B_GEO_filename I)))])) \<and>
         join_None = TypeError ''expected str, bytes or os.PathLike object, not NoneType''"
proof -
  let ?find = "find_inputs E H A"
  let ?gen = "generate_L1_L2_RAD_LSTE_runconfig E H A"
  have gen: "?gen = and_then ?find (write_runconfig E H A)"
    by (simp add: generate_L1_L2_RAD_LSTE_runconfig_def)
  have same: "files (?find fs) = fs"
    using read_only_find_inputs [of E H A] by (simp add: read_only_def)
  have early: "result (?gen fs) = Inl e" if "result (?find fs) = Inl e" for e
    using that by (simp add: gen result_and_then)
  have first: "?gen fs = (Inl join_None, fs, t)"
    if "?find fs = (Inr I, fs, t)" and "arg_output_directory A = None" for I t
    using that assms(1)
    by (simp add: gen and_then_def write_runconfig_no_output_directory raise_def)
  have second: "?gen fs =
      (case new_L2LSTE E (abspath E (expanduser E (found_L2_LSTE_filename I)))
              (abspath E (expanduser E (found_L2_CLOUD_filename I)))
              (abspath E (expanduser E (found_L1B_GEO_filename I))) of
         Inl x \<Rightarrow> Inl (exn_of x)
       | Inr g \<Rightarrow> Inl join_None,
       fs,
       t @ [NewL2LSTE (abspath E (expanduser E (found_L2_LSTE_filename I)))
              (abspath E (expanduser E (found_L2_CLOUD_filename I)))
              (abspath E (expanduser E (found_L1B_GEO_filename I)))])"
    if found: "?find fs = (Inr I, fs, t)" and out: "arg_output_directory A = Some d" for I t d
  proof -
    from assms(2) out have "arg_runconfig_filename A = None"
      by simp
    with assms(1) out show ?thesis
      by (simp add: gen and_then_def found write_runconfig_no_runconfig_filename)
  qed
  have never: "result (?gen fs) \<noteq> Inr f" for f
  proof (cases "result (?find fs)")
    case (Inl e)
    then show ?thesis
      by (simp add: early)
  next
    case (Inr I)
    with same have found: "?find fs = (Inr I, fs, calls (?find fs))"
      using triple_eq [of "?find fs"] by simp
    show ?thesis
    proof (cases "arg_output_directory A")
      case None
      with first [OF found] show ?thesis
        by simp
    next
      case (Some d)
      with second [OF found] show ?thesis
        by (simp split: sum.splits)
    qed
  qed
  have kept: "files (?gen fs) = fs"
  proof (cases "result (?find fs)")
    case (Inl e)
    with same show ?thesis
      by (simp add: gen files_and_then)
  next
    case (Inr I)
    with same have found: "?find fs = (Inr I, fs, calls (?find fs))"
      using triple_eq [of "?find fs"] by simp
    show ?thesis
    proof (cases "arg_output_directory A")
      case None
      with first [OF found] show ?thesis
        by simp
    next
      case (Some d)
      with second [OF found] show ?thesis
        by simp
    qed
  qed
  from never kept early first second show ?thesis
    by (simp add: join_None_def)
qed

text \<open>
  The bare call beside its four granules raises the \<open>TypeError\<close> at line 155, and
  the same call with an output directory raises it at line 196, after the granule
  has been opened.
\<close>

theorem working_directory_None_raises_witness:
  "arg_working_directory bare_args = None \<and>
   arg_output_directory bare_args = None \<and>
   find_inputs granule_env example_host bare_args granules_fs =
     (Inr example_found_inputs, granules_fs, found_calls) \<and>
   generate_L1_L2_RAD_LSTE_runconfig granule_env example_host bare_args granules_fs =
     (Inl (TypeError ''expected str, bytes or os.PathLike object, not NoneType''),
      granules_fs, found_calls) \<and>
   generate_L1_L2_RAD_LSTE_runconfig granule_env example_host
       (bare_args\<lparr>arg_output_directory := Some ''/o''\<rparr>) granules_fs =
     (Inl (TypeError ''expected str, bytes or os.PathLike object, not NoneType''),
      granules_fs,
      found_calls @
      [NewL2LSTE ''/i/ECOv002_L2_LSTE_00007_005_20200101T000000_0700_01.h5''
         ''/i/ECOv002_L2_CLOUD_00007_005_20200101T000000_0700_01.h5''
         ''/i/ECOv002_L1B_GEO_00007_005_20200101T000000_0700_01.h5''])"
proof -
  have wd: "arg_working_directory bare_args = None"
    and out: "arg_output_directory bare_args = None"
    by (simp_all add: bare_args_def)
  have found: "find_inputs granule_env example_host bare_args granules_fs =
      (Inr example_found_inputs, granules_fs, found_calls)"
    by code_simp
  have wd2: "arg_working_directory (bare_args\<lparr>arg_output_directory := Some ''/o''\<rparr>) = None"
    and out2: "arg_output_directory (bare_args\<lparr>arg_output_directory := Some ''/o''\<rparr>) = Some ''/o''"
    and rc2: "arg_output_directory (bare_args\<lparr>arg_output_directory := Some ''/o''\<rparr>) = None \<or>
      arg_runconfig_filename (bare_args\<lparr>arg_output_directory := Some ''/o''\<rparr>) = None"
    by (simp_all add: bare_args_def)
  have found2: "find_inputs granule_env example_host
      (bare_args\<lparr>arg_output_directory := Some ''/o''\<rparr>) granules_fs =
      (Inr example_found_inputs, granules_fs, found_calls)"
    by code_simp
  have opened: "new_L2LSTE granule_env a b c = Inr example_granule" for a b c
    by (simp add: granule_env_def example_env_def)
  have ident: "abspath granule_env p = p" "expanduser granule_env p = p" for p
    by (simp_all add: granule_env_def example_env_def)
  note at1 = working_directory_None_raises [OF wd disjI1 [OF out],
      where E = granule_env and H = example_host and fs = granules_fs]
  note at2 = working_directory_None_raises [OF wd2 rc2,
      where E = granule_env and H = example_host and fs = granules_fs]
  have one: "generate_L1_L2_RAD_LSTE_runconfig granule_env example_host bare_args granules_fs =
      (Inl join_None, granules_fs, found_calls)"
    using at1 found out by blast
  have two: "generate_L1_L2_RAD_LSTE_runconfig granule_env example_host
      (bare_args\<lparr>arg_output_directory := Some ''/o''\<rparr>) granules_fs =
      (Inl join_None, granules_fs,
       found_calls @
       [NewL2LSTE (found_L2_LSTE_filename example_found_inputs)
          (found_L2_CLOUD_filename example_found_inputs)
          (found_L1B_GEO_filename example_found_inputs)])"
    using at2 [THEN conjunct2, THEN conjunct2, THEN conjunct2, THEN conjunct2, THEN conjunct1,
        THEN spec, THEN spec, THEN spec, THEN mp, OF found2, THEN mp, OF out2]
    by (simp add: opened ident)
  from wd out found one two show ?thesis
    by (simp add: join_None_def example_found_inputs_def)
qed

text \<open>
  Where lines 67 to 152 raise, theirs is the exception: the bare call on an existing
  \<open>L2_LSTE\<close> file with no other granule beside it raises the \<open>ValueError\<close> of
  line 101, not a \<open>TypeError\<close>.
\<close>

theorem missing_granule_counterexample:
  "map_of lone_fs (arg_L2_LSTE_filename bare_args) = Some (File ''lste'') \<and>
   arg_working_directory bare_args = None \<and>
   arg_output_directory bare_args = None \<and>
   arg_runconfig_filename bare_args = None \<and>
   generate_L1_L2_RAD_LSTE_runconfig granule_env example_host bare_args lone_fs =
     (Inl (ValueError ''no L2 CLOUD filename given or found''), lone_fs,
      [Exists ''/i/ECOv002_L2_LSTE_00007_005_20200101T000000_0700_01.h5'',
       Glob ''/i/*_L2_CLOUD_00007_005_*_0700_*.h5'',
       Glob ''/i/*_L2_CLOUD_00007_005_*.h5''])"
  by code_simp

end
